theory Spec2Isabelle
  imports Complex_Main
begin

section \<open>Synthetic supply-chain generator (faker-script.py)\<close>

text \<open>
  The script is a straight-line notebook: it seeds three pseudo-random generators
  (Python's \<^verbatim>\<open>random\<close>, NumPy's legacy global generator and Faker's shared
  generator), then builds suppliers, materials, BOM edges, the approved-supplier map and
  the purchase orders, in that order.

  The generators are external libraries. They enter the model as a parameter: a record
  of draw functions over three generator states, one per library. The argument checks the
  libraries make before drawing (and the exceptions these raise) are deterministic and are
  written out in the wrappers below; only the outcome of the draw itself comes from the
  parameter. Python floats are modelled as exact rationals: rounding of the floating-point
  operations is not modelled. An exception is a value \<open>Inl e\<close>; it ends the run.
\<close>

subsection \<open>Exceptions, and draws that thread the generator states\<close>

datatype py_error = ValueError | IndexError | KeyError

record ('r, 'n, 'f) gens =
  py :: 'r    \<comment> \<open>state of \<^verbatim>\<open>random\<close>\<close>
  np :: 'n    \<comment> \<open>state of \<^verbatim>\<open>np.random\<close>\<close>
  fk :: 'f    \<comment> \<open>state of the generator behind \<^verbatim>\<open>fake\<close>\<close>

type_synonym ('a, 'g) draw = "'g \<Rightarrow> py_error + ('a \<times> 'g)"

definition unitE :: "'a \<Rightarrow> ('a, 'g) draw" where
  "unitE a = (\<lambda>g. Inr (a, g))"

definition raiseE :: "py_error \<Rightarrow> ('a, 'g) draw" where
  "raiseE e = (\<lambda>g. Inl e)"

definition bindE :: "('a, 'g) draw \<Rightarrow> ('a \<Rightarrow> ('b, 'g) draw) \<Rightarrow> ('b, 'g) draw" where
  "bindE m f = (\<lambda>g. case m g of Inl e \<Rightarrow> Inl e | Inr (a, g') \<Rightarrow> f a g')"

text \<open>A \<^verbatim>\<open>for x in xs\<close> loop whose body updates an accumulator; it stops at the
  first exception.\<close>

fun for_each :: "('a \<Rightarrow> 'acc \<Rightarrow> ('acc, 'g) draw) \<Rightarrow> 'a list \<Rightarrow> 'acc \<Rightarrow> ('acc, 'g) draw" where
  "for_each body [] acc g = Inr (acc, g)"
| "for_each body (x # xs) acc g =
     (case body x acc g of Inl e \<Rightarrow> Inl e | Inr (acc', g') \<Rightarrow> for_each body xs acc' g')"

subsection \<open>The random libraries, as a parameter\<close>

record ('r, 'n, 'f) rnd_lib =
  rnd_random :: "'r \<Rightarrow> rat \<times> 'r"
  rnd_uniform :: "rat \<Rightarrow> rat \<Rightarrow> 'r \<Rightarrow> rat \<times> 'r"
  rnd_randint :: "int \<Rightarrow> int \<Rightarrow> 'r \<Rightarrow> int \<times> 'r"
  rnd_below :: "nat \<Rightarrow> 'r \<Rightarrow> nat \<times> 'r"
  rnd_choices :: "rat list \<Rightarrow> nat \<Rightarrow> 'r \<Rightarrow> nat list \<times> 'r"
  rnd_sample :: "nat \<Rightarrow> nat \<Rightarrow> 'r \<Rightarrow> nat list \<times> 'r"
  rnd_lognormvariate :: "rat \<Rightarrow> rat \<Rightarrow> 'r \<Rightarrow> rat \<times> 'r"
  np_zipf :: "rat \<Rightarrow> nat \<Rightarrow> 'n \<Rightarrow> nat list \<times> 'n"
  np_choice_p :: "rat list \<Rightarrow> 'n \<Rightarrow> nat \<times> 'n"
  np_choice_distinct :: "nat \<Rightarrow> nat \<Rightarrow> 'n \<Rightarrow> nat list \<times> 'n"
  np_poisson :: "rat \<Rightarrow> 'n \<Rightarrow> nat \<times> 'n"
  np_pareto :: "rat \<Rightarrow> 'n \<Rightarrow> rat \<times> 'n"
  fk_company :: "'f \<Rightarrow> string \<times> 'f"
  fk_date_between :: "int \<Rightarrow> int \<Rightarrow> 'f \<Rightarrow> int \<times> 'f"
  rnd_seed :: "nat \<Rightarrow> 'r \<Rightarrow> 'r"
  np_seed :: "nat \<Rightarrow> 'n \<Rightarrow> 'n"
  fk_seed :: "nat \<Rightarrow> 'f \<Rightarrow> 'f"

text \<open>
  What the libraries document about the outcome of each draw. Draws over a population
  return positions; the wrappers index the population with them.
\<close>

definition lib_ok :: "('r, 'n, 'f) rnd_lib \<Rightarrow> bool" where
  "lib_ok L \<longleftrightarrow>
     (\<forall>r. 0 \<le> fst (rnd_random L r) \<and> fst (rnd_random L r) < 1) \<and>
     (\<forall>a b r. a \<le> b \<longrightarrow> a \<le> fst (rnd_uniform L a b r) \<and> fst (rnd_uniform L a b r) \<le> b) \<and>
     (\<forall>a b r. a \<le> b \<longrightarrow> a \<le> fst (rnd_randint L a b r) \<and> fst (rnd_randint L a b r) \<le> b) \<and>
     (\<forall>n r. 0 < n \<longrightarrow> fst (rnd_below L n r) < n) \<and>
     (\<forall>ws k r. ws \<noteq> [] \<longrightarrow> length (fst (rnd_choices L ws k r)) = k \<and>
                 (\<forall>i \<in> set (fst (rnd_choices L ws k r)). i < length ws)) \<and>
     (\<forall>n k r. k \<le> n \<longrightarrow> length (fst (rnd_sample L n k r)) = k \<and>
                 distinct (fst (rnd_sample L n k r)) \<and>
                 (\<forall>i \<in> set (fst (rnd_sample L n k r)). i < n)) \<and>
     (\<forall>mu sigma r. 0 < fst (rnd_lognormvariate L mu sigma r)) \<and>
     (\<forall>a n s. length (fst (np_zipf L a n s)) = n \<and> (\<forall>z \<in> set (fst (np_zipf L a n s)). 1 \<le> z)) \<and>
     (\<forall>p s. p \<noteq> [] \<longrightarrow> fst (np_choice_p L p s) < length p) \<and>
     (\<forall>n k s. k \<le> n \<longrightarrow> length (fst (np_choice_distinct L n k s)) = k \<and>
                 distinct (fst (np_choice_distinct L n k s)) \<and>
                 (\<forall>i \<in> set (fst (np_choice_distinct L n k s)). i < n)) \<and>
     (\<forall>a s. 0 \<le> fst (np_pareto L a s)) \<and>
     (\<forall>a b f. a \<le> b \<longrightarrow> a \<le> fst (fk_date_between L a b f) \<and> fst (fk_date_between L a b f) \<le> b)"

subsection \<open>The library calls the script makes\<close>

text \<open>\<^verbatim>\<open>random.random()\<close>, \<^verbatim>\<open>random.uniform(a, b)\<close>, \<^verbatim>\<open>random.randint(a, b)\<close>,
  \<^verbatim>\<open>random.lognormvariate(mu, sigma)\<close>.\<close>

definition random_random :: "('r, 'n, 'f) rnd_lib \<Rightarrow> (rat, ('r, 'n, 'f) gens) draw" where
  "random_random L g = (case rnd_random L (py g) of (v, r') \<Rightarrow> Inr (v, g\<lparr>py := r'\<rparr>))"

definition random_uniform :: "('r, 'n, 'f) rnd_lib \<Rightarrow> rat \<Rightarrow> rat \<Rightarrow> (rat, ('r, 'n, 'f) gens) draw" where
  "random_uniform L a b g = (case rnd_uniform L a b (py g) of (v, r') \<Rightarrow> Inr (v, g\<lparr>py := r'\<rparr>))"

definition random_randint :: "('r, 'n, 'f) rnd_lib \<Rightarrow> int \<Rightarrow> int \<Rightarrow> (int, ('r, 'n, 'f) gens) draw" where
  "random_randint L a b g = (case rnd_randint L a b (py g) of (v, r') \<Rightarrow> Inr (v, g\<lparr>py := r'\<rparr>))"

definition random_lognormvariate ::
  "('r, 'n, 'f) rnd_lib \<Rightarrow> rat \<Rightarrow> rat \<Rightarrow> (rat, ('r, 'n, 'f) gens) draw" where
  "random_lognormvariate L mu sigma g =
     (case rnd_lognormvariate L mu sigma (py g) of (v, r') \<Rightarrow> Inr (v, g\<lparr>py := r'\<rparr>))"

text \<open>\<^verbatim>\<open>random.choice(seq)\<close>: IndexError on an empty sequence.\<close>

definition random_choice :: "('r, 'n, 'f) rnd_lib \<Rightarrow> 'a list \<Rightarrow> ('a, ('r, 'n, 'f) gens) draw" where
  "random_choice L seq g =
     (if seq = [] then Inl IndexError
      else case rnd_below L (length seq) (py g) of (i, r') \<Rightarrow> Inr (seq ! i, g\<lparr>py := r'\<rparr>))"

text \<open>\<^verbatim>\<open>random.choices(population, weights=weights, k=k)\<close>: ValueError when the
  number of weights differs from the population's, IndexError when both are empty,
  ValueError when the weights' total is not positive.\<close>

definition random_choices ::
  "('r, 'n, 'f) rnd_lib \<Rightarrow> 'a list \<Rightarrow> rat list \<Rightarrow> nat \<Rightarrow> ('a list, ('r, 'n, 'f) gens) draw" where
  "random_choices L population weights k g =
     (if length weights \<noteq> length population then Inl ValueError
      else if weights = [] then Inl IndexError
      else if sum_list weights \<le> 0 then Inl ValueError
      else case rnd_choices L weights k (py g) of
             (is, r') \<Rightarrow> Inr (map (\<lambda>i. population ! i) is, g\<lparr>py := r'\<rparr>))"

text \<open>\<^verbatim>\<open>random.sample(population, k=k)\<close>: ValueError when the sample is larger than
  the population.\<close>

definition random_sample ::
  "('r, 'n, 'f) rnd_lib \<Rightarrow> 'a list \<Rightarrow> nat \<Rightarrow> ('a list, ('r, 'n, 'f) gens) draw" where
  "random_sample L population k g =
     (if length population < k then Inl ValueError
      else case rnd_sample L (length population) k (py g) of
             (is, r') \<Rightarrow> Inr (map (\<lambda>i. population ! i) is, g\<lparr>py := r'\<rparr>))"

text \<open>\<^verbatim>\<open>np.random.zipf(a=a, size=n)\<close>, \<^verbatim>\<open>np.random.poisson(lam=lam)\<close>,
  \<^verbatim>\<open>np.random.pareto(a=a)\<close>.\<close>

definition np_random_zipf :: "('r, 'n, 'f) rnd_lib \<Rightarrow> rat \<Rightarrow> nat \<Rightarrow> (nat list, ('r, 'n, 'f) gens) draw" where
  "np_random_zipf L a n g = (case np_zipf L a n (np g) of (zs, s') \<Rightarrow> Inr (zs, g\<lparr>np := s'\<rparr>))"

definition np_random_poisson :: "('r, 'n, 'f) rnd_lib \<Rightarrow> rat \<Rightarrow> (nat, ('r, 'n, 'f) gens) draw" where
  "np_random_poisson L lam g = (case np_poisson L lam (np g) of (v, s') \<Rightarrow> Inr (v, g\<lparr>np := s'\<rparr>))"

definition np_random_pareto :: "('r, 'n, 'f) rnd_lib \<Rightarrow> rat \<Rightarrow> (rat, ('r, 'n, 'f) gens) draw" where
  "np_random_pareto L a g = (case np_pareto L a (np g) of (v, s') \<Rightarrow> Inr (v, g\<lparr>np := s'\<rparr>))"

text \<open>\<^verbatim>\<open>np.random.choice(a, p=p)\<close>, one element: ValueError when \<^verbatim>\<open>a\<close> is empty,
  when \<^verbatim>\<open>p\<close> has another length, when an entry of \<^verbatim>\<open>p\<close> is negative, or when
  the entries do not sum to 1 within the tolerance \<open>sqrt eps = 2\<^sup>-\<^sup>2\<^sup>6\<close>.\<close>

definition p_atol :: rat where
  "p_atol = 1 / 2 ^ 26"

definition valid_p :: "nat \<Rightarrow> rat list \<Rightarrow> bool" where
  "valid_p n p \<longleftrightarrow> length p = n \<and> (\<forall>x \<in> set p. 0 \<le> x) \<and> \<bar>sum_list p - 1\<bar> \<le> p_atol"

definition np_random_choice_p ::
  "('r, 'n, 'f) rnd_lib \<Rightarrow> 'a list \<Rightarrow> rat list \<Rightarrow> ('a, ('r, 'n, 'f) gens) draw" where
  "np_random_choice_p L a p g =
     (if a = [] then Inl ValueError
      else if \<not> valid_p (length a) p then Inl ValueError
      else case np_choice_p L p (np g) of (i, s') \<Rightarrow> Inr (a ! i, g\<lparr>np := s'\<rparr>))"

text \<open>\<^verbatim>\<open>np.random.choice(a, size=k, replace=False)\<close>, no \<^verbatim>\<open>p\<close>: a uniform draw of
  \<open>k\<close> distinct positions; ValueError when \<open>k\<close> exceeds the population.\<close>

definition np_random_choice_noreplace ::
  "('r, 'n, 'f) rnd_lib \<Rightarrow> 'a list \<Rightarrow> nat \<Rightarrow> ('a list, ('r, 'n, 'f) gens) draw" where
  "np_random_choice_noreplace L a k g =
     (if a = [] \<and> k \<noteq> 0 then Inl ValueError
      else if length a < k then Inl ValueError
      else case np_choice_distinct L (length a) k (np g) of
             (is, s') \<Rightarrow> Inr (map (\<lambda>i. a ! i) is, g\<lparr>np := s'\<rparr>))"

text \<open>\<^verbatim>\<open>fake.company()\<close>, \<^verbatim>\<open>fake.date_between(start_date=a, end_date=b)\<close>.\<close>

definition fake_company :: "('r, 'n, 'f) rnd_lib \<Rightarrow> (string, ('r, 'n, 'f) gens) draw" where
  "fake_company L g = (case fk_company L (fk g) of (v, f') \<Rightarrow> Inr (v, g\<lparr>fk := f'\<rparr>))"

definition fake_date_between ::
  "('r, 'n, 'f) rnd_lib \<Rightarrow> int \<Rightarrow> int \<Rightarrow> (int, ('r, 'n, 'f) gens) draw" where
  "fake_date_between L a b g =
     (case fk_date_between L a b (fk g) of (v, f') \<Rightarrow> Inr (v, g\<lparr>fk := f'\<rparr>))"

subsection \<open>Python helpers: int(), round(), str(), zfill(), date()\<close>

text \<open>\<^verbatim>\<open>int(x)\<close> of a float truncates toward zero.\<close>

definition py_int :: "rat \<Rightarrow> int" where
  "py_int x = (if 0 \<le> x then \<lfloor>x\<rfloor> else \<lceil>x\<rceil>)"

text \<open>\<^verbatim>\<open>round(x, d)\<close>: to \<open>d\<close> decimals, ties to even.\<close>

definition round_half_even :: "rat \<Rightarrow> int" where
  "round_half_even y =
     (let f = \<lfloor>y\<rfloor>; r = y - of_int f
      in if r < 1 / 2 then f else if 1 / 2 < r then f + 1 else if even f then f else f + 1)"

definition py_round :: "rat \<Rightarrow> nat \<Rightarrow> rat" where
  "py_round x d = of_int (round_half_even (x * 10 ^ d)) / 10 ^ d"

definition digit_char :: "nat \<Rightarrow> char" where
  "digit_char d = ''0123456789'' ! d"

fun str_nat :: "nat \<Rightarrow> string" where
  "str_nat n = (if n < 10 then [digit_char n] else str_nat (n div 10) @ [digit_char (n mod 10)])"

declare str_nat.simps [simp del]

definition zfill :: "nat \<Rightarrow> string \<Rightarrow> string" where
  "zfill w s = replicate (w - length s) (CHR ''0'') @ s"

text \<open>A \<^verbatim>\<open>date\<close> is its proleptic Gregorian ordinal, as \<^verbatim>\<open>date.toordinal()\<close>
  gives it; adding a \<^verbatim>\<open>timedelta(days=n)\<close> adds \<open>n\<close>.\<close>

definition is_leap :: "int \<Rightarrow> bool" where
  "is_leap y \<longleftrightarrow> y mod 4 = 0 \<and> (y mod 100 \<noteq> 0 \<or> y mod 400 = 0)"

definition days_before_year :: "int \<Rightarrow> int" where
  "days_before_year year = (let y = year - 1 in y * 365 + y div 4 - y div 100 + y div 400)"

definition days_before_month :: "int \<Rightarrow> int \<Rightarrow> int" where
  "days_before_month year month =
     [0, 0, 31, 59, 90, 120, 151, 181, 212, 243, 273, 304, 334] ! nat month
       + (if 2 < month \<and> is_leap year then 1 else 0)"

definition date :: "int \<Rightarrow> int \<Rightarrow> int \<Rightarrow> int" where
  "date year month day = days_before_year year + days_before_month year month + day"

subsection \<open>Configuration and records\<close>

text \<open>The counts are natural numbers: \<^verbatim>\<open>range\<close> of a negative count is
  empty, like \<^verbatim>\<open>range(0)\<close>.\<close>

record config =
  NUM_SUPPLIERS :: nat
  NUM_MATERIALS :: nat
  TARGET_PO_COUNT :: nat
  TIER_DISTRIBUTION :: "rat list"
  COUNTRY_WEIGHTS :: "(string \<times> rat) list"   \<comment> \<open>the dict, in insertion order\<close>

record supplier =
  supplier_id :: string
  name :: string
  country :: string
  capacity_score :: int

record material =
  material_id :: string
  description :: string
  tier_level :: nat
  base_unit :: string
  cost_estimate :: rat

record bom_edge =
  parent_material_id :: string
  child_material_id :: string
  quantity :: rat

record order_record =
  po_id :: string
  po_supplier_id :: string
  po_material_id :: string
  order_date :: int
  due_date :: int
  receipt_date :: "int option"
  quantity_ordered :: int
  quantity_received :: int
  unit_price :: rat

subsection \<open>Supplier nodes (lines 97-116)\<close>

text \<open>\<^verbatim>\<open>ndarray.max()\<close> raises ValueError on an empty array.\<close>

fun np_max :: "nat list \<Rightarrow> py_error + nat" where
  "np_max [] = Inl ValueError"
| "np_max (z # zs) = Inr (fold max zs z)"

text \<open>The normalised score is computed here over the rationals. In floating point the
  quotient is rounded before it is scaled, so the truncated score can be one less than
  here (a draw of 29 with maximum 50 gives 28 in the script and 29 here). The range
  [1, 50] and the number of scores are the same in both.\<close>

definition dominance_scores ::
  "('r, 'n, 'f) rnd_lib \<Rightarrow> nat \<Rightarrow> (int list, ('r, 'n, 'f) gens) draw" where
  "dominance_scores L n =
     bindE (np_random_zipf L (3 / 2) n) (\<lambda>zs.
       case np_max zs of
         Inl e \<Rightarrow> raiseE e
       | Inr mx \<Rightarrow> unitE (map (\<lambda>z. py_int (max (of_nat z / of_nat mx * 50) 1)) zs))"

definition supplier_body ::
  "('r, 'n, 'f) rnd_lib \<Rightarrow> string list \<Rightarrow> rat list \<Rightarrow> int list \<Rightarrow> nat \<Rightarrow> supplier list
     \<Rightarrow> (supplier list, ('r, 'n, 'f) gens) draw" where
  "supplier_body L countries weights scores i suppliers =
     bindE (random_choices L countries weights 1) (\<lambda>cs.
       case cs of
         [] \<Rightarrow> raiseE IndexError
       | c # _ \<Rightarrow>
           bindE (fake_company L) (\<lambda>nm.
             if i < length scores
             then unitE (suppliers @
                    [\<lparr>supplier_id = ''SUP_'' @ c @ ''_'' @ zfill 5 (str_nat (i + 1)),
                      name = nm, country = c, capacity_score = scores ! i\<rparr>])
             else raiseE IndexError))"

definition gen_suppliers ::
  "('r, 'n, 'f) rnd_lib \<Rightarrow> config \<Rightarrow> (supplier list, ('r, 'n, 'f) gens) draw" where
  "gen_suppliers L cfg =
     (let countries = map fst (COUNTRY_WEIGHTS cfg); weights = map snd (COUNTRY_WEIGHTS cfg)
      in bindE (dominance_scores L (NUM_SUPPLIERS cfg)) (\<lambda>scores.
           for_each (supplier_body L countries weights scores) [0 ..< NUM_SUPPLIERS cfg] []))"

subsection \<open>Material nodes (lines 127-151)\<close>

definition tier_names :: "nat \<Rightarrow> string list option" where
  "tier_names = map_of
     [(0, [''EV_Sedan'', ''EV_SUV'', ''EV_Truck'']),
      (1, [''Battery_Pack_HighRange'', ''Battery_Pack_Std'', ''Inverter_Assy'', ''Drive_Unit'']),
      (2, [''Module_LFP'', ''Module_NMC'', ''BMS_Circuit'', ''Cooling_Plate'']),
      (3, [''Cell_Prismatic'', ''Cell_Cylindrical_4680'', ''Cell_Pouch'', ''Anode_Sheet'']),
      (4, [''Lithium_Hydroxide'', ''Cobalt_Sulfate'', ''Nickel_Class1'', ''Graphite_Synth'',
           ''Copper_Foil''])]"

definition material_body ::
  "('r, 'n, 'f) rnd_lib \<Rightarrow> rat list \<Rightarrow> nat \<Rightarrow> material list
     \<Rightarrow> (material list, ('r, 'n, 'f) gens) draw" where
  "material_body L tier_distribution i materials =
     bindE (np_random_choice_p L [0, 1, 2, 3, 4] tier_distribution) (\<lambda>tier.
       case tier_names tier of
         None \<Rightarrow> raiseE KeyError
       | Some names \<Rightarrow>
           bindE (random_choice L names) (\<lambda>base_name.
             bindE (random_lognormvariate L 3 1) (\<lambda>x.
               unitE (materials @
                 [\<lparr>material_id = ''MAT_T'' @ str_nat tier @ ''_'' @ zfill 5 (str_nat (i + 1)),
                   description = base_name,
                   tier_level = tier,
                   base_unit = (if tier < 4 then ''EA'' else ''KG''),
                   cost_estimate = py_round (x * of_int (5 - int tier)) 2\<rparr>]))))"

definition gen_materials ::
  "('r, 'n, 'f) rnd_lib \<Rightarrow> config \<Rightarrow> (material list, ('r, 'n, 'f) gens) draw" where
  "gen_materials L cfg =
     for_each (material_body L (TIER_DISTRIBUTION cfg)) [0 ..< NUM_MATERIALS cfg] []"

subsection \<open>BOM edges (lines 168-200)\<close>

text \<open>\<^verbatim>\<open>df_materials.groupby("tier_level")["material_id"].apply(list).to_dict()\<close>: a frame
  built from no records has no column \<^verbatim>\<open>tier_level\<close>, and \<^verbatim>\<open>groupby\<close> raises
  KeyError; otherwise the dict has one key per tier that occurs.\<close>

definition mats_by_tier :: "material list \<Rightarrow> py_error + (nat \<Rightarrow> string list option)" where
  "mats_by_tier materials =
     (if materials = [] then Inl KeyError
      else Inr (\<lambda>t. let ids = map material_id (filter (\<lambda>m. tier_level m = t) materials)
                    in if ids = [] then None else Some ids))"

text \<open>\<^verbatim>\<open>d.get(k, [])\<close>\<close>

definition get_or_empty :: "('k \<Rightarrow> 'v list option) \<Rightarrow> 'k \<Rightarrow> 'v list" where
  "get_or_empty d k = (case d k of None \<Rightarrow> [] | Some v \<Rightarrow> v)"

definition edge_body ::
  "('r, 'n, 'f) rnd_lib \<Rightarrow> nat \<Rightarrow> string \<Rightarrow> string \<Rightarrow> bom_edge list
     \<Rightarrow> (bom_edge list, ('r, 'n, 'f) gens) draw" where
  "edge_body L tier parent child bom_edges =
     bindE (random_uniform L 1 20) (\<lambda>u.
       bindE (if tier = 3
              then bindE (random_uniform L (1 / 2) 5) (\<lambda>u3. unitE (py_round u3 3))
              else unitE (py_round u 2)) (\<lambda>qty.
         unitE (bom_edges @
           [\<lparr>parent_material_id = parent, child_material_id = child, quantity = qty\<rparr>])))"

definition select_children ::
  "('r, 'n, 'f) rnd_lib \<Rightarrow> nat \<Rightarrow> string list \<Rightarrow> nat \<Rightarrow> (string list, ('r, 'n, 'f) gens) draw" where
  "select_children L tier potential_children num_children =
     (if tier = 3
      then np_random_choice_noreplace L potential_children num_children
      else random_sample L potential_children (min (length potential_children) num_children))"

definition parent_body ::
  "('r, 'n, 'f) rnd_lib \<Rightarrow> nat \<Rightarrow> string list \<Rightarrow> string \<Rightarrow> bom_edge list
     \<Rightarrow> (bom_edge list, ('r, 'n, 'f) gens) draw" where
  "parent_body L tier potential_children parent bom_edges =
     bindE (np_random_poisson L (4 - of_nat tier * (1 / 2))) (\<lambda>n.
       let num_children = max 1 n
       in bindE (select_children L tier potential_children num_children) (\<lambda>children.
            for_each (edge_body L tier parent) children bom_edges))"

definition tier_body ::
  "('r, 'n, 'f) rnd_lib \<Rightarrow> (nat \<Rightarrow> string list option) \<Rightarrow> nat \<Rightarrow> bom_edge list
     \<Rightarrow> (bom_edge list, ('r, 'n, 'f) gens) draw" where
  "tier_body L by_tier tier bom_edges =
     (let parents = get_or_empty by_tier tier;
          potential_children = get_or_empty by_tier (tier + 1)
      in if potential_children = [] then unitE bom_edges
         else for_each (parent_body L tier potential_children) parents bom_edges)"

definition gen_bom ::
  "('r, 'n, 'f) rnd_lib \<Rightarrow> material list \<Rightarrow> (bom_edge list, ('r, 'n, 'f) gens) draw" where
  "gen_bom L materials =
     (case mats_by_tier materials of
        Inl e \<Rightarrow> raiseE e
      | Inr by_tier \<Rightarrow> for_each (tier_body L by_tier) [0 ..< 4] [])"

subsection \<open>Approved supplier list (lines 232-241)\<close>

text \<open>The arguments of \<^verbatim>\<open>random.choices\<close> are evaluated left to right, so
  \<^verbatim>\<open>random.randint(1, 3)\<close> draws first.\<close>

definition asl_body ::
  "('r, 'n, 'f) rnd_lib \<Rightarrow> supplier list \<Rightarrow> material \<Rightarrow> (string \<Rightarrow> string list option)
     \<Rightarrow> (string \<Rightarrow> string list option, ('r, 'n, 'f) gens) draw" where
  "asl_body L supplier_list mat mat_supplier_map =
     bindE (random_randint L 1 3) (\<lambda>k.
       bindE (random_choices L supplier_list
                (map (\<lambda>s. of_int (capacity_score s)) supplier_list) (nat k)) (\<lambda>candidates.
         unitE (mat_supplier_map(material_id mat \<mapsto> map supplier_id candidates))))"

definition gen_asl ::
  "('r, 'n, 'f) rnd_lib \<Rightarrow> supplier list \<Rightarrow> material list
     \<Rightarrow> (string \<Rightarrow> string list option, ('r, 'n, 'f) gens) draw" where
  "gen_asl L supplier_list material_list =
     for_each (asl_body L supplier_list) material_list Map.empty"

subsection \<open>Purchase orders (lines 249-302)\<close>

definition current_date :: int where
  "current_date = date 2025 10 31"

text \<open>Lines 269-284. Besides the two fields of the record, the result carries the
  category that was drawn (\<open>None\<close> for an open order, where none is drawn): the script
  does not store it. The partial quantity is the truncated exact product; the rounded
  floating-point product can truncate to one less or one more, and lies in the same
  range from 0 to below the ordered quantity.\<close>

definition fulfillment ::
  "('r, 'n, 'f) rnd_lib \<Rightarrow> int \<Rightarrow> int \<Rightarrow> (int \<times> int option \<times> string option, ('r, 'n, 'f) gens) draw" where
  "fulfillment L due quantity_ord =
     (if current_date < due then unitE (0, None, None)
      else bindE (np_random_choice_p L [''Full'', ''Partial'', ''Missing'']
                    [85 / 100, 10 / 100, 5 / 100]) (\<lambda>fulfillment_status.
             if fulfillment_status = ''Full''
             then bindE (random_randint L (- 2) 10) (\<lambda>d.
                    unitE (quantity_ord, Some (due + d), Some fulfillment_status))
             else if fulfillment_status = ''Partial''
             then bindE (random_uniform L (1 / 10) (9 / 10)) (\<lambda>u.
                    bindE (random_randint L 1 15) (\<lambda>d.
                      unitE (py_int (of_int quantity_ord * u), Some (due + d),
                             Some fulfillment_status)))
             else unitE (0, None, Some fulfillment_status)))"

definition draw_quantity_ordered ::
  "('r, 'n, 'f) rnd_lib \<Rightarrow> (int, ('r, 'n, 'f) gens) draw" where
  "draw_quantity_ordered L =
     bindE (random_random L) (\<lambda>u.
       let is_bulk = u < 20 / 100
       in if is_bulk
          then bindE (np_random_pareto L (116 / 100)) (\<lambda>x. unitE (py_int (x * 50) + 1))
          else random_randint L 1 100)"

definition po_iteration ::
  "('r, 'n, 'f) rnd_lib \<Rightarrow> material list \<Rightarrow> (string \<Rightarrow> string list option) \<Rightarrow> nat
     \<Rightarrow> (order_record \<times> string option, ('r, 'n, 'f) gens) draw" where
  "po_iteration L material_list mat_supplier_map po_id_counter =
     bindE (random_choice L material_list) (\<lambda>mat.
       case mat_supplier_map (material_id mat) of
         None \<Rightarrow> raiseE KeyError
       | Some valid_suppliers \<Rightarrow>
           bindE (random_choice L valid_suppliers) (\<lambda>sup_id.
             bindE (fake_date_between L (date 2024 1 1) (date 2025 12 31)) (\<lambda>po_date.
               bindE (random_randint L 14 90) (\<lambda>lead_time.
                 let due = po_date + lead_time
                 in bindE (draw_quantity_ordered L) (\<lambda>quantity_ord.
                      bindE (fulfillment L due quantity_ord) (\<lambda>(quantity_rec, receipt, status).
                        bindE (random_uniform L (95 / 100) (105 / 100)) (\<lambda>noise.
                          let price = cost_estimate mat * noise
                          in unitE
                               (\<lparr>po_id = ''PO-'' @ str_nat po_id_counter,
                                 po_supplier_id = sup_id,
                                 po_material_id = material_id mat,
                                 order_date = po_date,
                                 due_date = due,
                                 receipt_date = receipt,
                                 quantity_ordered = quantity_ord,
                                 quantity_received = quantity_rec,
                                 unit_price = py_round price 2\<rparr>, status))))))))"

text \<open>The \<^verbatim>\<open>while current_po_count < TARGET_PO_COUNT\<close> loop. \<open>status_log\<close> records,
  beside \<open>order_records\<close>, the category drawn in each iteration.\<close>

function po_loop ::
  "('r, 'n, 'f) rnd_lib \<Rightarrow> material list \<Rightarrow> (string \<Rightarrow> string list option) \<Rightarrow> nat
     \<Rightarrow> nat \<Rightarrow> nat \<Rightarrow> order_record list \<Rightarrow> string option list
     \<Rightarrow> (order_record list \<times> string option list, ('r, 'n, 'f) gens) draw" where
  "po_loop L material_list mat_supplier_map target current_po_count po_id_counter
       order_records status_log g =
     (if current_po_count < target
      then case po_iteration L material_list mat_supplier_map po_id_counter g of
             Inl e \<Rightarrow> Inl e
           | Inr ((order, status), g') \<Rightarrow>
               po_loop L material_list mat_supplier_map target (current_po_count + 1)
                 (po_id_counter + 1) (order_records @ [order]) (status_log @ [status]) g'
      else Inr ((order_records, status_log), g))"
  by pat_completeness auto
termination
  by (relation "measure (\<lambda>(L, ml, msm, target, cnt, rest). target - cnt)") auto

declare po_loop.simps [simp del]

definition gen_orders ::
  "('r, 'n, 'f) rnd_lib \<Rightarrow> config \<Rightarrow> material list \<Rightarrow> (string \<Rightarrow> string list option)
     \<Rightarrow> (order_record list \<times> string option list, ('r, 'n, 'f) gens) draw" where
  "gen_orders L cfg material_list mat_supplier_map =
     po_loop L material_list mat_supplier_map (TARGET_PO_COUNT cfg) 0 100000 [] []"

subsection \<open>The whole run\<close>

text \<open>The four record sets the script exports, with the approved-supplier map and the
  log of drawn categories beside them. The export itself (dropping the internal columns,
  writing the files) is not modelled.\<close>

record dataset =
  df_suppliers :: "supplier list"
  df_materials :: "material list"
  df_bom :: "bom_edge list"
  df_po :: "order_record list"
  asl_map :: "string \<Rightarrow> string list option"
  po_status_log :: "string option list"

definition pipeline ::
  "('r, 'n, 'f) rnd_lib \<Rightarrow> config \<Rightarrow> (dataset, ('r, 'n, 'f) gens) draw" where
  "pipeline L cfg =
     bindE (gen_suppliers L cfg) (\<lambda>suppliers.
       bindE (gen_materials L cfg) (\<lambda>materials.
         bindE (gen_bom L materials) (\<lambda>bom_edges.
           bindE (gen_asl L suppliers materials) (\<lambda>mat_supplier_map.
             bindE (gen_orders L cfg materials mat_supplier_map) (\<lambda>(orders, statuses).
               unitE \<lparr>df_suppliers = suppliers, df_materials = materials,
                      df_bom = bom_edges, df_po = orders,
                      asl_map = mat_supplier_map, po_status_log = statuses\<rparr>)))))"

text \<open>The constants of the script.\<close>

definition script_config :: config where
  "script_config =
     \<lparr>NUM_SUPPLIERS = 3000, NUM_MATERIALS = 7000, TARGET_PO_COUNT = 80000,
      TIER_DISTRIBUTION = [5 / 100, 10 / 100, 20 / 100, 30 / 100, 35 / 100],
      COUNTRY_WEIGHTS = [(''CN'', 45 / 100), (''KR'', 15 / 100), (''JP'', 10 / 100),
                         (''DE'', 10 / 100), (''US'', 10 / 100), (''XX'', 10 / 100)]\<rparr>"

text \<open>
  Lines 45-49. When the script starts, each of the three generators is in whatever state
  the interpreter gave it (the libraries initialise them from the operating system's
  entropy): this is the argument \<open>g\<close> below, which differs from run to run. The script
  then calls \<^verbatim>\<open>Faker.seed(seed)\<close>, \<^verbatim>\<open>np.random.seed(seed)\<close> and
  \<^verbatim>\<open>random.seed(seed)\<close>, in this order, before any draw.
\<close>

definition seed :: nat where
  "seed = 42"

definition seed_all :: "('r, 'n, 'f) rnd_lib \<Rightarrow> nat \<Rightarrow> ('r, 'n, 'f) gens \<Rightarrow> ('r, 'n, 'f) gens" where
  "seed_all L s g =
     (let g1 = g\<lparr>fk := fk_seed L s (fk g)\<rparr>;
          g2 = g1\<lparr>np := np_seed L s (np g1)\<rparr>
      in g2\<lparr>py := rnd_seed L s (py g2)\<rparr>)"

text \<open>The script from its first line: the result is the exported record sets, or the
  exception that ended the run.\<close>

definition run_script ::
  "('r, 'n, 'f) rnd_lib \<Rightarrow> nat \<Rightarrow> config \<Rightarrow> ('r, 'n, 'f) gens \<Rightarrow> py_error + dataset" where
  "run_script L s cfg g = map_sum id fst (pipeline L cfg (seed_all L s g))"

text \<open>What the libraries document about seeding: it reinitialises the generator, so the
  state after it depends on the seed and not on the state before.\<close>

definition seed_resets :: "('r, 'n, 'f) rnd_lib \<Rightarrow> bool" where
  "seed_resets L \<longleftrightarrow>
     (\<forall>s r r'. rnd_seed L s r = rnd_seed L s r') \<and>
     (\<forall>s n n'. np_seed L s n = np_seed L s n') \<and>
     (\<forall>s f f'. fk_seed L s f = fk_seed L s f')"

subsection \<open>A replayed random stream\<close>

text \<open>
  One instance of the library parameter, for running the model on concrete inputs: each
  generator state is the list of the outcomes still to come, written down in advance. A
  draw takes the next recorded outcome if it lies in the range the call allows, and the
  lowest value of the range otherwise (also once the list is used up). Seeding replaces
  the list by one that holds the seed alone.
\<close>

fun pop :: "rat list \<Rightarrow> rat \<times> rat list" where
  "pop [] = (0, [])"
| "pop (x # xs) = (x, xs)"

fun pops :: "nat \<Rightarrow> rat list \<Rightarrow> rat list \<times> rat list" where
  "pops 0 xs = ([], xs)"
| "pops (Suc n) xs = (case pop xs of (x, xs') \<Rightarrow> case pops n xs' of (ys, xs'') \<Rightarrow> (x # ys, xs''))"

definition as_index :: "nat \<Rightarrow> rat \<Rightarrow> nat" where
  "as_index n x = (if 0 \<le> x \<and> nat \<lfloor>x\<rfloor> < n then nat \<lfloor>x\<rfloor> else 0)"

definition as_int_in :: "int \<Rightarrow> int \<Rightarrow> rat \<Rightarrow> int" where
  "as_int_in a b x = (if a \<le> \<lfloor>x\<rfloor> \<and> \<lfloor>x\<rfloor> \<le> b then \<lfloor>x\<rfloor> else a)"

definition as_rat_in :: "rat \<Rightarrow> rat \<Rightarrow> rat \<Rightarrow> rat" where
  "as_rat_in a b x = (if a \<le> x \<and> x \<le> b then x else a)"

definition replay :: "(rat list, rat list, rat list) rnd_lib" where
  "replay =
     \<lparr>rnd_random = (\<lambda>r. case pop r of (x, r') \<Rightarrow> (if 0 \<le> x \<and> x < 1 then x else 0, r')),
      rnd_uniform = (\<lambda>a b r. case pop r of (x, r') \<Rightarrow> (as_rat_in a b x, r')),
      rnd_randint = (\<lambda>a b r. case pop r of (x, r') \<Rightarrow> (as_int_in a b x, r')),
      rnd_below = (\<lambda>n r. case pop r of (x, r') \<Rightarrow> (as_index n x, r')),
      rnd_choices = (\<lambda>ws k r. case pops k r of (xs, r') \<Rightarrow> (map (as_index (length ws)) xs, r')),
      rnd_sample = (\<lambda>n k r. case pop r of (x, r') \<Rightarrow> (take k (rotate (as_index n x) [0 ..< n]), r')),
      rnd_lognormvariate = (\<lambda>mu sigma r. case pop r of (x, r') \<Rightarrow> (if 0 < x then x else 1, r')),
      np_zipf = (\<lambda>a n s. case pops n s of (xs, s') \<Rightarrow> (map (\<lambda>x. max 1 (nat \<lfloor>x\<rfloor>)) xs, s')),
      np_choice_p = (\<lambda>p s. case pop s of (x, s') \<Rightarrow> (as_index (length p) x, s')),
      np_choice_distinct =
        (\<lambda>n k s. case pop s of (x, s') \<Rightarrow> (take k (rotate (as_index n x) [0 ..< n]), s')),
      np_poisson = (\<lambda>lam s. case pop s of (x, s') \<Rightarrow> (nat \<lfloor>x\<rfloor>, s')),
      np_pareto = (\<lambda>a s. case pop s of (x, s') \<Rightarrow> (if 0 \<le> x then x else 0, s')),
      fk_company = (\<lambda>f. (''Acme Ltd'', f)),
      fk_date_between = (\<lambda>a b f. case pop f of (x, f') \<Rightarrow> (as_int_in a b (of_int a + x), f')),
      rnd_seed = (\<lambda>s r. [of_nat s]),
      np_seed = (\<lambda>s n. [of_nat s]),
      fk_seed = (\<lambda>s f. [of_nat s])\<rparr>"

text \<open>The three recorded streams of a run.\<close>

definition tapes :: "rat list \<Rightarrow> rat list \<Rightarrow> rat list \<Rightarrow> (rat list, rat list, rat list) gens" where
  "tapes r n f = \<lparr>py = r, np = n, fk = f\<rparr>"

subsection \<open>Small concrete inputs\<close>

text \<open>One raw material and its approved supplier, for running the order loop on
  recorded streams.\<close>

definition sample_materials :: "material list" where
  "sample_materials =
     [\<lparr>material_id = ''MAT_T4_00001'', description = ''Copper_Foil'', tier_level = 4,
       base_unit = ''KG'', cost_estimate = 10\<rparr>]"

definition sample_asl :: "string \<Rightarrow> string list option" where
  "sample_asl = [''MAT_T4_00001'' \<mapsto> [''SUP_CN_00001'']]"

definition sample_suppliers :: "supplier list" where
  "sample_suppliers =
     [\<lparr>supplier_id = ''SUP_CN_00001'', name = ''Acme Ltd'', country = ''CN'',
       capacity_score = 50\<rparr>,
      \<lparr>supplier_id = ''SUP_KR_00002'', name = ''Acme Ltd'', country = ''KR'',
       capacity_score = 1\<rparr>]"

text \<open>The script's configuration scaled down to one supplier, two materials and one
  purchase order.\<close>

definition small_config :: config where
  "small_config = script_config\<lparr>NUM_SUPPLIERS := 1, NUM_MATERIALS := 2, TARGET_PO_COUNT := 1\<rparr>"

section \<open>Properties\<close>

lemma bindE_Inr:
  "bindE m f g = Inr (b, g'') \<longleftrightarrow> (\<exists>a g'. m g = Inr (a, g') \<and> f a g' = Inr (b, g''))"
  by (auto simp: bindE_def split: sum.splits)

lemma bindE_Inl:
  "bindE m f g = Inl e \<longleftrightarrow> m g = Inl e \<or> (\<exists>a g'. m g = Inr (a, g') \<and> f a g' = Inl e)"
  by (auto simp: bindE_def split: sum.splits)

lemma unitE_Inr: "unitE a g = Inr (b, g') \<longleftrightarrow> b = a \<and> g' = g"
  by (auto simp: unitE_def)

lemma raiseE_Inr: "raiseE e g \<noteq> Inr x"
  by (simp add: raiseE_def)

lemma for_each_invariant:
  assumes "for_each body xs acc g = Inr (acc', g')"
    and "P acc"
    and "\<And>x a h a' h'. x \<in> set xs \<Longrightarrow> P a \<Longrightarrow> body x a h = Inr (a', h') \<Longrightarrow> P a'"
  shows "P acc'"
  using assms
proof (induction xs arbitrary: acc g)
  case Nil
  then show ?case by simp
next
  case (Cons x xs)
  from Cons.prems(1) obtain a1 g1 where
    step: "body x acc g = Inr (a1, g1)" and rest: "for_each body xs a1 g1 = Inr (acc', g')"
    by (auto split: sum.splits)
  have "P a1" using Cons.prems(3)[of x acc g a1 g1] Cons.prems(2) step by simp
  show ?case
  proof (rule Cons.IH[OF rest \<open>P a1\<close>])
    fix y a h a' h'
    assume "y \<in> set xs" "P a" "body y a h = Inr (a', h')"
    then show "P a'" using Cons.prems(3)[of y a h a' h'] by simp
  qed
qed

lemma for_each_total:
  assumes "\<And>x a h. x \<in> set xs \<Longrightarrow> \<exists>a' h'. body x a h = Inr (a', h')"
  shows "\<exists>acc' g'. for_each body xs acc g = Inr (acc', g')"
  using assms
proof (induction xs arbitrary: acc g)
  case Nil
  then show ?case by simp
next
  case (Cons x xs)
  obtain a1 g1 where step: "body x acc g = Inr (a1, g1)"
    using Cons.prems[of x acc g] by auto
  have "\<exists>acc' g'. for_each body xs a1 g1 = Inr (acc', g')"
    using Cons.IH[of a1 g1] Cons.prems by simp
  then show ?case using step by simp
qed

lemma length_pops: "length (fst (pops n xs)) = n"
proof (induction n arbitrary: xs)
  case 0
  show ?case by simp
next
  case (Suc n)
  obtain x xs' where p: "pop xs = (x, xs')" by (cases "pop xs")
  obtain ys xs'' where q: "pops n xs' = (ys, xs'')" by (cases "pops n xs'")
  have "length ys = n" using Suc[of xs'] q by simp
  then show ?case using p q by simp
qed

lemma as_index_less: "0 < n \<Longrightarrow> as_index n x < n"
  by (simp add: as_index_def)

lemma as_int_in_range: "a \<le> b \<Longrightarrow> a \<le> as_int_in a b x \<and> as_int_in a b x \<le> b"
  by (simp add: as_int_in_def)

lemma as_rat_in_range: "a \<le> b \<Longrightarrow> a \<le> as_rat_in a b x \<and> as_rat_in a b x \<le> b"
  by (simp add: as_rat_in_def)

lemma take_rotate_positions:
  assumes "k \<le> n"
  shows "length (take k (rotate i [0 ..< n])) = k"
    and "distinct (take k (rotate i [0 ..< n]))"
    and "\<forall>j \<in> set (take k (rotate i [0 ..< n])). j < n"
proof -
  show "length (take k (rotate i [0 ..< n])) = k" using assms by simp
  show "distinct (take k (rotate i [0 ..< n]))" by simp
  have "set (take k (rotate i [0 ..< n])) \<subseteq> set (rotate i [0 ..< n])" by (rule set_take_subset)
  then show "\<forall>j \<in> set (take k (rotate i [0 ..< n])). j < n" by auto
qed


lemma replay_sel [simp]:
  "rnd_random replay = (\<lambda>r. case pop r of (x, r') \<Rightarrow> (if 0 \<le> x \<and> x < 1 then x else 0, r'))"
  "rnd_uniform replay = (\<lambda>a b r. case pop r of (x, r') \<Rightarrow> (as_rat_in a b x, r'))"
  "rnd_randint replay = (\<lambda>a b r. case pop r of (x, r') \<Rightarrow> (as_int_in a b x, r'))"
  "rnd_below replay = (\<lambda>n r. case pop r of (x, r') \<Rightarrow> (as_index n x, r'))"
  "rnd_choices replay = (\<lambda>ws k r. case pops k r of (xs, r') \<Rightarrow> (map (as_index (length ws)) xs, r'))"
  "rnd_sample replay = (\<lambda>n k r. case pop r of (x, r') \<Rightarrow> (take k (rotate (as_index n x) [0 ..< n]), r'))"
  "rnd_lognormvariate replay = (\<lambda>mu sigma r. case pop r of (x, r') \<Rightarrow> (if 0 < x then x else 1, r'))"
  "np_zipf replay = (\<lambda>a n s. case pops n s of (xs, s') \<Rightarrow> (map (\<lambda>x. max 1 (nat \<lfloor>x\<rfloor>)) xs, s'))"
  "np_choice_p replay = (\<lambda>p s. case pop s of (x, s') \<Rightarrow> (as_index (length p) x, s'))"
  "np_choice_distinct replay =
        (\<lambda>n k s. case pop s of (x, s') \<Rightarrow> (take k (rotate (as_index n x) [0 ..< n]), s'))"
  "np_poisson replay = (\<lambda>lam s. case pop s of (x, s') \<Rightarrow> (nat \<lfloor>x\<rfloor>, s'))"
  "np_pareto replay = (\<lambda>a s. case pop s of (x, s') \<Rightarrow> (if 0 \<le> x then x else 0, s'))"
  "fk_company replay = (\<lambda>f. (''Acme Ltd'', f))"
  "fk_date_between replay = (\<lambda>a b f. case pop f of (x, f') \<Rightarrow> (as_int_in a b (of_int a + x), f'))"
  "rnd_seed replay = (\<lambda>s r. [of_nat s])"
  "np_seed replay = (\<lambda>s n. [of_nat s])"
  "fk_seed replay = (\<lambda>s f. [of_nat s])"
  by (simp_all add: replay_def)

lemma fst_case_pop: "fst (case pop r of (x, r') \<Rightarrow> (h x, r')) = h (fst (pop r))"
  by (cases "pop r") simp

lemma fst_case_pops: "fst (case pops k r of (xs, r') \<Rightarrow> (h xs, r')) = h (fst (pops k r))"
  by (cases "pops k r") simp

lemma replay_ok: "lib_ok replay"
  unfolding lib_ok_def
proof (intro conjI allI impI)
  fix r :: "rat list"
  show "0 \<le> fst (rnd_random replay r)" by (simp add: fst_case_pop)
  show "fst (rnd_random replay r) < 1" by (simp add: fst_case_pop)
next
  fix a b :: rat and r :: "rat list" assume "a \<le> b"
  then show "a \<le> fst (rnd_uniform replay a b r)" "fst (rnd_uniform replay a b r) \<le> b"
    by (simp_all add: fst_case_pop as_rat_in_range)
next
  fix a b :: int and r :: "rat list" assume "a \<le> b"
  then show "a \<le> fst (rnd_randint replay a b r)" "fst (rnd_randint replay a b r) \<le> b"
    by (simp_all add: fst_case_pop as_int_in_range)
next
  fix n :: nat and r :: "rat list" assume "0 < n"
  then show "fst (rnd_below replay n r) < n" by (simp add: fst_case_pop as_index_less)
next
  fix ws :: "rat list" and k :: nat and r :: "rat list" assume "ws \<noteq> []"
  show "length (fst (rnd_choices replay ws k r)) = k" by (simp add: fst_case_pops length_pops)
  show "\<forall>i \<in> set (fst (rnd_choices replay ws k r)). i < length ws"
    using \<open>ws \<noteq> []\<close> by (simp add: fst_case_pops as_index_less)
next
  fix n k :: nat and r :: "rat list" assume "k \<le> n"
  then show "length (fst (rnd_sample replay n k r)) = k"
    "distinct (fst (rnd_sample replay n k r))"
    by (simp_all only: replay_sel fst_case_pop take_rotate_positions)
  show "\<forall>i \<in> set (fst (rnd_sample replay n k r)). i < n"
    unfolding replay_sel fst_case_pop using \<open>k \<le> n\<close> by (rule take_rotate_positions(3))
next
  fix mu sigma :: rat and r :: "rat list"
  show "0 < fst (rnd_lognormvariate replay mu sigma r)" by (simp add: fst_case_pop)
next
  fix a :: rat and n :: nat and s :: "rat list"
  show "length (fst (np_zipf replay a n s)) = n" by (simp add: fst_case_pops length_pops)
  show "\<forall>z \<in> set (fst (np_zipf replay a n s)). 1 \<le> z" by (simp add: fst_case_pops)
next
  fix p :: "rat list" and s :: "rat list" assume "p \<noteq> []"
  then show "fst (np_choice_p replay p s) < length p" by (simp add: fst_case_pop as_index_less)
next
  fix n k :: nat and s :: "rat list" assume "k \<le> n"
  then show "length (fst (np_choice_distinct replay n k s)) = k"
    "distinct (fst (np_choice_distinct replay n k s))"
    by (simp_all only: replay_sel fst_case_pop take_rotate_positions)
  show "\<forall>i \<in> set (fst (np_choice_distinct replay n k s)). i < n"
    unfolding replay_sel fst_case_pop using \<open>k \<le> n\<close> by (rule take_rotate_positions(3))
next
  fix a :: rat and s :: "rat list"
  show "0 \<le> fst (np_pareto replay a s)" by (simp add: fst_case_pop)
next
  fix a b :: int and f :: "rat list" assume "a \<le> b"
  then show "a \<le> fst (fk_date_between replay a b f)" "fst (fk_date_between replay a b f) \<le> b"
    by (simp_all add: fst_case_pop as_int_in_range)
qed

subsection \<open>What the wrapped draws return\<close>

lemma random_random_range:
  assumes "lib_ok L" "random_random L g = Inr (v, g')"
  shows "0 \<le> v \<and> v < 1"
proof -
  have "v = fst (rnd_random L (py g))"
    using assms(2) by (auto simp: random_random_def split: prod.splits)
  then show ?thesis using assms(1) by (simp add: lib_ok_def)
qed

lemma random_uniform_range:
  assumes "lib_ok L" "a \<le> b" "random_uniform L a b g = Inr (v, g')"
  shows "a \<le> v \<and> v \<le> b"
proof -
  have "v = fst (rnd_uniform L a b (py g))"
    using assms(3) by (auto simp: random_uniform_def split: prod.splits)
  then show ?thesis using assms(1,2) by (simp add: lib_ok_def)
qed

lemma random_randint_range:
  assumes "lib_ok L" "a \<le> b" "random_randint L a b g = Inr (v, g')"
  shows "a \<le> v \<and> v \<le> b"
proof -
  have "v = fst (rnd_randint L a b (py g))"
    using assms(3) by (auto simp: random_randint_def split: prod.splits)
  then show ?thesis using assms(1,2) by (simp add: lib_ok_def)
qed

lemma random_choice_member:
  assumes "lib_ok L" "random_choice L seq g = Inr (v, g')"
  shows "v \<in> set seq"
proof -
  have ne: "seq \<noteq> []" using assms(2) by (auto simp: random_choice_def split: if_splits)
  then have "v = seq ! fst (rnd_below L (length seq) (py g))"
    using assms(2) by (auto simp: random_choice_def split: prod.splits)
  moreover have "fst (rnd_below L (length seq) (py g)) < length seq"
    using assms(1) ne by (simp add: lib_ok_def)
  ultimately show ?thesis by simp
qed

lemma np_random_choice_p_member:
  assumes "lib_ok L" "np_random_choice_p L a p g = Inr (v, g')"
  shows "v \<in> set a"
proof -
  have ne: "a \<noteq> []" and vp: "valid_p (length a) p"
    using assms(2) by (auto simp: np_random_choice_p_def split: if_splits)
  then have "v = a ! fst (np_choice_p L p (np g))"
    using assms(2) by (auto simp: np_random_choice_p_def split: prod.splits)
  moreover have "p \<noteq> []" using ne vp by (auto simp: valid_p_def)
  then have "fst (np_choice_p L p (np g)) < length p"
    using assms(1) by (simp add: lib_ok_def)
  ultimately show ?thesis using vp by (simp add: valid_p_def)
qed

lemma np_random_pareto_nonneg:
  assumes "lib_ok L" "np_random_pareto L a g = Inr (v, g')"
  shows "0 \<le> v"
proof -
  have "v = fst (np_pareto L a (np g))"
    using assms(2) by (auto simp: np_random_pareto_def split: prod.splits)
  then show ?thesis using assms(1) by (simp add: lib_ok_def)
qed

lemma fake_date_between_range:
  assumes "lib_ok L" "a \<le> b" "fake_date_between L a b g = Inr (v, g')"
  shows "a \<le> v \<and> v \<le> b"
proof -
  have "v = fst (fk_date_between L a b (fk g))"
    using assms(3) by (auto simp: fake_date_between_def split: prod.splits)
  then show ?thesis using assms(1,2) by (simp add: lib_ok_def)
qed

subsection \<open>One purchase order\<close>

lemma py_int_partial:
  assumes "1 \<le> q" "1 / 10 \<le> u" "u \<le> 9 / 10"
  shows "0 \<le> py_int (of_int q * u)" and "py_int (of_int q * u) < q"
proof -
  have qpos: "(0::rat) < of_int q" using assms(1) by simp
  have nonneg: "0 \<le> of_int q * u" using qpos assms(2) by simp
  then show "0 \<le> py_int (of_int q * u)" by (simp add: py_int_def)
  have "of_int q * u \<le> of_int q * (9 / 10)"
    using qpos assms(3) by (simp add: mult_left_mono)
  also have "\<dots> < of_int q" using qpos by simp
  finally have "of_int q * u < of_int q" .
  then have "\<lfloor>of_int q * u\<rfloor> < q" by (simp add: floor_less_iff)
  then show "py_int (of_int q * u) < q" using nonneg by (simp add: py_int_def)
qed

lemma draw_quantity_ordered_pos:
  assumes "lib_ok L" "draw_quantity_ordered L g = Inr (q, g')"
  shows "1 \<le> q"
proof -
  from assms(2) obtain u g1 where
    u: "random_random L g = Inr (u, g1)" and
    rest: "(if u < 20 / 100
            then bindE (np_random_pareto L (116 / 100)) (\<lambda>x. unitE (py_int (x * 50) + 1))
            else random_randint L 1 100) g1 = Inr (q, g')"
    by (auto simp: draw_quantity_ordered_def bindE_Inr Let_def)
  show ?thesis
  proof (cases "u < 20 / 100")
    case True
    with rest obtain x g2 where x: "np_random_pareto L (116 / 100) g1 = Inr (x, g2)"
      and q: "q = py_int (x * 50) + 1"
      by (auto simp: bindE_Inr unitE_Inr)
    have "0 \<le> x" using np_random_pareto_nonneg[OF assms(1) x] .
    then have "0 \<le> py_int (x * 50)" by (simp add: py_int_def)
    then show ?thesis using q by simp
  next
    case False
    with rest have "random_randint L 1 100 g1 = Inr (q, g')" by simp
    then show ?thesis using random_randint_range[OF assms(1), of 1 100] by simp
  qed
qed

lemma fulfillment_open:
  assumes "current_date < due"
  shows "fulfillment L due q g = Inr ((0, None, None), g)"
  using assms by (simp add: fulfillment_def unitE_def)

lemma fulfillment_resolved:
  assumes ok: "lib_ok L" and q: "1 \<le> q" and due: "due \<le> current_date"
    and run: "fulfillment L due q g = Inr ((rcv, receipt, st), g')"
  shows "(st = Some ''Full'' \<and> rcv = q \<and> (\<exists>d. - 2 \<le> d \<and> d \<le> 10 \<and> receipt = Some (due + d))) \<or>
         (st = Some ''Partial'' \<and> 0 \<le> rcv \<and> rcv < q \<and>
            (\<exists>d. 1 \<le> d \<and> d \<le> 15 \<and> receipt = Some (due + d))) \<or>
         (st = Some ''Missing'' \<and> rcv = 0 \<and> receipt = None)"
proof -
  let ?body = "\<lambda>fulfillment_status.
             if fulfillment_status = ''Full''
             then bindE (random_randint L (- 2) 10) (\<lambda>d.
                    unitE (q, Some (due + d), Some fulfillment_status))
             else if fulfillment_status = ''Partial''
             then bindE (random_uniform L (1 / 10) (9 / 10)) (\<lambda>u.
                    bindE (random_randint L 1 15) (\<lambda>d.
                      unitE (py_int (of_int q * u), Some (due + d),
                             Some fulfillment_status)))
             else unitE (0, None, Some fulfillment_status)"
  from run due obtain s g1 where
    s: "np_random_choice_p L [''Full'', ''Partial'', ''Missing'']
                    [85 / 100, 10 / 100, 5 / 100] g = Inr (s, g1)"
    and rest: "?body s g1 = Inr ((rcv, receipt, st), g')"
    by (auto simp: fulfillment_def bindE_Inr)
  have "s \<in> set [''Full'', ''Partial'', ''Missing'']"
    using np_random_choice_p_member[OF ok s] .
  then consider "s = ''Full''" | "s = ''Partial''" | "s = ''Missing''" by auto
  then show ?thesis
  proof cases
    case 1
    with rest obtain d g2 where d: "random_randint L (- 2) 10 g1 = Inr (d, g2)"
      and res: "rcv = q" "receipt = Some (due + d)" "st = Some ''Full''"
      by (auto simp: bindE_Inr unitE_Inr)
    have "- 2 \<le> d \<and> d \<le> 10" using random_randint_range[OF ok _ d] by simp
    then show ?thesis using res by blast
  next
    case 2
    with rest obtain u g2 d g3 where u: "random_uniform L (1 / 10) (9 / 10) g1 = Inr (u, g2)"
      and d: "random_randint L 1 15 g2 = Inr (d, g3)"
      and res: "rcv = py_int (of_int q * u)" "receipt = Some (due + d)" "st = Some ''Partial''"
      by (auto simp: bindE_Inr unitE_Inr)
    have ur: "1 / 10 \<le> u \<and> u \<le> 9 / 10" using random_uniform_range[OF ok _ u] by simp
    have dr: "1 \<le> d \<and> d \<le> 15" using random_randint_range[OF ok _ d] by simp
    have "0 \<le> rcv" "rcv < q" using py_int_partial[OF q] ur res(1) by simp_all
    then show ?thesis using res dr by blast
  next
    case 3
    with rest have "rcv = 0" "receipt = None" "st = Some ''Missing''"
      by (auto simp: unitE_Inr)
    then show ?thesis by blast
  qed
qed

lemma date_window: "date 2024 1 1 = 738886" "date 2025 12 31 = 739616" "current_date = 739555"
  by (simp_all add: current_date_def date_def days_before_year_def days_before_month_def
      is_leap_def Let_def)

text \<open>What one iteration of the order loop returns: the fields of the record, and how
  they relate to the material list, the approved-supplier map and the drawn category.\<close>

lemma po_iteration_fields:
  assumes ok: "lib_ok L"
    and run: "po_iteration L material_list mat_supplier_map ctr g = Inr ((ord, st), g')"
  shows "\<exists>mat valid_suppliers lead h h'.
           mat \<in> set material_list \<and>
           mat_supplier_map (material_id mat) = Some valid_suppliers \<and>
           po_material_id ord = material_id mat \<and>
           po_supplier_id ord \<in> set valid_suppliers \<and>
           po_id ord = ''PO-'' @ str_nat ctr \<and>
           date 2024 1 1 \<le> order_date ord \<and> order_date ord \<le> date 2025 12 31 \<and>
           14 \<le> lead \<and> lead \<le> 90 \<and> due_date ord = order_date ord + lead \<and>
           1 \<le> quantity_ordered ord \<and>
           fulfillment L (due_date ord) (quantity_ordered ord) h
             = Inr ((quantity_received ord, receipt_date ord, st), h')"
proof -
  from run obtain mat g1 where
    mat: "random_choice L material_list g = Inr (mat, g1)" and
    r1: "(case mat_supplier_map (material_id mat) of
         None \<Rightarrow> raiseE KeyError
       | Some valid_suppliers \<Rightarrow>
           bindE (random_choice L valid_suppliers) (\<lambda>sup_id.
             bindE (fake_date_between L (date 2024 1 1) (date 2025 12 31)) (\<lambda>po_date.
               bindE (random_randint L 14 90) (\<lambda>lead_time.
                 let due = po_date + lead_time
                 in bindE (draw_quantity_ordered L) (\<lambda>quantity_ord.
                      bindE (fulfillment L due quantity_ord) (\<lambda>(quantity_rec, receipt, status).
                        bindE (random_uniform L (95 / 100) (105 / 100)) (\<lambda>noise.
                          let price = cost_estimate mat * noise
                          in unitE
                               (\<lparr>po_id = ''PO-'' @ str_nat ctr,
                                 po_supplier_id = sup_id,
                                 po_material_id = material_id mat,
                                 order_date = po_date,
                                 due_date = due,
                                 receipt_date = receipt,
                                 quantity_ordered = quantity_ord,
                                 quantity_received = quantity_rec,
                                 unit_price = py_round price 2\<rparr>, status)))))))) g1
          = Inr ((ord, st), g')"
    unfolding po_iteration_def bindE_Inr by blast
  from r1 obtain vs where vs: "mat_supplier_map (material_id mat) = Some vs"
    by (cases "mat_supplier_map (material_id mat)") (auto simp: raiseE_def)
  from r1 vs obtain sup g2 po_date g3 lead g4 qo g5 rcv receipt status g6 noise g7 where
    sup: "random_choice L vs g1 = Inr (sup, g2)" and
    pd: "fake_date_between L (date 2024 1 1) (date 2025 12 31) g2 = Inr (po_date, g3)" and
    lead: "random_randint L 14 90 g3 = Inr (lead, g4)" and
    qo: "draw_quantity_ordered L g4 = Inr (qo, g5)" and
    ful: "fulfillment L (po_date + lead) qo g5 = Inr ((rcv, receipt, status), g6)" and
    noise: "random_uniform L (95 / 100) (105 / 100) g6 = Inr (noise, g7)" and
    res: "ord = \<lparr>po_id = ''PO-'' @ str_nat ctr,
                 po_supplier_id = sup,
                 po_material_id = material_id mat,
                 order_date = po_date,
                 due_date = po_date + lead,
                 receipt_date = receipt,
                 quantity_ordered = qo,
                 quantity_received = rcv,
                 unit_price = py_round (cost_estimate mat * noise) 2\<rparr>" "st = status"
    by (auto simp: bindE_Inr unitE_Inr Let_def split: prod.splits)
  have "mat \<in> set material_list" using random_choice_member[OF ok mat] .
  moreover have "sup \<in> set vs" using random_choice_member[OF ok sup] .
  moreover have "date 2024 1 1 \<le> po_date \<and> po_date \<le> date 2025 12 31"
    by (rule fake_date_between_range[OF ok _ pd]) (simp only: date_window)
  moreover have "14 \<le> lead \<and> lead \<le> 90" using random_randint_range[OF ok _ lead] by simp
  moreover have "1 \<le> qo" using draw_quantity_ordered_pos[OF ok qo] .
  ultimately show ?thesis
    using vs res ful
    by (intro exI[of _ mat] exI[of _ vs] exI[of _ lead] exI[of _ g5] exI[of _ g6]) simp
qed

subsection \<open>The order loop\<close>

lemma po_loop_invariant:
  assumes "po_loop L ml msm target cnt ctr recs slog g = Inr ((recs', slog'), g')"
    and "P recs slog"
    and "\<And>c h ord st h' rs sl.
            po_iteration L ml msm c h = Inr ((ord, st), h') \<Longrightarrow> P rs sl
            \<Longrightarrow> P (rs @ [ord]) (sl @ [st])"
  shows "P recs' slog'"
  using assms
proof (induction L ml msm target cnt ctr recs slog g rule: po_loop.induct)
  case (1 L ml msm target cnt ctr recs slog g)
  show ?case
  proof (cases "cnt < target")
    case False
    then show ?thesis using "1.prems" by (simp add: po_loop.simps)
  next
    case True
    with "1.prems"(1) obtain ord st g1 where
      it: "po_iteration L ml msm ctr g = Inr ((ord, st), g1)" and
      rest: "po_loop L ml msm target (cnt + 1) (ctr + 1) (recs @ [ord]) (slog @ [st]) g1
               = Inr ((recs', slog'), g')"
      by (auto simp: po_loop.simps[of L ml msm target cnt] split: sum.splits)
    have "P (recs @ [ord]) (slog @ [st])" using "1.prems"(3)[OF it "1.prems"(2)] .
    then show ?thesis using "1.IH"[OF True it] rest "1.prems"(3) by simp
  qed
qed

lemma po_loop_ids:
  assumes "po_loop L ml msm target cnt ctr recs slog g = Inr ((recs', slog'), g')"
  shows "map po_id recs' =
           map po_id recs @ map (\<lambda>i. ''PO-'' @ str_nat (ctr + i)) [0 ..< target - cnt]
         \<and> length slog' = length slog + (target - cnt)"
  using assms
proof (induction L ml msm target cnt ctr recs slog g rule: po_loop.induct)
  case (1 L ml msm target cnt ctr recs slog g)
  show ?case
  proof (cases "cnt < target")
    case False
    then show ?thesis using "1.prems" by (simp add: po_loop.simps)
  next
    case True
    with "1.prems"(1) obtain ord st g1 where
      it: "po_iteration L ml msm ctr g = Inr ((ord, st), g1)" and
      rest: "po_loop L ml msm target (cnt + 1) (ctr + 1) (recs @ [ord]) (slog @ [st]) g1
               = Inr ((recs', slog'), g')"
      by (auto simp: po_loop.simps[of L ml msm target cnt] split: sum.splits)
    have id: "po_id ord = ''PO-'' @ str_nat ctr"
    proof -
      from it show ?thesis
        by (auto simp: po_iteration_def bindE_Inr unitE_Inr raiseE_def Let_def
            split: option.splits prod.splits)
    qed
    have step: "target - cnt = Suc (target - (cnt + 1))" using True by simp
    have shift: "map (\<lambda>i. ''PO-'' @ str_nat (ctr + i)) [0 ..< Suc (target - (cnt + 1))]
        = (''PO-'' @ str_nat ctr) # map (\<lambda>i. ''PO-'' @ str_nat (ctr + 1 + i)) [0 ..< target - (cnt + 1)]"
      by (simp add: upt_conv_Cons map_Suc_upt[symmetric] del: upt_Suc)
    from "1.IH"[OF True it] rest
    have "map po_id recs' = map po_id (recs @ [ord]) @
            map (\<lambda>i. ''PO-'' @ str_nat (ctr + 1 + i)) [0 ..< target - (cnt + 1)]
          \<and> length slog' = length (slog @ [st]) + (target - (cnt + 1))"
      by simp
    then show ?thesis
      unfolding step shift using id by simp
  qed
qed

subsection \<open>Draws that cannot fail\<close>

lemma random_random_returns: "\<exists>v g'. random_random L g = Inr (v, g')"
  by (simp add: random_random_def split: prod.splits)

lemma random_uniform_returns: "\<exists>v g'. random_uniform L a b g = Inr (v, g')"
  by (simp add: random_uniform_def split: prod.splits)

lemma random_randint_returns: "\<exists>v g'. random_randint L a b g = Inr (v, g')"
  by (simp add: random_randint_def split: prod.splits)

lemma random_lognormvariate_returns: "\<exists>v g'. random_lognormvariate L mu sigma g = Inr (v, g')"
  by (simp add: random_lognormvariate_def split: prod.splits)

lemma np_random_pareto_returns: "\<exists>v g'. np_random_pareto L a g = Inr (v, g')"
  by (simp add: np_random_pareto_def split: prod.splits)

lemma np_random_poisson_returns: "\<exists>v g'. np_random_poisson L lam g = Inr (v, g')"
  by (simp add: np_random_poisson_def split: prod.splits)

lemma fake_company_returns: "\<exists>v g'. fake_company L g = Inr (v, g')"
  by (simp add: fake_company_def split: prod.splits)

lemma fake_date_between_returns: "\<exists>v g'. fake_date_between L a b g = Inr (v, g')"
  by (simp add: fake_date_between_def split: prod.splits)

lemma random_choice_returns: "seq \<noteq> [] \<Longrightarrow> \<exists>v g'. random_choice L seq g = Inr (v, g')"
  by (simp add: random_choice_def split: prod.splits)

lemma np_random_choice_p_returns:
  "a \<noteq> [] \<Longrightarrow> valid_p (length a) p \<Longrightarrow> \<exists>v g'. np_random_choice_p L a p g = Inr (v, g')"
  by (simp add: np_random_choice_p_def split: prod.splits)

lemma random_choices_returns:
  "length weights = length population \<Longrightarrow> weights \<noteq> [] \<Longrightarrow> 0 < sum_list weights
     \<Longrightarrow> \<exists>v g'. random_choices L population weights k g = Inr (v, g')"
  by (simp add: random_choices_def split: prod.splits)

lemma bindE_returns: "m g = Inr (a, g1) \<Longrightarrow> f a g1 = Inr r \<Longrightarrow> bindE m f g = Inr r"
  by (simp add: bindE_def)

lemma status_p_valid: "valid_p (length [''Full'', ''Partial'', ''Missing'']) [85 / 100, 10 / 100, 5 / 100]"
  by (simp add: valid_p_def p_atol_def)

lemma draw_quantity_ordered_returns: "\<exists>q g'. draw_quantity_ordered L g = Inr (q, g')"
proof -
  obtain u g1 where u: "random_random L g = Inr (u, g1)"
    using random_random_returns by blast
  show ?thesis
  proof (cases "u < 20 / 100")
    case True
    obtain x g2 where "np_random_pareto L (116 / 100) g1 = Inr (x, g2)"
      using np_random_pareto_returns by blast
    then show ?thesis using u True
      by (simp add: draw_quantity_ordered_def bindE_def unitE_def)
  next
    case False
    obtain q g2 where "random_randint L 1 100 g1 = Inr (q, g2)"
      using random_randint_returns by blast
    then show ?thesis using u False
      by (simp add: draw_quantity_ordered_def bindE_def)
  qed
qed

lemma fulfillment_returns:
  assumes "lib_ok L"
  shows "\<exists>r g'. fulfillment L due q g = Inr (r, g')"
proof (cases "current_date < due")
  case True
  then show ?thesis by (simp add: fulfillment_open)
next
  case False
  obtain s g1 where s: "np_random_choice_p L [''Full'', ''Partial'', ''Missing'']
                    [85 / 100, 10 / 100, 5 / 100] g = Inr (s, g1)"
    using np_random_choice_p_returns[OF _ status_p_valid] by blast
  obtain d g2 where d: "random_randint L (- 2) 10 g1 = Inr (d, g2)"
    using random_randint_returns by blast
  obtain u g3 where u: "random_uniform L (1 / 10) (9 / 10) g1 = Inr (u, g3)"
    using random_uniform_returns by blast
  obtain d' g4 where d': "random_randint L 1 15 g3 = Inr (d', g4)"
    using random_randint_returns by blast
  show ?thesis using False s d u d'
    by (simp add: fulfillment_def bindE_def unitE_def)
qed

lemma po_iteration_returns:
  assumes ok: "lib_ok L" and ne: "material_list \<noteq> []"
    and cover: "\<forall>m \<in> set material_list.
                  \<exists>vs. mat_supplier_map (material_id m) = Some vs \<and> vs \<noteq> []"
  shows "\<exists>r g'. po_iteration L material_list mat_supplier_map ctr g = Inr (r, g')"
proof -
  obtain mat g1 where mat: "random_choice L material_list g = Inr (mat, g1)"
    using random_choice_returns[OF ne] by blast
  have "mat \<in> set material_list" using random_choice_member[OF ok mat] .
  then obtain vs where vs: "mat_supplier_map (material_id mat) = Some vs" "vs \<noteq> []"
    using cover by blast
  obtain sup g2 where sup: "random_choice L vs g1 = Inr (sup, g2)"
    using random_choice_returns[OF vs(2)] by blast
  obtain po_date g3 where
    pd: "fake_date_between L (date 2024 1 1) (date 2025 12 31) g2 = Inr (po_date, g3)"
    using fake_date_between_returns by blast
  obtain lead g4 where lead: "random_randint L 14 90 g3 = Inr (lead, g4)"
    using random_randint_returns by blast
  obtain qo g5 where qo: "draw_quantity_ordered L g4 = Inr (qo, g5)"
    using draw_quantity_ordered_returns by blast
  obtain rcv receipt status g6 where
    ful: "fulfillment L (po_date + lead) qo g5 = Inr ((rcv, receipt, status), g6)"
    using fulfillment_returns[OF ok, of "po_date + lead" qo g5] by auto
  obtain noise g7 where noise: "random_uniform L (95 / 100) (105 / 100) g6 = Inr (noise, g7)"
    using random_uniform_returns by blast
  show ?thesis
    unfolding po_iteration_def
    using mat vs(1) sup pd lead qo ful noise
    by (simp add: bindE_def unitE_def Let_def)
qed

lemma po_loop_returns:
  assumes "\<And>c h. \<exists>r h'. po_iteration L ml msm c h = Inr (r, h')"
  shows "\<exists>r g'. po_loop L ml msm target cnt ctr recs slog g = Inr (r, g')"
  using assms
proof (induction L ml msm target cnt ctr recs slog g rule: po_loop.induct)
  case (1 L ml msm target cnt ctr recs slog g)
  show ?case
  proof (cases "cnt < target")
    case False
    then show ?thesis by (simp add: po_loop.simps)
  next
    case True
    obtain ord st g1 where it: "po_iteration L ml msm ctr g = Inr ((ord, st), g1)"
      using "1.prems"[of ctr g] by auto
    have "\<exists>r g'. po_loop L ml msm target (cnt + 1) (ctr + 1) (recs @ [ord]) (slog @ [st]) g1
            = Inr (r, g')"
      using "1.IH"[OF True it] "1.prems" by simp
    then show ?thesis using True it by (simp add: po_loop.simps[of L ml msm target cnt])
  qed
qed

subsection \<open>Running the model on recorded streams\<close>

lemma replicate_numeral_eval: "replicate (numeral k) x = x # replicate (pred_numeral k) x"
  by (simp add: numeral_eq_Suc)

lemma floor_rat_numeral_div: "\<lfloor>(numeral a :: rat) / numeral b\<rfloor> = numeral a div numeral b"
  using floor_divide_of_int_eq[of "numeral a" "numeral b", where ?'a = rat] by simp

lemma floor_rat_one_div: "\<lfloor>(1 :: rat) / numeral b\<rfloor> = 1 div numeral b"
  using floor_divide_of_int_eq[of 1 "numeral b", where ?'a = rat] by simp

lemmas draw_eval = random_random_def random_uniform_def random_randint_def
  random_lognormvariate_def random_choice_def random_choices_def random_sample_def
  np_random_zipf_def np_random_poisson_def np_random_pareto_def np_random_choice_p_def
  np_random_choice_noreplace_def fake_company_def fake_date_between_def
  as_index_def as_int_in_def as_rat_in_def bindE_def unitE_def raiseE_def tapes_def
  valid_p_def p_atol_def py_int_def py_round_def round_half_even_def Let_def
  floor_rat_numeral_div floor_rat_one_div

lemmas str_eval = str_nat.simps digit_char_def zfill_def replicate_numeral_eval

lemmas order_eval = gen_orders_def po_loop.simps po_iteration_def draw_quantity_ordered_def
  fulfillment_def date_window sample_materials_def sample_asl_def

subsection \<open>Purchase orders: dates, quantities and the drawn category\<close>

lemma po_iteration_consistent:
  assumes ok: "lib_ok L"
    and run: "po_iteration L material_list mat_supplier_map ctr g = Inr ((ord, st), g')"
  shows "(\<exists>lead. 14 \<le> lead \<and> lead \<le> 90 \<and> due_date ord = order_date ord + lead) \<and>
         1 \<le> quantity_ordered ord \<and>
         (current_date < due_date ord \<longrightarrow>
            quantity_received ord = 0 \<and> receipt_date ord = None \<and> st = None) \<and>
         (due_date ord \<le> current_date \<longrightarrow>
            quantity_received ord \<le> quantity_ordered ord \<and>
            (st = Some ''Full'' \<or> st = Some ''Partial'' \<or> st = Some ''Missing'') \<and>
            (st = Some ''Full'' \<longrightarrow> quantity_received ord = quantity_ordered ord) \<and>
            (st = Some ''Partial'' \<longrightarrow>
               0 \<le> quantity_received ord \<and> quantity_received ord < quantity_ordered ord) \<and>
            (st = Some ''Missing'' \<longrightarrow> quantity_received ord = 0) \<and>
            (receipt_date ord \<noteq> None \<longleftrightarrow> st \<noteq> Some ''Missing''))"
proof -
  from po_iteration_fields[OF ok run] obtain lead h h' where
    lead: "14 \<le> lead" "lead \<le> 90" "due_date ord = order_date ord + lead" and
    qo: "1 \<le> quantity_ordered ord" and
    ful: "fulfillment L (due_date ord) (quantity_ordered ord) h
             = Inr ((quantity_received ord, receipt_date ord, st), h')"
    by blast
  have open_case: "quantity_received ord = 0 \<and> receipt_date ord = None \<and> st = None"
    if "current_date < due_date ord"
    using ful fulfillment_open[OF that, of L "quantity_ordered ord" h] by simp
  have resolved: "quantity_received ord \<le> quantity_ordered ord \<and>
            (st = Some ''Full'' \<or> st = Some ''Partial'' \<or> st = Some ''Missing'') \<and>
            (st = Some ''Full'' \<longrightarrow> quantity_received ord = quantity_ordered ord) \<and>
            (st = Some ''Partial'' \<longrightarrow>
               0 \<le> quantity_received ord \<and> quantity_received ord < quantity_ordered ord) \<and>
            (st = Some ''Missing'' \<longrightarrow> quantity_received ord = 0) \<and>
            (receipt_date ord \<noteq> None \<longleftrightarrow> st \<noteq> Some ''Missing'')"
    if "due_date ord \<le> current_date"
    using fulfillment_resolved[OF ok qo that ful] qo by auto
  show ?thesis using lead qo open_case resolved by blast
qed

text \<open>
  C1 (amended). For every purchase order the loop produces, with the category drawn for
  it: the due date is the order date plus a lead time in [14, 90]; if the due date is
  strictly after the horizon, quantity received is 0, the receipt date is null and no
  category is drawn; otherwise quantity received is at most quantity ordered, Full
  implies received = ordered, Partial implies 0 \<le> received < ordered (the product of
  the ordered quantity and the fraction is truncated to an integer, so it can be 0),
  Missing implies received = 0, and the receipt date is non-null exactly when the
  category is not Missing.
\<close>

theorem po_fulfillment_consistent:
  assumes "lib_ok L"
    and "gen_orders L cfg material_list mat_supplier_map g = Inr ((orders, statuses), g')"
  shows "length statuses = length orders \<and>
     (\<forall>(ord, st) \<in> set (zip orders statuses).
         (\<exists>lead. 14 \<le> lead \<and> lead \<le> 90 \<and> due_date ord = order_date ord + lead) \<and>
         1 \<le> quantity_ordered ord \<and>
         (current_date < due_date ord \<longrightarrow>
            quantity_received ord = 0 \<and> receipt_date ord = None \<and> st = None) \<and>
         (due_date ord \<le> current_date \<longrightarrow>
            quantity_received ord \<le> quantity_ordered ord \<and>
            (st = Some ''Full'' \<or> st = Some ''Partial'' \<or> st = Some ''Missing'') \<and>
            (st = Some ''Full'' \<longrightarrow> quantity_received ord = quantity_ordered ord) \<and>
            (st = Some ''Partial'' \<longrightarrow>
               0 \<le> quantity_received ord \<and> quantity_received ord < quantity_ordered ord) \<and>
            (st = Some ''Missing'' \<longrightarrow> quantity_received ord = 0) \<and>
            (receipt_date ord \<noteq> None \<longleftrightarrow> st \<noteq> Some ''Missing'')))"
proof (rule po_loop_invariant[where recs = "[]" and slog = "[]",
      OF assms(2)[unfolded gen_orders_def]])
  show "length ([]::string option list) = length ([]::order_record list) \<and>
     (\<forall>(ord, st) \<in> set (zip [] []).
         (\<exists>lead. 14 \<le> lead \<and> lead \<le> 90 \<and> due_date ord = order_date ord + lead) \<and>
         1 \<le> quantity_ordered ord \<and>
         (current_date < due_date ord \<longrightarrow>
            quantity_received ord = 0 \<and> receipt_date ord = None \<and> st = None) \<and>
         (due_date ord \<le> current_date \<longrightarrow>
            quantity_received ord \<le> quantity_ordered ord \<and>
            (st = Some ''Full'' \<or> st = Some ''Partial'' \<or> st = Some ''Missing'') \<and>
            (st = Some ''Full'' \<longrightarrow> quantity_received ord = quantity_ordered ord) \<and>
            (st = Some ''Partial'' \<longrightarrow>
               0 \<le> quantity_received ord \<and> quantity_received ord < quantity_ordered ord) \<and>
            (st = Some ''Missing'' \<longrightarrow> quantity_received ord = 0) \<and>
            (receipt_date ord \<noteq> None \<longleftrightarrow> st \<noteq> Some ''Missing'')))"
    by simp
next
  fix c h ord st h' and rs :: "order_record list" and sl :: "string option list"
  assume it: "po_iteration L material_list mat_supplier_map c h = Inr ((ord, st), h')"
    and inv: "length sl = length rs \<and>
     (\<forall>(ord, st) \<in> set (zip rs sl).
         (\<exists>lead. 14 \<le> lead \<and> lead \<le> 90 \<and> due_date ord = order_date ord + lead) \<and>
         1 \<le> quantity_ordered ord \<and>
         (current_date < due_date ord \<longrightarrow>
            quantity_received ord = 0 \<and> receipt_date ord = None \<and> st = None) \<and>
         (due_date ord \<le> current_date \<longrightarrow>
            quantity_received ord \<le> quantity_ordered ord \<and>
            (st = Some ''Full'' \<or> st = Some ''Partial'' \<or> st = Some ''Missing'') \<and>
            (st = Some ''Full'' \<longrightarrow> quantity_received ord = quantity_ordered ord) \<and>
            (st = Some ''Partial'' \<longrightarrow>
               0 \<le> quantity_received ord \<and> quantity_received ord < quantity_ordered ord) \<and>
            (st = Some ''Missing'' \<longrightarrow> quantity_received ord = 0) \<and>
            (receipt_date ord \<noteq> None \<longleftrightarrow> st \<noteq> Some ''Missing'')))"
  have len: "length (sl @ [st]) = length (rs @ [ord])" using inv by simp
  have z: "zip (rs @ [ord]) (sl @ [st]) = zip rs sl @ [(ord, st)]" using inv by simp
  show "length (sl @ [st]) = length (rs @ [ord]) \<and>
     (\<forall>(ord, st) \<in> set (zip (rs @ [ord]) (sl @ [st])).
         (\<exists>lead. 14 \<le> lead \<and> lead \<le> 90 \<and> due_date ord = order_date ord + lead) \<and>
         1 \<le> quantity_ordered ord \<and>
         (current_date < due_date ord \<longrightarrow>
            quantity_received ord = 0 \<and> receipt_date ord = None \<and> st = None) \<and>
         (due_date ord \<le> current_date \<longrightarrow>
            quantity_received ord \<le> quantity_ordered ord \<and>
            (st = Some ''Full'' \<or> st = Some ''Partial'' \<or> st = Some ''Missing'') \<and>
            (st = Some ''Full'' \<longrightarrow> quantity_received ord = quantity_ordered ord) \<and>
            (st = Some ''Partial'' \<longrightarrow>
               0 \<le> quantity_received ord \<and> quantity_received ord < quantity_ordered ord) \<and>
            (st = Some ''Missing'' \<longrightarrow> quantity_received ord = 0) \<and>
            (receipt_date ord \<noteq> None \<longleftrightarrow> st \<noteq> Some ''Missing'')))"
    unfolding z using len inv po_iteration_consistent[OF assms(1) it] by simp
qed

theorem po_fulfillment_consistent_witness:
  "lib_ok replay \<and>
   gen_orders replay (script_config\<lparr>TARGET_PO_COUNT := 1\<rparr>) sample_materials sample_asl
       (tapes [0, 0, 14, 1 / 2, 7, 3, 1] [0] [0])
     = Inr (([\<lparr>po_id = ''PO-100000'', po_supplier_id = ''SUP_CN_00001'',
                po_material_id = ''MAT_T4_00001'', order_date = 738886, due_date = 738900,
                receipt_date = Some 738903, quantity_ordered = 7, quantity_received = 7,
                unit_price = 10\<rparr>], [Some ''Full'']), tapes [] [] []) \<and>
   due_date \<lparr>po_id = ''PO-100000'', po_supplier_id = ''SUP_CN_00001'',
                po_material_id = ''MAT_T4_00001'', order_date = 738886, due_date = 738900,
                receipt_date = Some 738903, quantity_ordered = 7, quantity_received = 7,
                unit_price = 10\<rparr> \<le> current_date \<and>
   quantity_received \<lparr>po_id = ''PO-100000'', po_supplier_id = ''SUP_CN_00001'',
                po_material_id = ''MAT_T4_00001'', order_date = 738886, due_date = 738900,
                receipt_date = Some 738903, quantity_ordered = 7, quantity_received = 7,
                unit_price = 10\<rparr> = 7"
proof -
  have run: "gen_orders replay (script_config\<lparr>TARGET_PO_COUNT := 1\<rparr>) sample_materials sample_asl
       (tapes [0, 0, 14, 1 / 2, 7, 3, 1] [0] [0])
     = Inr (([\<lparr>po_id = ''PO-100000'', po_supplier_id = ''SUP_CN_00001'',
                po_material_id = ''MAT_T4_00001'', order_date = 738886, due_date = 738900,
                receipt_date = Some 738903, quantity_ordered = 7, quantity_received = 7,
                unit_price = 10\<rparr>], [Some ''Full'']), tapes [] [] [])"
    by (simp add: order_eval draw_eval str_eval script_config_def)
  show ?thesis
    using replay_ok run po_fulfillment_consistent[OF replay_ok run]
    by (simp add: date_window)
qed

theorem partial_order_receives_nothing:
  "lib_ok replay \<and>
   gen_orders replay (script_config\<lparr>TARGET_PO_COUNT := 1\<rparr>) sample_materials sample_asl
       (tapes [0, 0, 14, 1 / 2, 1, 1 / 2, 1, 1] [1] [0])
     = Inr (([\<lparr>po_id = ''PO-100000'', po_supplier_id = ''SUP_CN_00001'',
                po_material_id = ''MAT_T4_00001'', order_date = 738886, due_date = 738900,
                receipt_date = Some 738901, quantity_ordered = 1, quantity_received = 0,
                unit_price = 10\<rparr>], [Some ''Partial'']), tapes [] [] [])"
  using replay_ok by (simp add: order_eval draw_eval str_eval script_config_def)

lemma gen_orders_each:
  assumes run: "gen_orders L cfg ml msm g = Inr ((orders, statuses), g')"
    and each: "\<And>c h ord st h'. po_iteration L ml msm c h = Inr ((ord, st), h') \<Longrightarrow> Q ord"
  shows "\<forall>ord \<in> set orders. Q ord"
proof (rule po_loop_invariant[where recs = "[]" and slog = "[]" and
      P = "\<lambda>recs slog. \<forall>ord \<in> set recs. Q ord", OF run[unfolded gen_orders_def]])
  show "\<forall>ord \<in> set []. Q ord" by simp
next
  fix c h ord st h' and rs :: "order_record list" and sl :: "string option list"
  assume "po_iteration L ml msm c h = Inr ((ord, st), h')" and "\<forall>ord \<in> set rs. Q ord"
  then show "\<forall>ord \<in> set (rs @ [ord]). Q ord" using each by auto
qed

lemma after_horizon_open:
  assumes ok: "lib_ok L"
    and run: "gen_orders L cfg material_list mat_supplier_map g = Inr ((orders, statuses), g')"
  shows "\<forall>ord \<in> set orders. current_date < order_date ord \<longrightarrow>
         current_date < due_date ord \<and> quantity_received ord = 0 \<and> receipt_date ord = None"
proof (rule gen_orders_each[OF run, where Q = "\<lambda>ord. current_date < order_date ord \<longrightarrow>
         current_date < due_date ord \<and> quantity_received ord = 0 \<and> receipt_date ord = None"])
  fix c h ord st h'
  assume it: "po_iteration L material_list mat_supplier_map c h = Inr ((ord, st), h')"
  from po_iteration_fields[OF ok it] obtain lead h0 h1 where
    lead: "14 \<le> lead" "due_date ord = order_date ord + lead" and
    ful: "fulfillment L (due_date ord) (quantity_ordered ord) h0
             = Inr ((quantity_received ord, receipt_date ord, st), h1)"
    by blast
  have opn: "quantity_received ord = 0 \<and> receipt_date ord = None"
    if "current_date < due_date ord"
    using ful fulfillment_open[OF that, of L "quantity_ordered ord" h0] by simp
  show "current_date < order_date ord \<longrightarrow>
         current_date < due_date ord \<and> quantity_received ord = 0 \<and> receipt_date ord = None"
    using lead opn by auto
qed

text \<open>
  C10. The order-date window 2024-01-01..2025-12-31 extends past the horizon 2025-10-31,
  so some random-stream outcomes give an order dated after the horizon (here: the
  recorded stream whose date draw is day 730 of the window); and every order dated
  strictly after the horizon is open: its due date is later still, its quantity received
  is 0 and its receipt date is null.
\<close>

theorem order_after_horizon_is_open:
  "current_date < date 2025 12 31 \<and>
   (\<exists>orders statuses g'.
      gen_orders replay (script_config\<lparr>TARGET_PO_COUNT := 1\<rparr>) sample_materials sample_asl
        (tapes [0, 0, 14, 1 / 2, 1, 1] [] [730]) = Inr ((orders, statuses), g') \<and>
      (\<exists>ord \<in> set orders. current_date < order_date ord)) \<and>
   (\<forall>L cfg material_list mat_supplier_map g orders statuses g'.
      lib_ok L \<longrightarrow>
      gen_orders L cfg material_list mat_supplier_map g = Inr ((orders, statuses), g') \<longrightarrow>
      (\<forall>ord \<in> set orders. current_date < order_date ord \<longrightarrow>
         current_date < due_date ord \<and> quantity_received ord = 0 \<and> receipt_date ord = None))"
proof (intro conjI allI impI)
  show "current_date < date 2025 12 31" by (simp add: date_window)
next
  have "gen_orders replay (script_config\<lparr>TARGET_PO_COUNT := 1\<rparr>) sample_materials sample_asl
        (tapes [0, 0, 14, 1 / 2, 1, 1] [] [730])
     = Inr (([\<lparr>po_id = ''PO-100000'', po_supplier_id = ''SUP_CN_00001'',
                po_material_id = ''MAT_T4_00001'', order_date = 739616, due_date = 739630,
                receipt_date = None, quantity_ordered = 1, quantity_received = 0,
                unit_price = 10\<rparr>], [None]), tapes [] [] [])"
    by (simp add: order_eval draw_eval str_eval script_config_def)
  then show "\<exists>orders statuses g'.
      gen_orders replay (script_config\<lparr>TARGET_PO_COUNT := 1\<rparr>) sample_materials sample_asl
        (tapes [0, 0, 14, 1 / 2, 1, 1] [] [730]) = Inr ((orders, statuses), g') \<and>
      (\<exists>ord \<in> set orders. current_date < order_date ord)"
    by (simp add: date_window)
next
  fix L :: "('r, 'n, 'f) rnd_lib" and cfg material_list mat_supplier_map
    and g g' :: "('r, 'n, 'f) gens" and orders statuses
  assume ok: "lib_ok L"
    and run: "gen_orders L cfg material_list mat_supplier_map g = Inr ((orders, statuses), g')"
  show "\<forall>ord \<in> set orders. current_date < order_date ord \<longrightarrow>
         current_date < due_date ord \<and> quantity_received ord = 0 \<and> receipt_date ord = None"
    by (rule after_horizon_open[OF ok run])
qed

theorem order_after_horizon_is_open_witness:
  "lib_ok replay \<and>
   gen_orders replay (script_config\<lparr>TARGET_PO_COUNT := 1\<rparr>) sample_materials sample_asl
        (tapes [0, 0, 30, 9 / 10, 40, 1] [] [700])
     = Inr (([\<lparr>po_id = ''PO-100000'', po_supplier_id = ''SUP_CN_00001'',
                po_material_id = ''MAT_T4_00001'', order_date = 739586, due_date = 739616,
                receipt_date = None, quantity_ordered = 40, quantity_received = 0,
                unit_price = 10\<rparr>], [None]), tapes [] [] []) \<and>
   current_date < (739586 :: int) \<and> current_date < (739616 :: int)"
proof -
  have run: "gen_orders replay (script_config\<lparr>TARGET_PO_COUNT := 1\<rparr>) sample_materials sample_asl
        (tapes [0, 0, 30, 9 / 10, 40, 1] [] [700])
     = Inr (([\<lparr>po_id = ''PO-100000'', po_supplier_id = ''SUP_CN_00001'',
                po_material_id = ''MAT_T4_00001'', order_date = 739586, due_date = 739616,
                receipt_date = None, quantity_ordered = 40, quantity_received = 0,
                unit_price = 10\<rparr>], [None]), tapes [] [] [])"
    by (simp add: order_eval draw_eval str_eval script_config_def)
  have "\<forall>ord \<in> set [\<lparr>po_id = ''PO-100000'', po_supplier_id = ''SUP_CN_00001'',
                po_material_id = ''MAT_T4_00001'', order_date = 739586, due_date = 739616,
                receipt_date = None, quantity_ordered = 40, quantity_received = 0,
                unit_price = 10\<rparr>]. current_date < order_date ord \<longrightarrow>
         current_date < due_date ord \<and> quantity_received ord = 0 \<and> receipt_date ord = None"
    using order_after_horizon_is_open[THEN conjunct2, THEN conjunct2, rule_format,
        OF replay_ok run]
    by blast
  then show ?thesis using replay_ok run by (simp add: date_window)
qed

subsection \<open>The approved-supplier map\<close>

lemma for_each_prefix_invariant:
  assumes "for_each body xs acc g = Inr (acc', g')"
    and "P pre acc"
    and "\<And>x p a h a' h'. P p a \<Longrightarrow> body x a h = Inr (a', h') \<Longrightarrow> P (p @ [x]) a'"
  shows "P (pre @ xs) acc'"
  using assms(1,2)
proof (induction xs arbitrary: pre acc g)
  case Nil
  then show ?case by simp
next
  case (Cons x xs)
  from Cons.prems(1) obtain a1 g1 where
    step: "body x acc g = Inr (a1, g1)" and rest: "for_each body xs a1 g1 = Inr (acc', g')"
    by (auto split: sum.splits)
  have "P (pre @ [x]) a1" using assms(3)[OF Cons.prems(2) step] .
  from Cons.IH[OF rest this] show ?case by simp
qed

lemma random_choices_result:
  assumes ok: "lib_ok L" and run: "random_choices L population weights k g = Inr (cs, g')"
  shows "length cs = k \<and> set cs \<subseteq> set population"
proof -
  have len: "length weights = length population" and ne: "weights \<noteq> []"
    using run by (auto simp: random_choices_def split: if_splits)
  have cs: "cs = map (\<lambda>i. population ! i) (fst (rnd_choices L weights k (py g)))"
    using run by (auto simp: random_choices_def split: if_splits prod.splits)
  have "length (fst (rnd_choices L weights k (py g))) = k"
    and "\<forall>i \<in> set (fst (rnd_choices L weights k (py g))). i < length weights"
    using ok ne by (simp_all add: lib_ok_def)
  then show ?thesis using cs len by auto
qed

lemma asl_body_result:
  assumes ok: "lib_ok L" and run: "asl_body L supplier_list mat m g = Inr (m', g')"
  shows "\<exists>vs. m' = m(material_id mat \<mapsto> vs) \<and> 1 \<le> length vs \<and> length vs \<le> 3 \<and>
              set vs \<subseteq> supplier_id ` set supplier_list"
proof -
  from run obtain k g1 cands g2 where
    k: "random_randint L 1 3 g = Inr (k, g1)" and
    c: "random_choices L supplier_list (map (\<lambda>s. of_int (capacity_score s)) supplier_list)
          (nat k) g1 = Inr (cands, g2)" and
    res: "m' = m(material_id mat \<mapsto> map supplier_id cands)"
    by (auto simp: asl_body_def bindE_Inr unitE_Inr)
  have kr: "1 \<le> k \<and> k \<le> 3" using random_randint_range[OF ok _ k] by simp
  have "length cands = nat k \<and> set cands \<subseteq> set supplier_list"
    using random_choices_result[OF ok c] .
  then have "1 \<le> length (map supplier_id cands) \<and> length (map supplier_id cands) \<le> 3 \<and>
             set (map supplier_id cands) \<subseteq> supplier_id ` set supplier_list"
    using kr by auto
  then show ?thesis using res by blast
qed

lemma gen_asl_covers:
  assumes ok: "lib_ok L" and run: "gen_asl L supplier_list material_list g = Inr (msm, g')"
  shows "\<forall>m \<in> set material_list. \<exists>vs. msm (material_id m) = Some vs"
proof -
  have "\<forall>m \<in> set ([] @ material_list). \<exists>vs. msm (material_id m) = Some vs"
  proof (rule for_each_prefix_invariant[where
        P = "\<lambda>(pre :: material list) acc. \<forall>m \<in> set pre. \<exists>vs. acc (material_id m) = Some vs",
        OF run[unfolded gen_asl_def]])
    show "\<forall>m \<in> set ([] :: material list). \<exists>vs. Map.empty (material_id m) = Some vs" by simp
  next
    fix x :: material and p :: "material list" and a a' :: "string \<Rightarrow> string list option" and h h' :: "('a, 'b, 'c) gens"
    assume inv: "\<forall>m \<in> set p. \<exists>vs. a (material_id m) = Some vs"
      and step: "asl_body L supplier_list x a h = Inr (a', h')"
    from asl_body_result[OF ok step] obtain vs where "a' = a(material_id x \<mapsto> vs)" by blast
    then show "\<forall>m \<in> set (p @ [x]). \<exists>vs. a' (material_id m) = Some vs"
      using inv by auto
  qed
  then show ?thesis by simp
qed

lemma gen_asl_sizes:
  assumes ok: "lib_ok L" and run: "gen_asl L supplier_list material_list g = Inr (msm, g')"
  shows "\<forall>k vs. msm k = Some vs \<longrightarrow>
           1 \<le> length vs \<and> length vs \<le> 3 \<and> set vs \<subseteq> supplier_id ` set supplier_list"
proof (rule for_each_invariant[where
      P = "\<lambda>acc. \<forall>k vs. acc k = Some vs \<longrightarrow>
             1 \<le> length vs \<and> length vs \<le> 3 \<and> set vs \<subseteq> supplier_id ` set supplier_list",
      OF run[unfolded gen_asl_def]])
  show "\<forall>k vs. Map.empty k = Some vs \<longrightarrow>
          1 \<le> length vs \<and> length vs \<le> 3 \<and> set vs \<subseteq> supplier_id ` set supplier_list"
    by simp
next
  fix x :: material and a a' :: "string \<Rightarrow> string list option" and h h' :: "('a, 'b, 'c) gens"
  assume inv: "\<forall>k vs. a k = Some vs \<longrightarrow>
             1 \<le> length vs \<and> length vs \<le> 3 \<and> set vs \<subseteq> supplier_id ` set supplier_list"
    and step: "asl_body L supplier_list x a h = Inr (a', h')"
  from asl_body_result[OF ok step] obtain ws where
    ws: "a' = a(material_id x \<mapsto> ws)" "1 \<le> length ws" "length ws \<le> 3"
        "set ws \<subseteq> supplier_id ` set supplier_list"
    by blast
  show "\<forall>k vs. a' k = Some vs \<longrightarrow>
             1 \<le> length vs \<and> length vs \<le> 3 \<and> set vs \<subseteq> supplier_id ` set supplier_list"
  proof (intro allI impI)
    fix k vs assume "a' k = Some vs"
    then have "vs = ws \<or> a k = Some vs" using ws(1) by (auto split: if_splits)
    then show "1 \<le> length vs \<and> length vs \<le> 3 \<and> set vs \<subseteq> supplier_id ` set supplier_list"
      using ws(2-4) inv by blast
  qed
qed

text \<open>
  C7. The approved-supplier map built before the simulation gives every material a list
  of between 1 and 3 candidates, all of them suppliers of the supplier list; and the
  supplier of every purchase order is a member of the list of that order's material.
\<close>

theorem order_supplier_in_asl:
  assumes "lib_ok L"
    and "gen_asl L supplier_list material_list g0 = Inr (mat_supplier_map, g1)"
    and "gen_orders L cfg material_list mat_supplier_map g1 = Inr ((orders, statuses), g2)"
  shows "(\<forall>m \<in> set material_list. \<exists>vs. mat_supplier_map (material_id m) = Some vs \<and>
            1 \<le> length vs \<and> length vs \<le> 3 \<and> set vs \<subseteq> supplier_id ` set supplier_list) \<and>
         (\<forall>ord \<in> set orders. \<exists>vs. mat_supplier_map (po_material_id ord) = Some vs \<and>
            po_supplier_id ord \<in> set vs \<and> 1 \<le> length vs \<and> length vs \<le> 3)"
proof
  show "\<forall>m \<in> set material_list. \<exists>vs. mat_supplier_map (material_id m) = Some vs \<and>
            1 \<le> length vs \<and> length vs \<le> 3 \<and> set vs \<subseteq> supplier_id ` set supplier_list"
  proof
    fix m assume "m \<in> set material_list"
    then obtain vs where vs: "mat_supplier_map (material_id m) = Some vs"
      using gen_asl_covers[OF assms(1,2)] by blast
    then have "1 \<le> length vs \<and> length vs \<le> 3 \<and> set vs \<subseteq> supplier_id ` set supplier_list"
      using gen_asl_sizes[OF assms(1,2), rule_format, of "material_id m" vs] by simp
    then show "\<exists>vs. mat_supplier_map (material_id m) = Some vs \<and>
            1 \<le> length vs \<and> length vs \<le> 3 \<and> set vs \<subseteq> supplier_id ` set supplier_list"
      using vs by simp
  qed
next
  show "\<forall>ord \<in> set orders. \<exists>vs. mat_supplier_map (po_material_id ord) = Some vs \<and>
            po_supplier_id ord \<in> set vs \<and> 1 \<le> length vs \<and> length vs \<le> 3"
  proof (rule gen_orders_each[OF assms(3), where Q = "\<lambda>ord. \<exists>vs.
            mat_supplier_map (po_material_id ord) = Some vs \<and>
            po_supplier_id ord \<in> set vs \<and> 1 \<le> length vs \<and> length vs \<le> 3"])
    fix c h ord st h'
    assume it: "po_iteration L material_list mat_supplier_map c h = Inr ((ord, st), h')"
    from po_iteration_fields[OF assms(1) it] obtain mat :: material and vs where
      f: "mat_supplier_map (material_id mat) = Some vs" "po_material_id ord = material_id mat"
         "po_supplier_id ord \<in> set vs"
      by blast
    have "1 \<le> length vs \<and> length vs \<le> 3"
      using gen_asl_sizes[OF assms(1,2), rule_format, of "material_id mat" vs] f(1) by simp
    then show "\<exists>vs. mat_supplier_map (po_material_id ord) = Some vs \<and>
            po_supplier_id ord \<in> set vs \<and> 1 \<le> length vs \<and> length vs \<le> 3"
      using f by auto
  qed
qed


lemma pops_numeral_eval:
  "pops (numeral k) xs =
     (case pop xs of (x, xs') \<Rightarrow> case pops (pred_numeral k) xs' of (ys, xs'') \<Rightarrow> (x # ys, xs''))"
  by (simp add: numeral_eq_Suc)

theorem order_supplier_in_asl_witness:
  "lib_ok replay \<and>
   gen_asl replay sample_suppliers sample_materials
       (tapes [2, 0, 1, 0, 1, 20, 1 / 2, 5, 0, 1] [0] [10])
     = Inr ([''MAT_T4_00001'' \<mapsto> [''SUP_CN_00001'', ''SUP_KR_00002'']],
            tapes [0, 1, 20, 1 / 2, 5, 0, 1] [0] [10]) \<and>
   gen_orders replay (script_config\<lparr>TARGET_PO_COUNT := 1\<rparr>) sample_materials
       [''MAT_T4_00001'' \<mapsto> [''SUP_CN_00001'', ''SUP_KR_00002'']]
       (tapes [0, 1, 20, 1 / 2, 5, 0, 1] [0] [10])
     = Inr (([\<lparr>po_id = ''PO-100000'', po_supplier_id = ''SUP_KR_00002'',
                po_material_id = ''MAT_T4_00001'', order_date = 738896, due_date = 738916,
                receipt_date = Some 738916, quantity_ordered = 5, quantity_received = 5,
                unit_price = 10\<rparr>], [Some ''Full'']), tapes [] [] []) \<and>
   ''SUP_KR_00002'' \<in> set [''SUP_CN_00001'', ''SUP_KR_00002'']"
proof -
  have asl: "gen_asl replay sample_suppliers sample_materials
       (tapes [2, 0, 1, 0, 1, 20, 1 / 2, 5, 0, 1] [0] [10])
     = Inr ([''MAT_T4_00001'' \<mapsto> [''SUP_CN_00001'', ''SUP_KR_00002'']],
            tapes [0, 1, 20, 1 / 2, 5, 0, 1] [0] [10])"
    by (simp add: gen_asl_def asl_body_def sample_suppliers_def sample_materials_def draw_eval
        pops_numeral_eval)
  have run: "gen_orders replay (script_config\<lparr>TARGET_PO_COUNT := 1\<rparr>) sample_materials
       [''MAT_T4_00001'' \<mapsto> [''SUP_CN_00001'', ''SUP_KR_00002'']]
       (tapes [0, 1, 20, 1 / 2, 5, 0, 1] [0] [10])
     = Inr (([\<lparr>po_id = ''PO-100000'', po_supplier_id = ''SUP_KR_00002'',
                po_material_id = ''MAT_T4_00001'', order_date = 738896, due_date = 738916,
                receipt_date = Some 738916, quantity_ordered = 5, quantity_received = 5,
                unit_price = 10\<rparr>], [Some ''Full'']), tapes [] [] [])"
    by (simp add: order_eval draw_eval str_eval script_config_def)
  show ?thesis
    using replay_ok asl run order_supplier_in_asl[OF replay_ok asl run] by simp
qed

subsection \<open>Supplier nodes\<close>

lemma np_random_zipf_result:
  assumes "lib_ok L" "np_random_zipf L a n g = Inr (zs, g')"
  shows "length zs = n \<and> (\<forall>z \<in> set zs. 1 \<le> z)"
proof -
  have "zs = fst (np_zipf L a n (np g))"
    using assms(2) by (auto simp: np_random_zipf_def split: prod.splits)
  then show ?thesis using assms(1) by (simp add: lib_ok_def)
qed

lemma np_random_zipf_returns: "\<exists>zs g'. np_random_zipf L a n g = Inr (zs, g')"
  by (simp add: np_random_zipf_def split: prod.splits)

lemma fold_max_ge: "(a::nat) \<le> fold max zs a \<and> (\<forall>z \<in> set zs. z \<le> fold max zs a)"
proof (induction zs arbitrary: a)
  case Nil
  show ?case by simp
next
  case (Cons z zs)
  have "max z a \<le> fold max zs (max z a)" and "\<forall>y \<in> set zs. y \<le> fold max zs (max z a)"
    using Cons.IH[of "max z a"] by simp_all
  then show ?case by auto
qed

lemma np_max_result:
  assumes "np_max zs = Inr mx"
  shows "zs \<noteq> [] \<and> (\<forall>z \<in> set zs. z \<le> mx)"
proof (cases zs)
  case Nil
  then show ?thesis using assms by simp
next
  case (Cons a as)
  then have "mx = fold max as a" using assms by simp
  then show ?thesis using Cons fold_max_ge[of a as] by auto
qed

lemma score_bounds:
  assumes "1 \<le> z" "z \<le> mx"
  shows "1 \<le> py_int (max (of_nat z / of_nat mx * 50) 1)"
    and "py_int (max (of_nat z / of_nat mx * 50) 1) \<le> 50"
proof -
  let ?x = "max ((of_nat z :: rat) / of_nat mx * 50) 1"
  have mxpos: "(0::rat) < of_nat mx" using assms by simp
  have "(of_nat z :: rat) / of_nat mx \<le> 1" using assms mxpos by (simp add: divide_le_eq)
  then have "(of_nat z :: rat) / of_nat mx * 50 \<le> 1 * 50"
    by (rule mult_right_mono) simp
  then have up: "?x \<le> 50" by simp
  have lo: "1 \<le> ?x" by simp
  have "0 \<le> ?x" using lo by linarith
  then have "py_int ?x = \<lfloor>?x\<rfloor>" by (simp only: py_int_def if_True)
  moreover have "1 \<le> \<lfloor>?x\<rfloor>" using lo by (simp add: le_floor_iff)
  moreover have "\<lfloor>?x\<rfloor> \<le> 50" using up by (simp add: floor_le_iff)
  ultimately show "1 \<le> py_int ?x" "py_int ?x \<le> 50" by simp_all
qed

lemma dominance_scores_empty: "lib_ok L \<Longrightarrow> dominance_scores L 0 g = Inl ValueError"
proof -
  assume ok: "lib_ok L"
  obtain zs g1 where z: "np_random_zipf L (3 / 2) 0 g = Inr (zs, g1)"
    using np_random_zipf_returns by blast
  then have "zs = []" using np_random_zipf_result[OF ok z] by simp
  then show ?thesis using z by (simp add: dominance_scores_def bindE_def raiseE_def)
qed

lemma dominance_scores_result:
  assumes ok: "lib_ok L" and run: "dominance_scores L n g = Inr (scores, g')"
  shows "length scores = n \<and> 0 < n \<and> (\<forall>s \<in> set scores. 1 \<le> s \<and> s \<le> 50)"
proof -
  from run obtain zs g1 where z: "np_random_zipf L (3 / 2) n g = Inr (zs, g1)"
    and rest: "(case np_max zs of Inl e \<Rightarrow> raiseE e
       | Inr mx \<Rightarrow> unitE (map (\<lambda>z. py_int (max (of_nat z / of_nat mx * 50) 1)) zs)) g1
        = Inr (scores, g')"
    by (auto simp: dominance_scores_def bindE_Inr)
  from rest obtain mx where mx: "np_max zs = Inr mx"
    and sc: "scores = map (\<lambda>z. py_int (max (of_nat z / of_nat mx * 50) 1)) zs"
    by (cases "np_max zs") (auto simp: raiseE_def unitE_Inr)
  have zr: "length zs = n" "\<forall>z \<in> set zs. 1 \<le> z" using np_random_zipf_result[OF ok z] by simp_all
  have mr: "zs \<noteq> []" "\<forall>z \<in> set zs. z \<le> mx" using np_max_result[OF mx] by simp_all
  have "\<forall>s \<in> set scores. 1 \<le> s \<and> s \<le> 50"
    unfolding sc using zr(2) mr(2) score_bounds by auto
  moreover have "length scores = n" using sc zr(1) by simp
  moreover have "0 < n" using zr(1) mr(1) by auto
  ultimately show ?thesis by simp
qed

lemma dominance_scores_returns:
  assumes ok: "lib_ok L" and pos: "0 < n"
  shows "\<exists>scores g'. dominance_scores L n g = Inr (scores, g')"
proof -
  obtain zs g1 where z: "np_random_zipf L (3 / 2) n g = Inr (zs, g1)"
    using np_random_zipf_returns by blast
  have "length zs = n" using np_random_zipf_result[OF ok z] by simp
  then obtain a as where "zs = a # as" using pos by (cases zs) auto
  then show ?thesis using z by (simp add: dominance_scores_def bindE_def unitE_def)
qed

lemma supplier_body_result:
  assumes ok: "lib_ok L"
    and run: "supplier_body L countries weights scores i suppliers g = Inr (suppliers', g')"
  shows "\<exists>s. suppliers' = suppliers @ [s] \<and> country s \<in> set countries \<and>
              capacity_score s = scores ! i \<and> i < length scores \<and>
              supplier_id s = ''SUP_'' @ country s @ ''_'' @ zfill 5 (str_nat (i + 1))"
proof -
  from run obtain cs g1 where cs: "random_choices L countries weights 1 g = Inr (cs, g1)"
    and rest: "(case cs of [] \<Rightarrow> raiseE IndexError
       | c # _ \<Rightarrow>
           bindE (fake_company L) (\<lambda>nm.
             if i < length scores
             then unitE (suppliers @
                    [\<lparr>supplier_id = ''SUP_'' @ c @ ''_'' @ zfill 5 (str_nat (i + 1)),
                      name = nm, country = c, capacity_score = scores ! i\<rparr>])
             else raiseE IndexError)) g1 = Inr (suppliers', g')"
    by (auto simp: supplier_body_def bindE_Inr)
  from rest obtain c cs' where c: "cs = c # cs'" by (cases cs) (auto simp: raiseE_def)
  have "c \<in> set countries" using random_choices_result[OF ok cs] c by auto
  moreover from rest c obtain nm where "i < length scores"
    "suppliers' = suppliers @
                    [\<lparr>supplier_id = ''SUP_'' @ c @ ''_'' @ zfill 5 (str_nat (i + 1)),
                      name = nm, country = c, capacity_score = scores ! i\<rparr>]"
    by (auto simp: bindE_Inr unitE_Inr raiseE_def split: if_splits)
  ultimately show ?thesis by simp
qed

lemma supplier_body_returns:
  assumes ok: "lib_ok L" and i: "i < length scores"
    and w: "length weights = length countries" "weights \<noteq> []" "0 < sum_list weights"
  shows "\<exists>suppliers' g'. supplier_body L countries weights scores i suppliers g = Inr (suppliers', g')"
proof -
  obtain cs g1 where cs: "random_choices L countries weights 1 g = Inr (cs, g1)"
    using random_choices_returns[OF w] by blast
  have "length cs = 1" using random_choices_result[OF ok cs] by simp
  then obtain c where c: "cs = [c]" by (cases cs) auto
  obtain nm g2 where nm: "fake_company L g1 = Inr (nm, g2)"
    using fake_company_returns by blast
  show ?thesis using cs c nm i
    by (simp add: supplier_body_def bindE_def unitE_def)
qed

lemma gen_suppliers_length:
  assumes ok: "lib_ok L" and run: "gen_suppliers L cfg g = Inr (suppliers, g')"
  shows "length suppliers = NUM_SUPPLIERS cfg \<and> 0 < NUM_SUPPLIERS cfg"
proof -
  from run obtain scores g1 where
    sc: "dominance_scores L (NUM_SUPPLIERS cfg) g = Inr (scores, g1)" and
    loop: "for_each (supplier_body L (map fst (COUNTRY_WEIGHTS cfg)) (map snd (COUNTRY_WEIGHTS cfg))
             scores) [0 ..< NUM_SUPPLIERS cfg] [] g1 = Inr (suppliers, g')"
    by (auto simp: gen_suppliers_def bindE_Inr Let_def)
  have "length suppliers = length ([] @ [0 ..< NUM_SUPPLIERS cfg])"
  proof (rule for_each_prefix_invariant[where P = "\<lambda>pre acc. length acc = length pre", OF loop])
    show "length ([]::supplier list) = length ([]::nat list)" by simp
  next
    fix x :: nat and p :: "nat list" and a a' :: "supplier list" and h h' :: "('a, 'b, 'c) gens"
    assume "length a = length p"
      and "supplier_body L (map fst (COUNTRY_WEIGHTS cfg)) (map snd (COUNTRY_WEIGHTS cfg))
             scores x a h = Inr (a', h')"
    then show "length a' = length (p @ [x])" using supplier_body_result[OF ok] by fastforce
  qed
  then show ?thesis using dominance_scores_result[OF ok sc] by simp
qed

lemma gen_suppliers_returns:
  assumes ok: "lib_ok L" and pos: "0 < NUM_SUPPLIERS cfg"
    and w: "COUNTRY_WEIGHTS cfg \<noteq> []" "0 < sum_list (map snd (COUNTRY_WEIGHTS cfg))"
  shows "\<exists>suppliers g'. gen_suppliers L cfg g = Inr (suppliers, g')"
proof -
  obtain scores g1 where sc: "dominance_scores L (NUM_SUPPLIERS cfg) g = Inr (scores, g1)"
    using dominance_scores_returns[OF ok pos] by blast
  have len: "length scores = NUM_SUPPLIERS cfg" using dominance_scores_result[OF ok sc] by simp
  have "\<exists>acc' g'. for_each (supplier_body L (map fst (COUNTRY_WEIGHTS cfg))
            (map snd (COUNTRY_WEIGHTS cfg)) scores) [0 ..< NUM_SUPPLIERS cfg] [] g1 = Inr (acc', g')"
  proof (rule for_each_total)
    fix x :: nat and a :: "supplier list" and h :: "('a, 'b, 'c) gens"
    assume "x \<in> set [0 ..< NUM_SUPPLIERS cfg]"
    then have "x < length scores" using len by simp
    then show "\<exists>a' h'. supplier_body L (map fst (COUNTRY_WEIGHTS cfg))
            (map snd (COUNTRY_WEIGHTS cfg)) scores x a h = Inr (a', h')"
      using supplier_body_returns[OF ok _ _ _ w(2)] w(1) by simp
  qed
  then show ?thesis using sc by (simp add: gen_suppliers_def bindE_def Let_def)
qed

lemma gen_suppliers_none: "lib_ok L \<Longrightarrow> NUM_SUPPLIERS cfg = 0 \<Longrightarrow> gen_suppliers L cfg g = Inl ValueError"
  using dominance_scores_empty[of L g] by (simp add: gen_suppliers_def bindE_def Let_def)

text \<open>
  C3 (amended). With target count 0 the supplier generator does not yield an empty set:
  the maximum of the empty array of scores raises ValueError. With a positive target count
  and a country-weight table whose weights have a positive total, it yields exactly that
  many suppliers.
\<close>

theorem supplier_generator_counts:
  assumes "lib_ok L"
  shows "(NUM_SUPPLIERS cfg = 0 \<longrightarrow> gen_suppliers L cfg g = Inl ValueError) \<and>
         (0 < NUM_SUPPLIERS cfg \<and> COUNTRY_WEIGHTS cfg \<noteq> [] \<and>
            0 < sum_list (map snd (COUNTRY_WEIGHTS cfg)) \<longrightarrow>
            (\<exists>suppliers g'. gen_suppliers L cfg g = Inr (suppliers, g') \<and>
               length suppliers = NUM_SUPPLIERS cfg))"
proof (intro conjI impI)
  assume "NUM_SUPPLIERS cfg = 0"
  then show "gen_suppliers L cfg g = Inl ValueError" using gen_suppliers_none[OF assms] by simp
next
  assume h: "0 < NUM_SUPPLIERS cfg \<and> COUNTRY_WEIGHTS cfg \<noteq> [] \<and>
            0 < sum_list (map snd (COUNTRY_WEIGHTS cfg))"
  then obtain suppliers g' where run: "gen_suppliers L cfg g = Inr (suppliers, g')"
    using gen_suppliers_returns[OF assms, of cfg g] by blast
  then show "\<exists>suppliers g'. gen_suppliers L cfg g = Inr (suppliers, g') \<and>
               length suppliers = NUM_SUPPLIERS cfg"
    using gen_suppliers_length[OF assms run] by simp
qed

theorem supplier_generator_counts_witness:
  "lib_ok replay \<and>
   NUM_SUPPLIERS (script_config\<lparr>NUM_SUPPLIERS := 0\<rparr>) = 0 \<and>
   gen_suppliers replay (script_config\<lparr>NUM_SUPPLIERS := 0\<rparr>) (tapes [3] [7] []) = Inl ValueError \<and>
   0 < NUM_SUPPLIERS (script_config\<lparr>NUM_SUPPLIERS := 2\<rparr>) \<and>
   COUNTRY_WEIGHTS (script_config\<lparr>NUM_SUPPLIERS := 2\<rparr>) \<noteq> [] \<and>
   0 < sum_list (map snd (COUNTRY_WEIGHTS (script_config\<lparr>NUM_SUPPLIERS := 2\<rparr>))) \<and>
   (\<exists>suppliers g'.
      gen_suppliers replay (script_config\<lparr>NUM_SUPPLIERS := 2\<rparr>) (tapes [0, 1] [4, 1] [])
        = Inr (suppliers, g') \<and>
      length suppliers = NUM_SUPPLIERS (script_config\<lparr>NUM_SUPPLIERS := 2\<rparr>))"
proof -
  have h0: "NUM_SUPPLIERS (script_config\<lparr>NUM_SUPPLIERS := 0\<rparr>) = 0" by simp
  have h2: "0 < NUM_SUPPLIERS (script_config\<lparr>NUM_SUPPLIERS := 2\<rparr>) \<and>
            COUNTRY_WEIGHTS (script_config\<lparr>NUM_SUPPLIERS := 2\<rparr>) \<noteq> [] \<and>
            0 < sum_list (map snd (COUNTRY_WEIGHTS (script_config\<lparr>NUM_SUPPLIERS := 2\<rparr>)))"
    by (simp add: script_config_def)
  show ?thesis
    using replay_ok h0 h2
      supplier_generator_counts[OF replay_ok, of "script_config\<lparr>NUM_SUPPLIERS := 0\<rparr>"
        "tapes [3] [7] []", THEN conjunct1, rule_format, OF h0]
      supplier_generator_counts[OF replay_ok, of "script_config\<lparr>NUM_SUPPLIERS := 2\<rparr>"
        "tapes [0, 1] [4, 1] []", THEN conjunct2, rule_format, OF h2]
    by blast
qed

theorem no_suppliers_raises:
  "gen_suppliers replay (script_config\<lparr>NUM_SUPPLIERS := 0\<rparr>) (tapes [] [] []) = Inl ValueError"
  by (simp add: gen_suppliers_def dominance_scores_def draw_eval script_config_def)

subsection \<open>Material nodes\<close>

lemma tier_names_total:
  assumes "tier \<in> set [0, 1, 2, 3, 4]"
  shows "\<exists>names. tier_names tier = Some names \<and> names \<noteq> []"
  using assms by (auto simp: tier_names_def)

lemma material_body_result:
  assumes ok: "lib_ok L"
    and run: "material_body L p i materials g = Inr (materials', g')"
  shows "\<exists>m. materials' = materials @ [m] \<and> tier_level m \<le> 4 \<and>
              material_id m = ''MAT_T'' @ str_nat (tier_level m) @ ''_'' @ zfill 5 (str_nat (i + 1))"
proof -
  from run obtain tier g1 where t: "np_random_choice_p L [0, 1, 2, 3, 4] p g = Inr (tier, g1)"
    and rest: "(case tier_names tier of
         None \<Rightarrow> raiseE KeyError
       | Some names \<Rightarrow>
           bindE (random_choice L names) (\<lambda>base_name.
             bindE (random_lognormvariate L 3 1) (\<lambda>x.
               unitE (materials @
                 [\<lparr>material_id = ''MAT_T'' @ str_nat tier @ ''_'' @ zfill 5 (str_nat (i + 1)),
                   description = base_name,
                   tier_level = tier,
                   base_unit = (if tier < 4 then ''EA'' else ''KG''),
                   cost_estimate = py_round (x * of_int (5 - int tier)) 2\<rparr>])))) g1
         = Inr (materials', g')"
    by (auto simp: material_body_def bindE_Inr)
  have "tier \<in> set [0, 1, 2, 3, 4]" using np_random_choice_p_member[OF ok t] .
  then have le: "tier \<le> 4" by auto
  from rest obtain names where "tier_names tier = Some names"
    by (cases "tier_names tier") (auto simp: raiseE_def)
  with rest obtain base_name x where
    "materials' = materials @
                 [\<lparr>material_id = ''MAT_T'' @ str_nat tier @ ''_'' @ zfill 5 (str_nat (i + 1)),
                   description = base_name,
                   tier_level = tier,
                   base_unit = (if tier < 4 then ''EA'' else ''KG''),
                   cost_estimate = py_round (x * of_int (5 - int tier)) 2\<rparr>]"
    by (auto simp: bindE_Inr unitE_Inr)
  then show ?thesis using le by simp
qed

lemma material_body_returns:
  assumes ok: "lib_ok L" and p: "valid_p 5 p"
  shows "\<exists>materials' g'. material_body L p i materials g = Inr (materials', g')"
proof -
  have "length [0, 1, 2, 3, 4 :: nat] = 5" by simp
  then have "valid_p (length [0, 1, 2, 3, 4 :: nat]) p" using p by (simp only:)
  then obtain tier g1 where t: "np_random_choice_p L [0, 1, 2, 3, 4 :: nat] p g = Inr (tier, g1)"
    using np_random_choice_p_returns[of "[0, 1, 2, 3, 4 :: nat]" p L g] by blast
  have "tier \<in> set [0, 1, 2, 3, 4]" using np_random_choice_p_member[OF ok t] .
  then obtain names where n: "tier_names tier = Some names" "names \<noteq> []"
    using tier_names_total by blast
  obtain base_name g2 where b: "random_choice L names g1 = Inr (base_name, g2)"
    using random_choice_returns[OF n(2)] by blast
  obtain x g3 where x: "random_lognormvariate L 3 1 g2 = Inr (x, g3)"
    using random_lognormvariate_returns by blast
  show ?thesis using t n(1) b x by (simp add: material_body_def bindE_def unitE_def)
qed

lemma gen_materials_length:
  assumes ok: "lib_ok L" and run: "gen_materials L cfg g = Inr (materials, g')"
  shows "length materials = NUM_MATERIALS cfg"
proof -
  have "length materials = length ([] @ [0 ..< NUM_MATERIALS cfg])"
  proof (rule for_each_prefix_invariant[where P = "\<lambda>pre acc. length acc = length pre",
        OF run[unfolded gen_materials_def]])
    show "length ([]::material list) = length ([]::nat list)" by simp
  next
    fix x :: nat and p :: "nat list" and a a' :: "material list" and h h' :: "('a, 'b, 'c) gens"
    assume "length a = length p"
      and "material_body L (TIER_DISTRIBUTION cfg) x a h = Inr (a', h')"
    then show "length a' = length (p @ [x])" using material_body_result[OF ok] by fastforce
  qed
  then show ?thesis by simp
qed

lemma gen_materials_returns:
  assumes ok: "lib_ok L" and p: "valid_p 5 (TIER_DISTRIBUTION cfg)"
  shows "\<exists>materials g'. gen_materials L cfg g = Inr (materials, g')"
  unfolding gen_materials_def
  by (rule for_each_total) (rule material_body_returns[OF ok p])

subsection \<open>BOM edges\<close>

lemma random_sample_result:
  assumes ok: "lib_ok L" and run: "random_sample L population k g = Inr (cs, g')"
  shows "length cs = k \<and> set cs \<subseteq> set population"
proof -
  have le: "k \<le> length population"
    using run by (auto simp: random_sample_def split: if_splits)
  have cs: "cs = map (\<lambda>i. population ! i) (fst (rnd_sample L (length population) k (py g)))"
    using run by (auto simp: random_sample_def split: if_splits prod.splits)
  have "length (fst (rnd_sample L (length population) k (py g))) = k"
    and "\<forall>i \<in> set (fst (rnd_sample L (length population) k (py g))). i < length population"
    using ok le by (simp_all add: lib_ok_def)
  then show ?thesis using cs by auto
qed

lemma np_random_choice_noreplace_result:
  assumes ok: "lib_ok L" and run: "np_random_choice_noreplace L a k g = Inr (cs, g')"
  shows "length cs = k \<and> set cs \<subseteq> set a \<and> k \<le> length a"
proof -
  have le: "k \<le> length a"
    using run by (auto simp: np_random_choice_noreplace_def split: if_splits)
  have cs: "cs = map (\<lambda>i. a ! i) (fst (np_choice_distinct L (length a) k (np g)))"
    using run by (auto simp: np_random_choice_noreplace_def split: if_splits prod.splits)
  have "length (fst (np_choice_distinct L (length a) k (np g))) = k"
    and "\<forall>i \<in> set (fst (np_choice_distinct L (length a) k (np g))). i < length a"
    using ok le by (simp_all add: lib_ok_def)
  then show ?thesis using cs le by auto
qed

lemma np_random_choice_noreplace_too_many:
  "length a < k \<Longrightarrow> np_random_choice_noreplace L a k g = Inl ValueError"
  by (simp add: np_random_choice_noreplace_def)

lemma select_children_result:
  assumes ok: "lib_ok L"
    and run: "select_children L tier potential_children num_children g = Inr (children, g')"
  shows "set children \<subseteq> set potential_children \<and>
         length children = min (length potential_children) num_children"
proof (cases "tier = 3")
  case True
  then have "np_random_choice_noreplace L potential_children num_children g = Inr (children, g')"
    using run by (simp add: select_children_def)
  from np_random_choice_noreplace_result[OF ok this] show ?thesis by auto
next
  case False
  then have "random_sample L potential_children (min (length potential_children) num_children) g
               = Inr (children, g')"
    using run by (simp add: select_children_def)
  from random_sample_result[OF ok this] show ?thesis by auto
qed

lemma edge_body_result:
  assumes "edge_body L tier parent child bom_edges g = Inr (bom_edges', g')"
  shows "\<exists>e. bom_edges' = bom_edges @ [e] \<and> parent_material_id e = parent \<and>
              child_material_id e = child"
proof -
  from assms obtain u g1 qty g2 where
    "bom_edges' = bom_edges @
           [\<lparr>parent_material_id = parent, child_material_id = child, quantity = qty\<rparr>]"
    by (auto simp: edge_body_def bindE_Inr unitE_Inr)
  then show ?thesis by simp
qed

text \<open>The loops keep every property of the edges that each new edge has.\<close>

lemma parent_body_edges:
  assumes ok: "lib_ok L"
    and run: "parent_body L tier potential_children parent bom_edges g = Inr (bom_edges', g')"
    and old: "\<forall>e \<in> set bom_edges. Q e"
    and new: "\<And>e. parent_material_id e = parent \<Longrightarrow>
                 child_material_id e \<in> set potential_children \<Longrightarrow> Q e"
  shows "\<forall>e \<in> set bom_edges'. Q e"
proof -
  from run obtain n g1 children g2 where
    sel: "select_children L tier potential_children (max 1 n) g1 = Inr (children, g2)" and
    loop: "for_each (edge_body L tier parent) children bom_edges g2 = Inr (bom_edges', g')"
    by (auto simp: parent_body_def bindE_Inr Let_def)
  have sub: "set children \<subseteq> set potential_children"
    using select_children_result[OF ok sel] by simp
  show ?thesis
  proof (rule for_each_invariant[where P = "\<lambda>acc. \<forall>e \<in> set acc. Q e", OF loop old])
    fix x :: string and a a' :: "bom_edge list" and h h' :: "('a, 'b, 'c) gens"
    assume x: "x \<in> set children" and inv: "\<forall>e \<in> set a. Q e"
      and step: "edge_body L tier parent x a h = Inr (a', h')"
    from edge_body_result[OF step] obtain e where
      e: "a' = a @ [e]" "parent_material_id e = parent" "child_material_id e = x"
      by blast
    have "Q e" using new[of e] e(2,3) x sub by auto
    then show "\<forall>e \<in> set a'. Q e" using inv e(1) by simp
  qed
qed

lemma tier_body_edges:
  assumes ok: "lib_ok L"
    and run: "tier_body L by_tier tier bom_edges g = Inr (bom_edges', g')"
    and old: "\<forall>e \<in> set bom_edges. Q e"
    and new: "\<And>e. parent_material_id e \<in> set (get_or_empty by_tier tier) \<Longrightarrow>
                 child_material_id e \<in> set (get_or_empty by_tier (tier + 1)) \<Longrightarrow> Q e"
  shows "\<forall>e \<in> set bom_edges'. Q e"
proof (cases "get_or_empty by_tier (tier + 1) = []")
  case True
  then have "bom_edges' = bom_edges" using run by (simp add: tier_body_def unitE_def Let_def)
  then show ?thesis using old by simp
next
  case False
  then have loop: "for_each (parent_body L tier (get_or_empty by_tier (tier + 1)))
                     (get_or_empty by_tier tier) bom_edges g = Inr (bom_edges', g')"
    using run by (simp add: tier_body_def Let_def)
  show ?thesis
  proof (rule for_each_invariant[where P = "\<lambda>acc. \<forall>e \<in> set acc. Q e", OF loop old])
    fix x :: string and a a' :: "bom_edge list" and h h' :: "('a, 'b, 'c) gens"
    assume x: "x \<in> set (get_or_empty by_tier tier)" and inv: "\<forall>e \<in> set a. Q e"
      and step: "parent_body L tier (get_or_empty by_tier (tier + 1)) x a h = Inr (a', h')"
    show "\<forall>e \<in> set a'. Q e"
    proof (rule parent_body_edges[OF ok step inv])
      fix e :: bom_edge
      assume "parent_material_id e = x"
        and "child_material_id e \<in> set (get_or_empty by_tier (tier + 1))"
      then show "Q e" using new[of e] x by simp
    qed
  qed
qed

lemma tier_body_skip:
  "get_or_empty by_tier (tier + 1) = [] \<Longrightarrow> tier_body L by_tier tier bom_edges g = Inr (bom_edges, g)"
  by (simp add: tier_body_def unitE_def Let_def)

lemma mats_by_tier_get:
  assumes "mats_by_tier materials = Inr by_tier"
  shows "get_or_empty by_tier t = map material_id (filter (\<lambda>m. tier_level m = t) materials)"
proof -
  have "by_tier = (\<lambda>t. let ids = map material_id (filter (\<lambda>m. tier_level m = t) materials)
                    in if ids = [] then None else Some ids)"
    using assms by (auto simp: mats_by_tier_def split: if_splits)
  then show ?thesis by (simp add: get_or_empty_def Let_def)
qed

lemma gen_bom_adjacent:
  assumes ok: "lib_ok L" and run: "gen_bom L materials g = Inr (bom_edges, g')"
  shows "\<forall>e \<in> set bom_edges. \<exists>p \<in> set materials. \<exists>c \<in> set materials.
           material_id p = parent_material_id e \<and> material_id c = child_material_id e \<and>
           tier_level p < 4 \<and> tier_level c = tier_level p + 1"
proof -
  let ?Q = "\<lambda>e. \<exists>p \<in> set materials. \<exists>c \<in> set materials.
           material_id p = parent_material_id e \<and> material_id c = child_material_id e \<and>
           tier_level p < 4 \<and> tier_level c = tier_level p + 1"
  from run obtain by_tier where bt: "mats_by_tier materials = Inr by_tier"
    and loop: "for_each (tier_body L by_tier) [0 ..< 4] [] g = Inr (bom_edges, g')"
    by (cases "mats_by_tier materials") (auto simp: gen_bom_def raiseE_def)
  show ?thesis
  proof (rule for_each_invariant[where P = "\<lambda>acc. \<forall>e \<in> set acc. ?Q e", OF loop])
    show "\<forall>e \<in> set []. ?Q e" by simp
  next
    fix t :: nat and a a' :: "bom_edge list" and h h' :: "('a, 'b, 'c) gens"
    assume t: "t \<in> set [0 ..< 4]" and inv: "\<forall>e \<in> set a. ?Q e"
      and step: "tier_body L by_tier t a h = Inr (a', h')"
    show "\<forall>e \<in> set a'. ?Q e"
    proof (rule tier_body_edges[OF ok step inv])
      fix e :: bom_edge
      assume "parent_material_id e \<in> set (get_or_empty by_tier t)"
        and "child_material_id e \<in> set (get_or_empty by_tier (t + 1))"
      then obtain p c where "p \<in> set materials" "tier_level p = t"
        "material_id p = parent_material_id e" "c \<in> set materials" "tier_level c = t + 1"
        "material_id c = child_material_id e"
        unfolding mats_by_tier_get[OF bt] by auto
      then show "?Q e" using t by auto
    qed
  qed
qed

subsection \<open>Material identifiers encode the tier\<close>

lemma gen_materials_ids:
  assumes ok: "lib_ok L" and run: "gen_materials L cfg g = Inr (materials, g')"
  shows "\<forall>m \<in> set materials. tier_level m \<le> 4 \<and>
           (\<exists>sfx. material_id m = ''MAT_T'' @ str_nat (tier_level m) @ sfx)"
proof (rule for_each_invariant[where
      P = "\<lambda>acc. \<forall>m \<in> set acc. tier_level m \<le> 4 \<and>
             (\<exists>sfx. material_id m = ''MAT_T'' @ str_nat (tier_level m) @ sfx)",
      OF run[unfolded gen_materials_def]])
  show "\<forall>m \<in> set ([] :: material list). tier_level m \<le> 4 \<and>
           (\<exists>sfx. material_id m = ''MAT_T'' @ str_nat (tier_level m) @ sfx)"
    by simp
next
  fix x :: nat and a a' :: "material list" and h h' :: "('a, 'b, 'c) gens"
  assume inv: "\<forall>m \<in> set a. tier_level m \<le> 4 \<and>
           (\<exists>sfx. material_id m = ''MAT_T'' @ str_nat (tier_level m) @ sfx)"
    and step: "material_body L (TIER_DISTRIBUTION cfg) x a h = Inr (a', h')"
  from material_body_result[OF ok step] obtain m where
    m: "a' = a @ [m]" "tier_level m \<le> 4"
       "material_id m = ''MAT_T'' @ str_nat (tier_level m) @ ''_'' @ zfill 5 (str_nat (x + 1))"
    by blast
  then show "\<forall>m \<in> set a'. tier_level m \<le> 4 \<and>
           (\<exists>sfx. material_id m = ''MAT_T'' @ str_nat (tier_level m) @ sfx)"
    using inv by auto
qed

lemma digit_char_inj:
  assumes "s \<le> 4" "t \<le> 4" "digit_char s = digit_char t"
  shows "s = t"
proof -
  have cases: "\<And>n. n \<le> 4 \<Longrightarrow> n = 0 \<or> n = 1 \<or> n = 2 \<or> n = 3 \<or> n = (4::nat)" by arith
  from cases[OF assms(1)] cases[OF assms(2)] assms(3) show ?thesis
    by (auto simp: digit_char_def)
qed

lemma tier_from_id:
  assumes "tier_level (m::material) \<le> 4" "material_id m = ''MAT_T'' @ str_nat (tier_level m) @ sfx"
    and "tier_level (m'::material) \<le> 4" "material_id m' = ''MAT_T'' @ str_nat (tier_level m') @ sfx'"
    and "material_id m = material_id m'"
  shows "tier_level m = tier_level m'"
proof -
  have s: "str_nat (tier_level m) = [digit_char (tier_level m)]"
    "str_nat (tier_level m') = [digit_char (tier_level m')]"
    using assms(1,3) by (simp_all add: str_nat.simps)
  have "digit_char (tier_level m) = digit_char (tier_level m')"
    using assms(2,4,5) unfolding s by simp
  then show ?thesis using digit_char_inj assms(1,3) by blast
qed

lemma increasing_edges_acyclic:
  assumes "\<And>a b. (a, b) \<in> r \<Longrightarrow> f a < (f b :: nat)"
  shows "acyclic r"
proof -
  have "r \<subseteq> measure f" using assms by auto
  then have "wf r" by (rule wf_subset[OF wf_measure])
  then show ?thesis by (rule wf_acyclic)
qed

text \<open>
  C6. Every edge the BOM builder produces joins a parent material to a child material
  exactly one tier below it: there are no skip-level edges, no self-loops and no cycles.
  A tier transition whose child pool is empty is skipped: it adds no edge, draws nothing
  and does not fail.
\<close>

theorem bom_edges_adjacent_tiers:
  assumes "lib_ok L"
    and "gen_materials L cfg g0 = Inr (materials, g1)"
    and "gen_bom L materials g1 = Inr (bom_edges, g2)"
  shows "(\<forall>e \<in> set bom_edges. \<exists>p \<in> set materials. \<exists>c \<in> set materials.
            material_id p = parent_material_id e \<and> material_id c = child_material_id e \<and>
            tier_level c = tier_level p + 1) \<and>
         (\<forall>e \<in> set bom_edges. \<forall>p \<in> set materials. \<forall>c \<in> set materials.
            material_id p = parent_material_id e \<and> material_id c = child_material_id e \<longrightarrow>
            tier_level c = tier_level p + 1) \<and>
         (\<forall>e \<in> set bom_edges. parent_material_id e \<noteq> child_material_id e) \<and>
         acyclic {(parent_material_id e, child_material_id e) | e. e \<in> set bom_edges} \<and>
         (\<forall>by_tier tier edges h. get_or_empty by_tier (tier + 1) = [] \<longrightarrow>
            tier_body L by_tier tier edges h = Inr (edges, h))"
proof -
  have idt: "tier_level m = tier_level m'"
    if "m \<in> set materials" "m' \<in> set materials" "material_id m = material_id m'" for m m'
  proof -
    from gen_materials_ids[OF assms(1,2)] that(1) obtain sfx where
      m: "tier_level m \<le> 4" "material_id m = ''MAT_T'' @ str_nat (tier_level m) @ sfx"
      by blast
    from gen_materials_ids[OF assms(1,2)] that(2) obtain sfx' where
      m': "tier_level m' \<le> 4" "material_id m' = ''MAT_T'' @ str_nat (tier_level m') @ sfx'"
      by blast
    show ?thesis by (rule tier_from_id[OF m m' that(3)])
  qed
  have adj: "\<exists>p \<in> set materials. \<exists>c \<in> set materials.
            material_id p = parent_material_id e \<and> material_id c = child_material_id e \<and>
            tier_level c = tier_level p + 1"
    if "e \<in> set bom_edges" for e
    using gen_bom_adjacent[OF assms(1,3)] that by blast
  have strong: "tier_level c = tier_level p + 1"
    if "e \<in> set bom_edges" "p \<in> set materials" "c \<in> set materials"
      "material_id p = parent_material_id e" "material_id c = child_material_id e" for e p c
  proof -
    from adj[OF that(1)] obtain p' c' where
      pc: "p' \<in> set materials" "c' \<in> set materials" "material_id p' = parent_material_id e"
          "material_id c' = child_material_id e" "tier_level c' = tier_level p' + 1"
      by blast
    have "tier_level p = tier_level p'" using idt[OF that(2) pc(1)] that(4) pc(3) by simp
    moreover have "tier_level c = tier_level c'" using idt[OF that(3) pc(2)] that(5) pc(4) by simp
    ultimately show ?thesis using pc(5) by simp
  qed
  have noloop: "parent_material_id e \<noteq> child_material_id e" if "e \<in> set bom_edges" for e
  proof
    assume eq: "parent_material_id e = child_material_id e"
    from adj[OF that] obtain p c where
      pc: "p \<in> set materials" "c \<in> set materials" "material_id p = parent_material_id e"
          "material_id c = child_material_id e" "tier_level c = tier_level p + 1"
      by blast
    have "tier_level p = tier_level c" using idt[OF pc(1,2)] pc(3,4) eq by simp
    then show False using pc(5) by simp
  qed
  define f where "f = (\<lambda>i. tier_level (SOME m. m \<in> set materials \<and> material_id m = i))"
  have f: "f (material_id m) = tier_level m" if "m \<in> set materials" for m
  proof -
    have "(SOME m'. m' \<in> set materials \<and> material_id m' = material_id m) \<in> set materials \<and>
          material_id (SOME m'. m' \<in> set materials \<and> material_id m' = material_id m)
            = material_id m"
      by (rule someI[of _ m]) (simp add: that)
    then show ?thesis unfolding f_def using idt[OF _ that] by blast
  qed
  have acyc: "acyclic {(parent_material_id e, child_material_id e) | e. e \<in> set bom_edges}"
  proof (rule increasing_edges_acyclic[where f = f])
    fix a b
    assume "(a, b) \<in> {(parent_material_id e, child_material_id e) | e. e \<in> set bom_edges}"
    then obtain e where e: "e \<in> set bom_edges" "a = parent_material_id e"
      "b = child_material_id e" by blast
    from adj[OF e(1)] obtain p c where
      pc: "p \<in> set materials" "c \<in> set materials" "material_id p = parent_material_id e"
          "material_id c = child_material_id e" "tier_level c = tier_level p + 1"
      by blast
    have "f a = tier_level p" "f b = tier_level c" using f[OF pc(1)] f[OF pc(2)] pc(3,4) e by simp_all
    then show "f a < f b" using pc(5) by simp
  qed
  show ?thesis using adj strong noloop acyc tier_body_skip by blast
qed

lemma upt_eval:
  "[0 ..< numeral n] = 0 # [Suc 0 ..< numeral n]"
  "[Suc i ..< numeral n] = (if Suc i < numeral n then Suc i # [Suc (Suc i) ..< numeral n] else [])"
  by (simp_all add: upt_rec[of 0] upt_rec[of "Suc i"])

theorem bom_edges_adjacent_tiers_witness:
  "lib_ok replay \<and>
   gen_materials replay (script_config\<lparr>NUM_MATERIALS := 2\<rparr>)
       (tapes [0, 2, 4, 3, 7, 2] [3, 4, 1, 0] [])
     = Inr ([\<lparr>material_id = ''MAT_T3_00001'', description = ''Cell_Prismatic'', tier_level = 3,
              base_unit = ''EA'', cost_estimate = 4\<rparr>,
             \<lparr>material_id = ''MAT_T4_00002'', description = ''Copper_Foil'', tier_level = 4,
              base_unit = ''KG'', cost_estimate = 3\<rparr>], tapes [7, 2] [1, 0] []) \<and>
   gen_bom replay
       [\<lparr>material_id = ''MAT_T3_00001'', description = ''Cell_Prismatic'', tier_level = 3,
         base_unit = ''EA'', cost_estimate = 4\<rparr>,
        \<lparr>material_id = ''MAT_T4_00002'', description = ''Copper_Foil'', tier_level = 4,
         base_unit = ''KG'', cost_estimate = 3\<rparr>] (tapes [7, 2] [1, 0] [])
     = Inr ([\<lparr>parent_material_id = ''MAT_T3_00001'', child_material_id = ''MAT_T4_00002'',
              quantity = 2\<rparr>], tapes [] [] []) \<and>
   acyclic {(parent_material_id e, child_material_id e) | e.
             e \<in> set [\<lparr>parent_material_id = ''MAT_T3_00001'',
                         child_material_id = ''MAT_T4_00002'', quantity = 2\<rparr>]} \<and>
   get_or_empty (Map.empty :: nat \<Rightarrow> string list option) (0 + 1) = [] \<and>
   tier_body replay Map.empty 0 [] (tapes [7, 2] [1, 0] []) = Inr ([], tapes [7, 2] [1, 0] [])"
proof -
  have mats: "gen_materials replay (script_config\<lparr>NUM_MATERIALS := 2\<rparr>)
       (tapes [0, 2, 4, 3, 7, 2] [3, 4, 1, 0] [])
     = Inr ([\<lparr>material_id = ''MAT_T3_00001'', description = ''Cell_Prismatic'', tier_level = 3,
              base_unit = ''EA'', cost_estimate = 4\<rparr>,
             \<lparr>material_id = ''MAT_T4_00002'', description = ''Copper_Foil'', tier_level = 4,
              base_unit = ''KG'', cost_estimate = 3\<rparr>], tapes [7, 2] [1, 0] [])"
    by (simp add: gen_materials_def material_body_def tier_names_def draw_eval str_eval
        script_config_def upt_eval)
  have bom: "gen_bom replay
       [\<lparr>material_id = ''MAT_T3_00001'', description = ''Cell_Prismatic'', tier_level = 3,
         base_unit = ''EA'', cost_estimate = 4\<rparr>,
        \<lparr>material_id = ''MAT_T4_00002'', description = ''Copper_Foil'', tier_level = 4,
         base_unit = ''KG'', cost_estimate = 3\<rparr>] (tapes [7, 2] [1, 0] [])
     = Inr ([\<lparr>parent_material_id = ''MAT_T3_00001'', child_material_id = ''MAT_T4_00002'',
              quantity = 2\<rparr>], tapes [] [] [])"
    by (simp add: gen_bom_def mats_by_tier_def get_or_empty_def tier_body_def parent_body_def
        select_children_def edge_body_def draw_eval upt_eval)
  have empty: "get_or_empty (Map.empty :: nat \<Rightarrow> string list option) (0 + 1) = []"
    by (simp add: get_or_empty_def)
  note inst = bom_edges_adjacent_tiers[OF replay_ok mats bom]
  have skip: "tier_body replay Map.empty 0 [] (tapes [7, 2] [1, 0] []) = Inr ([], tapes [7, 2] [1, 0] [])"
    using inst[THEN conjunct2, THEN conjunct2, THEN conjunct2, THEN conjunct2, rule_format,
        OF empty] .
  show ?thesis
    using replay_ok mats bom empty skip
      inst[THEN conjunct2, THEN conjunct2, THEN conjunct2, THEN conjunct1]
    by (intro conjI)
qed

text \<open>
  C4. The claim holds for the transitions from tiers 0, 1 and 2, which clamp the fan-out
  with \<^verbatim>\<open>min(len(potential_children), num_children)\<close>. The tier 3 branch passes
  the unclamped count to \<^verbatim>\<open>np.random.choice(..., replace=False)\<close>: with one raw
  material and a Poisson draw of 2 the run ends in ValueError, while the same draw at
  tier 2 is clamped to the single cell available.
\<close>

theorem tier3_fanout_above_pool_raises:
  "gen_bom replay
       [\<lparr>material_id = ''MAT_T3_00001'', description = ''Cell_Prismatic'', tier_level = 3,
         base_unit = ''EA'', cost_estimate = 4\<rparr>,
        \<lparr>material_id = ''MAT_T4_00002'', description = ''Copper_Foil'', tier_level = 4,
         base_unit = ''KG'', cost_estimate = 3\<rparr>] (tapes [7, 2] [2, 0] [])
     = Inl ValueError \<and>
   gen_bom replay
       [\<lparr>material_id = ''MAT_T2_00001'', description = ''Module_LFP'', tier_level = 2,
         base_unit = ''EA'', cost_estimate = 6\<rparr>,
        \<lparr>material_id = ''MAT_T3_00002'', description = ''Cell_Pouch'', tier_level = 3,
         base_unit = ''EA'', cost_estimate = 4\<rparr>] (tapes [0, 7] [2] [])
     = Inr ([\<lparr>parent_material_id = ''MAT_T2_00001'', child_material_id = ''MAT_T3_00002'',
              quantity = 7\<rparr>], tapes [] [] [])"
  by (simp add: gen_bom_def mats_by_tier_def get_or_empty_def tier_body_def parent_body_def
      select_children_def edge_body_def draw_eval upt_eval)

lemma distinct_map_nth:
  assumes "distinct xs" "distinct is" "\<forall>i \<in> set is. i < length xs"
  shows "distinct (map (\<lambda>i. xs ! i) is)"
proof -
  have "inj_on (\<lambda>i. xs ! i) (set is)"
    using assms(1,3) by (auto simp: inj_on_def nth_eq_iff_index_eq)
  then show ?thesis using assms(2) by (simp add: distinct_map)
qed

text \<open>
  C2. At the tier 3 to tier 4 transition the script calls
  \<^verbatim>\<open>np.random.choice(potential_children, size=num_children, replace=False)\<close>: the draw
  is given the whole tier-4 pool, no weights and no replacement. It sees the pool only
  through its length, and the children of one parent are distinct members of the pool, as
  many as the fan-out. No sampling policy biased toward a subset of the pool is present.
\<close>

theorem tier3_children_unweighted_distinct:
  assumes "lib_ok L"
    and "select_children L 3 potential_children num_children g = Inr (children, g')"
  shows "children = map (\<lambda>i. potential_children ! i)
                      (fst (np_choice_distinct L (length potential_children) num_children (np g))) \<and>
         length children = num_children \<and> num_children \<le> length potential_children \<and>
         set children \<subseteq> set potential_children \<and>
         (distinct potential_children \<longrightarrow> distinct children)"
proof -
  have run: "np_random_choice_noreplace L potential_children num_children g = Inr (children, g')"
    using assms(2) by (simp add: select_children_def)
  have le: "num_children \<le> length potential_children"
    using np_random_choice_noreplace_result[OF assms(1) run] by simp
  have cs: "children = map (\<lambda>i. potential_children ! i)
                      (fst (np_choice_distinct L (length potential_children) num_children (np g)))"
    using run by (auto simp: np_random_choice_noreplace_def split: if_splits prod.splits)
  have d: "distinct (fst (np_choice_distinct L (length potential_children) num_children (np g)))"
    and b: "\<forall>i \<in> set (fst (np_choice_distinct L (length potential_children) num_children (np g))).
              i < length potential_children"
    using assms(1) le by (simp_all add: lib_ok_def)
  have "distinct children" if "distinct potential_children"
    unfolding cs by (rule distinct_map_nth[OF that d b])
  then show ?thesis using cs le np_random_choice_noreplace_result[OF assms(1) run] by blast
qed

theorem tier3_children_unweighted_distinct_witness:
  "lib_ok replay \<and>
   select_children replay 3 [''MAT_T4_00002'', ''MAT_T4_00003'', ''MAT_T4_00004''] 2
       (tapes [] [1] [])
     = Inr ([''MAT_T4_00003'', ''MAT_T4_00004''], tapes [] [] []) \<and>
   distinct [''MAT_T4_00002'', ''MAT_T4_00003'', ''MAT_T4_00004''] \<and>
   distinct [''MAT_T4_00003'', ''MAT_T4_00004'']"
proof -
  have run: "select_children replay 3 [''MAT_T4_00002'', ''MAT_T4_00003'', ''MAT_T4_00004''] 2
       (tapes [] [1] [])
     = Inr ([''MAT_T4_00003'', ''MAT_T4_00004''], tapes [] [] [])"
    by (simp add: select_children_def draw_eval upt_eval)
  have d: "distinct [''MAT_T4_00002'', ''MAT_T4_00003'', ''MAT_T4_00004'']" by simp
  show ?thesis
    using replay_ok run d
      tier3_children_unweighted_distinct[OF replay_ok run, THEN conjunct2, THEN conjunct2,
        THEN conjunct2, THEN conjunct2, rule_format, OF d]
    by (intro conjI)
qed

subsection \<open>The whole run\<close>

lemma gen_orders_exact:
  assumes "gen_orders L cfg ml msm g = Inr ((orders, statuses), g')"
  shows "length orders = TARGET_PO_COUNT cfg \<and> length statuses = TARGET_PO_COUNT cfg \<and>
         map po_id orders = map (\<lambda>i. ''PO-'' @ str_nat (100000 + i)) [0 ..< TARGET_PO_COUNT cfg]"
proof -
  have ids: "map po_id orders
               = map (\<lambda>i. ''PO-'' @ str_nat (100000 + i)) [0 ..< TARGET_PO_COUNT cfg]"
    and len: "length statuses = TARGET_PO_COUNT cfg"
    using po_loop_ids[OF assms[unfolded gen_orders_def]] by simp_all
  have "length orders = length (map po_id orders)" by simp
  also have "\<dots> = length (map (\<lambda>i. ''PO-'' @ str_nat (100000 + i)) [0 ..< TARGET_PO_COUNT cfg])"
    by (simp only: ids)
  finally have "length orders = TARGET_PO_COUNT cfg" by simp
  then show ?thesis using ids len by simp
qed

lemma gen_orders_returns:
  assumes ok: "lib_ok L" and ne: "material_list \<noteq> []"
    and cover: "\<forall>m \<in> set material_list.
                  \<exists>vs. mat_supplier_map (material_id m) = Some vs \<and> vs \<noteq> []"
  shows "\<exists>r g'. gen_orders L cfg material_list mat_supplier_map g = Inr (r, g')"
  unfolding gen_orders_def
  by (rule po_loop_returns) (rule po_iteration_returns[OF ok ne cover])

lemma gen_bom_nonempty:
  assumes "gen_bom L materials g = Inr (bom_edges, g')"
  shows "materials \<noteq> []"
proof
  assume "materials = []"
  then have "gen_bom L materials g = Inl KeyError"
    by (simp add: gen_bom_def mats_by_tier_def raiseE_def)
  then show False using assms by simp
qed

lemma pipeline_stages:
  assumes "pipeline L cfg g0 = Inr (d, g5)"
  shows "\<exists>suppliers g1 materials g2 bom g3 msm g4 orders statuses.
           gen_suppliers L cfg g0 = Inr (suppliers, g1) \<and>
           gen_materials L cfg g1 = Inr (materials, g2) \<and>
           gen_bom L materials g2 = Inr (bom, g3) \<and>
           gen_asl L suppliers materials g3 = Inr (msm, g4) \<and>
           gen_orders L cfg materials msm g4 = Inr ((orders, statuses), g5) \<and>
           d = \<lparr>df_suppliers = suppliers, df_materials = materials, df_bom = bom,
                 df_po = orders, asl_map = msm, po_status_log = statuses\<rparr>"
  using assms unfolding pipeline_def bindE_Inr
  by (auto simp: unitE_Inr split: prod.splits)

lemma pipeline_from_stages:
  assumes "gen_suppliers L cfg g0 = Inr (suppliers, g1)"
    and "gen_materials L cfg g1 = Inr (materials, g2)"
    and "gen_bom L materials g2 = Inr (bom, g3)"
    and "gen_asl L suppliers materials g3 = Inr (msm, g4)"
    and "gen_orders L cfg materials msm g4 = Inr ((orders, statuses), g5)"
  shows "pipeline L cfg g0 =
           Inr (\<lparr>df_suppliers = suppliers, df_materials = materials, df_bom = bom,
                 df_po = orders, asl_map = msm, po_status_log = statuses\<rparr>, g5)"
  using assms by (simp add: pipeline_def bindE_def unitE_def)

lemma orders_stage_returns:
  assumes ok: "lib_ok L"
    and bom: "gen_bom L materials g2 = Inr (bom, g3)"
    and asl: "gen_asl L suppliers materials g3 = Inr (msm, g4)"
  shows "\<exists>orders statuses g5. gen_orders L cfg materials msm g4 = Inr ((orders, statuses), g5)"
proof -
  have ne: "materials \<noteq> []" using gen_bom_nonempty[OF bom] .
  have cover: "\<forall>m \<in> set materials. \<exists>vs. msm (material_id m) = Some vs \<and> vs \<noteq> []"
  proof
    fix m assume "m \<in> set materials"
    then obtain vs where vs: "msm (material_id m) = Some vs"
      using gen_asl_covers[OF ok asl] by blast
    then have "1 \<le> length vs"
      using gen_asl_sizes[OF ok asl, rule_format, of "material_id m" vs] by simp
    then have "vs \<noteq> []" by auto
    then show "\<exists>vs. msm (material_id m) = Some vs \<and> vs \<noteq> []" using vs by simp
  qed
  from gen_orders_returns[OF ok ne cover, of cfg g4] show ?thesis by auto
qed

text \<open>
  C8. The order loop runs exactly target-count iterations, each appending one record
  (the records carry the consecutive identifiers PO-100000, PO-100001, ...): on a
  non-empty material list whose materials all have a non-empty candidate list it returns,
  with exactly the target number of records. In the whole run, once suppliers, materials,
  BOM edges and the approved-supplier map are built, the loop cannot fail, and the run
  returns exactly the configured numbers of suppliers, materials and orders.
\<close>

theorem record_counts_exact:
  assumes "lib_ok L"
  shows "(\<forall>(material_list :: material list) (mat_supplier_map :: string \<Rightarrow> string list option) g.
            material_list \<noteq> [] \<and>
            (\<forall>m \<in> set material_list. \<exists>vs. mat_supplier_map (material_id m) = Some vs \<and> vs \<noteq> [])
            \<longrightarrow> (\<exists>orders statuses g'.
                   gen_orders L cfg material_list mat_supplier_map g = Inr ((orders, statuses), g') \<and>
                   length orders = TARGET_PO_COUNT cfg \<and>
                   map po_id orders
                     = map (\<lambda>i. ''PO-'' @ str_nat (100000 + i)) [0 ..< TARGET_PO_COUNT cfg])) \<and>
         (\<forall>g0 suppliers g1 materials g2 bom g3 msm g4.
            gen_suppliers L cfg g0 = Inr (suppliers, g1) \<and>
            gen_materials L cfg g1 = Inr (materials, g2) \<and>
            gen_bom L materials g2 = Inr (bom, g3) \<and>
            gen_asl L suppliers materials g3 = Inr (msm, g4)
            \<longrightarrow> (\<exists>d g5. pipeline L cfg g0 = Inr (d, g5))) \<and>
         (\<forall>g0 d g5. pipeline L cfg g0 = Inr (d, g5) \<longrightarrow>
            length (df_suppliers d) = NUM_SUPPLIERS cfg \<and>
            length (df_materials d) = NUM_MATERIALS cfg \<and>
            length (df_po d) = TARGET_PO_COUNT cfg)"
proof (intro conjI allI impI)
  fix material_list :: "material list" and mat_supplier_map :: "string \<Rightarrow> string list option"
    and g :: "('a, 'b, 'c) gens"
  assume h: "material_list \<noteq> [] \<and>
            (\<forall>m \<in> set material_list. \<exists>vs. mat_supplier_map (material_id m) = Some vs \<and> vs \<noteq> [])"
  then obtain orders statuses g' where
    run: "gen_orders L cfg material_list mat_supplier_map g = Inr ((orders, statuses), g')"
    using gen_orders_returns[OF assms, of material_list mat_supplier_map cfg g] by auto
  show "\<exists>orders statuses g'.
                   gen_orders L cfg material_list mat_supplier_map g = Inr ((orders, statuses), g') \<and>
                   length orders = TARGET_PO_COUNT cfg \<and>
                   map po_id orders
                     = map (\<lambda>i. ''PO-'' @ str_nat (100000 + i)) [0 ..< TARGET_PO_COUNT cfg]"
    using run gen_orders_exact[OF run] by simp
next
  fix g0 g1 g2 g3 g4 :: "('a, 'b, 'c) gens" and suppliers materials bom msm
  assume st: "gen_suppliers L cfg g0 = Inr (suppliers, g1) \<and>
            gen_materials L cfg g1 = Inr (materials, g2) \<and>
            gen_bom L materials g2 = Inr (bom, g3) \<and>
            gen_asl L suppliers materials g3 = Inr (msm, g4)"
  then obtain orders statuses g5 where
    "gen_orders L cfg materials msm g4 = Inr ((orders, statuses), g5)"
    using orders_stage_returns[OF assms, of materials g2 bom g3 suppliers msm g4 cfg] by auto
  then show "\<exists>d g5. pipeline L cfg g0 = Inr (d, g5)"
    using pipeline_from_stages[of L cfg g0 suppliers g1 materials g2 bom g3 msm g4] st by simp
next
  fix g0 g5 :: "('a, 'b, 'c) gens" and d
  assume run: "pipeline L cfg g0 = Inr (d, g5)"
  from pipeline_stages[OF run] obtain suppliers g1 materials g2 bom g3 msm g4 orders statuses where
    s: "gen_suppliers L cfg g0 = Inr (suppliers, g1)"
       "gen_materials L cfg g1 = Inr (materials, g2)"
       "gen_orders L cfg materials msm g4 = Inr ((orders, statuses), g5)"
       "d = \<lparr>df_suppliers = suppliers, df_materials = materials, df_bom = bom,
                 df_po = orders, asl_map = msm, po_status_log = statuses\<rparr>"
    by blast
  show "length (df_suppliers d) = NUM_SUPPLIERS cfg" using gen_suppliers_length[OF assms s(1)] s(4) by simp
  show "length (df_materials d) = NUM_MATERIALS cfg" using gen_materials_length[OF assms s(2)] s(4) by simp
  show "length (df_po d) = TARGET_PO_COUNT cfg" using gen_orders_exact[OF s(3)] s(4) by simp
qed

subsection \<open>A complete small run\<close>

lemma one_supplier:
  assumes "NUM_SUPPLIERS cfg = 1" "COUNTRY_WEIGHTS cfg = COUNTRY_WEIGHTS script_config"
  shows "gen_suppliers replay cfg (tapes (0 # r) (4 # n) f)
     = Inr ([\<lparr>supplier_id = ''SUP_CN_00001'', name = ''Acme Ltd'', country = ''CN'',
              capacity_score = 50\<rparr>], tapes r n f)"
  using assms
  by (simp add: gen_suppliers_def dominance_scores_def supplier_body_def
      script_config_def draw_eval str_eval upt_eval)

lemma small_suppliers:
  "gen_suppliers replay small_config (tapes (0 # r) (4 # n) f)
     = Inr ([\<lparr>supplier_id = ''SUP_CN_00001'', name = ''Acme Ltd'', country = ''CN'',
              capacity_score = 50\<rparr>], tapes r n f)"
  by (rule one_supplier) (simp_all add: small_config_def)

lemma two_materials:
  assumes "NUM_MATERIALS cfg = 2" "TIER_DISTRIBUTION cfg = TIER_DISTRIBUTION script_config"
  shows "gen_materials replay cfg (tapes (0 # 2 # 4 # 3 # r) (3 # 4 # n) f)
     = Inr ([\<lparr>material_id = ''MAT_T3_00001'', description = ''Cell_Prismatic'', tier_level = 3,
              base_unit = ''EA'', cost_estimate = 4\<rparr>,
             \<lparr>material_id = ''MAT_T4_00002'', description = ''Copper_Foil'', tier_level = 4,
              base_unit = ''KG'', cost_estimate = 3\<rparr>], tapes r n f)"
  using assms
  by (simp add: gen_materials_def material_body_def tier_names_def
      script_config_def draw_eval str_eval upt_eval)

lemma small_materials:
  "gen_materials replay small_config (tapes (0 # 2 # 4 # 3 # r) (3 # 4 # n) f)
     = Inr ([\<lparr>material_id = ''MAT_T3_00001'', description = ''Cell_Prismatic'', tier_level = 3,
              base_unit = ''EA'', cost_estimate = 4\<rparr>,
             \<lparr>material_id = ''MAT_T4_00002'', description = ''Copper_Foil'', tier_level = 4,
              base_unit = ''KG'', cost_estimate = 3\<rparr>], tapes r n f)"
  by (rule two_materials) (simp_all add: small_config_def)

lemma small_bom:
  "gen_bom replay
       [\<lparr>material_id = ''MAT_T3_00001'', description = ''Cell_Prismatic'', tier_level = 3,
         base_unit = ''EA'', cost_estimate = 4\<rparr>,
        \<lparr>material_id = ''MAT_T4_00002'', description = ''Copper_Foil'', tier_level = 4,
         base_unit = ''KG'', cost_estimate = 3\<rparr>] (tapes (7 # 2 # r) (1 # 0 # n) f)
     = Inr ([\<lparr>parent_material_id = ''MAT_T3_00001'', child_material_id = ''MAT_T4_00002'',
              quantity = 2\<rparr>], tapes r n f)"
  by (simp add: gen_bom_def mats_by_tier_def get_or_empty_def tier_body_def parent_body_def
      select_children_def edge_body_def draw_eval upt_eval)

lemma small_asl:
  "gen_asl replay
       [\<lparr>supplier_id = ''SUP_CN_00001'', name = ''Acme Ltd'', country = ''CN'',
         capacity_score = 50\<rparr>]
       [\<lparr>material_id = ''MAT_T3_00001'', description = ''Cell_Prismatic'', tier_level = 3,
         base_unit = ''EA'', cost_estimate = 4\<rparr>,
        \<lparr>material_id = ''MAT_T4_00002'', description = ''Copper_Foil'', tier_level = 4,
         base_unit = ''KG'', cost_estimate = 3\<rparr>] (tapes (1 # 0 # 1 # 0 # r) n f)
     = Inr ([''MAT_T3_00001'' \<mapsto> [''SUP_CN_00001''], ''MAT_T4_00002'' \<mapsto> [''SUP_CN_00001'']],
            tapes r n f)"
  by (simp add: gen_asl_def asl_body_def draw_eval pops_numeral_eval)

lemma small_orders:
  "gen_orders replay small_config
       [\<lparr>material_id = ''MAT_T3_00001'', description = ''Cell_Prismatic'', tier_level = 3,
         base_unit = ''EA'', cost_estimate = 4\<rparr>,
        \<lparr>material_id = ''MAT_T4_00002'', description = ''Copper_Foil'', tier_level = 4,
         base_unit = ''KG'', cost_estimate = 3\<rparr>]
       [''MAT_T3_00001'' \<mapsto> [''SUP_CN_00001''], ''MAT_T4_00002'' \<mapsto> [''SUP_CN_00001'']]
       (tapes [1, 0, 14, 1 / 2, 3, 0, 1] [0] [0])
     = Inr (([\<lparr>po_id = ''PO-100000'', po_supplier_id = ''SUP_CN_00001'',
                po_material_id = ''MAT_T4_00002'', order_date = 738886, due_date = 738900,
                receipt_date = Some 738900, quantity_ordered = 3, quantity_received = 3,
                unit_price = 3\<rparr>], [Some ''Full'']), tapes [] [] [])"
  by (simp add: order_eval draw_eval str_eval small_config_def script_config_def)

lemma small_run:
  "pipeline replay small_config
       (tapes [0, 0, 2, 4, 3, 7, 2, 1, 0, 1, 0, 1, 0, 14, 1 / 2, 3, 0, 1] [4, 3, 4, 1, 0, 0] [0])
     = Inr (\<lparr>df_suppliers =
               [\<lparr>supplier_id = ''SUP_CN_00001'', name = ''Acme Ltd'', country = ''CN'',
                 capacity_score = 50\<rparr>],
             df_materials =
               [\<lparr>material_id = ''MAT_T3_00001'', description = ''Cell_Prismatic'',
                 tier_level = 3, base_unit = ''EA'', cost_estimate = 4\<rparr>,
                \<lparr>material_id = ''MAT_T4_00002'', description = ''Copper_Foil'',
                 tier_level = 4, base_unit = ''KG'', cost_estimate = 3\<rparr>],
             df_bom =
               [\<lparr>parent_material_id = ''MAT_T3_00001'', child_material_id = ''MAT_T4_00002'',
                 quantity = 2\<rparr>],
             df_po =
               [\<lparr>po_id = ''PO-100000'', po_supplier_id = ''SUP_CN_00001'',
                 po_material_id = ''MAT_T4_00002'', order_date = 738886, due_date = 738900,
                 receipt_date = Some 738900, quantity_ordered = 3, quantity_received = 3,
                 unit_price = 3\<rparr>],
             asl_map = [''MAT_T3_00001'' \<mapsto> [''SUP_CN_00001''],
                        ''MAT_T4_00002'' \<mapsto> [''SUP_CN_00001'']],
             po_status_log = [Some ''Full'']\<rparr>, tapes [] [] [])"
  by (rule pipeline_from_stages[OF small_suppliers small_materials small_bom small_asl
        small_orders])


theorem record_counts_exact_witness:
  "lib_ok replay \<and>
   sample_materials \<noteq> [] \<and>
   sample_asl (material_id (hd sample_materials)) = Some [''SUP_CN_00001''] \<and>
   set sample_materials = {hd sample_materials} \<and>
   (\<exists>orders statuses g'.
      gen_orders replay small_config sample_materials sample_asl (tapes [] [] [])
        = Inr ((orders, statuses), g') \<and>
      length orders = TARGET_PO_COUNT small_config \<and>
      map po_id orders
        = map (\<lambda>i. ''PO-'' @ str_nat (100000 + i)) [0 ..< TARGET_PO_COUNT small_config]) \<and>
   (\<exists>d g5.
      pipeline replay small_config
        (tapes [0, 0, 2, 4, 3, 7, 2, 1, 0, 1, 0, 1, 0, 14, 1 / 2, 3, 0, 1] [4, 3, 4, 1, 0, 0] [0])
        = Inr (d, g5) \<and>
      length (df_suppliers d) = NUM_SUPPLIERS small_config \<and>
      length (df_materials d) = NUM_MATERIALS small_config \<and>
      length (df_po d) = TARGET_PO_COUNT small_config)"
proof -
  have pre: "sample_materials \<noteq> [] \<and>
    (\<forall>m \<in> set sample_materials. \<exists>vs. sample_asl (material_id m) = Some vs \<and> vs \<noteq> [])"
    by (simp add: sample_materials_def sample_asl_def)
  have pre': "sample_materials \<noteq> [] \<and>
    sample_asl (material_id (hd sample_materials)) = Some [''SUP_CN_00001''] \<and>
    set sample_materials = {hd sample_materials}"
    by (simp add: sample_materials_def sample_asl_def)
  have stages: "gen_suppliers replay small_config
        (tapes [0, 0, 2, 4, 3, 7, 2, 1, 0, 1, 0, 1, 0, 14, 1 / 2, 3, 0, 1] [4, 3, 4, 1, 0, 0] [0])
       = Inr ([\<lparr>supplier_id = ''SUP_CN_00001'', name = ''Acme Ltd'', country = ''CN'',
                capacity_score = 50\<rparr>],
              tapes [0, 2, 4, 3, 7, 2, 1, 0, 1, 0, 1, 0, 14, 1 / 2, 3, 0, 1] [3, 4, 1, 0, 0] [0]) \<and>
     gen_materials replay small_config
        (tapes [0, 2, 4, 3, 7, 2, 1, 0, 1, 0, 1, 0, 14, 1 / 2, 3, 0, 1] [3, 4, 1, 0, 0] [0])
       = Inr ([\<lparr>material_id = ''MAT_T3_00001'', description = ''Cell_Prismatic'', tier_level = 3,
                base_unit = ''EA'', cost_estimate = 4\<rparr>,
               \<lparr>material_id = ''MAT_T4_00002'', description = ''Copper_Foil'', tier_level = 4,
                base_unit = ''KG'', cost_estimate = 3\<rparr>],
              tapes [7, 2, 1, 0, 1, 0, 1, 0, 14, 1 / 2, 3, 0, 1] [1, 0, 0] [0]) \<and>
     gen_bom replay
        [\<lparr>material_id = ''MAT_T3_00001'', description = ''Cell_Prismatic'', tier_level = 3,
          base_unit = ''EA'', cost_estimate = 4\<rparr>,
         \<lparr>material_id = ''MAT_T4_00002'', description = ''Copper_Foil'', tier_level = 4,
          base_unit = ''KG'', cost_estimate = 3\<rparr>]
        (tapes [7, 2, 1, 0, 1, 0, 1, 0, 14, 1 / 2, 3, 0, 1] [1, 0, 0] [0])
       = Inr ([\<lparr>parent_material_id = ''MAT_T3_00001'', child_material_id = ''MAT_T4_00002'',
                quantity = 2\<rparr>], tapes [1, 0, 1, 0, 1, 0, 14, 1 / 2, 3, 0, 1] [0] [0]) \<and>
     gen_asl replay
        [\<lparr>supplier_id = ''SUP_CN_00001'', name = ''Acme Ltd'', country = ''CN'',
          capacity_score = 50\<rparr>]
        [\<lparr>material_id = ''MAT_T3_00001'', description = ''Cell_Prismatic'', tier_level = 3,
          base_unit = ''EA'', cost_estimate = 4\<rparr>,
         \<lparr>material_id = ''MAT_T4_00002'', description = ''Copper_Foil'', tier_level = 4,
          base_unit = ''KG'', cost_estimate = 3\<rparr>]
        (tapes [1, 0, 1, 0, 1, 0, 14, 1 / 2, 3, 0, 1] [0] [0])
       = Inr ([''MAT_T3_00001'' \<mapsto> [''SUP_CN_00001''], ''MAT_T4_00002'' \<mapsto> [''SUP_CN_00001'']],
              tapes [1, 0, 14, 1 / 2, 3, 0, 1] [0] [0])"
    using small_suppliers small_materials small_bom small_asl by (intro conjI)
  note inst = record_counts_exact[OF replay_ok, of small_config]
  from inst[THEN conjunct2, THEN conjunct1, rule_format, OF stages] obtain d g5 where
    run: "pipeline replay small_config
        (tapes [0, 0, 2, 4, 3, 7, 2, 1, 0, 1, 0, 1, 0, 14, 1 / 2, 3, 0, 1] [4, 3, 4, 1, 0, 0] [0])
        = Inr (d, g5)"
    by blast
  show ?thesis
    using replay_ok pre' run
      inst[THEN conjunct1, rule_format, OF pre, of "tapes [] [] []"]
      inst[THEN conjunct2, THEN conjunct2, rule_format, OF run]
    by blast
qed

subsection \<open>Where a bad configuration surfaces\<close>

lemma for_each_first_raises:
  assumes "xs \<noteq> []" "\<And>x acc g. body x acc g = Inl e"
  shows "for_each body xs acc g = Inl e"
  using assms by (cases xs) simp_all

lemma upt_nonempty: "0 < n \<Longrightarrow> [0 ..< n] \<noteq> []"
  by simp

lemma pipeline_suppliers_raise:
  "gen_suppliers L cfg g = Inl e \<Longrightarrow> pipeline L cfg g = Inl e"
  by (simp add: pipeline_def bindE_def)

lemma pipeline_materials_raise:
  "gen_suppliers L cfg g = Inr (suppliers, g1) \<Longrightarrow> gen_materials L cfg g1 = Inl e
     \<Longrightarrow> pipeline L cfg g = Inl e"
  by (simp add: pipeline_def bindE_def)

lemma gen_suppliers_empty_weights:
  assumes ok: "lib_ok L" and pos: "0 < NUM_SUPPLIERS cfg" and w: "COUNTRY_WEIGHTS cfg = []"
  shows "gen_suppliers L cfg g = Inl IndexError"
proof -
  obtain scores g1 where sc: "dominance_scores L (NUM_SUPPLIERS cfg) g = Inr (scores, g1)"
    using dominance_scores_returns[OF ok pos] by blast
  have "for_each (supplier_body L [] [] scores) [0 ..< NUM_SUPPLIERS cfg] [] g1 = Inl IndexError"
    by (rule for_each_first_raises[OF upt_nonempty[OF pos]])
       (simp add: supplier_body_def random_choices_def bindE_def)
  then show ?thesis using sc w by (simp add: gen_suppliers_def bindE_def Let_def)
qed

lemma gen_suppliers_zero_weights:
  assumes ok: "lib_ok L" and pos: "0 < NUM_SUPPLIERS cfg" and w: "COUNTRY_WEIGHTS cfg \<noteq> []"
    and z: "sum_list (map snd (COUNTRY_WEIGHTS cfg)) \<le> 0"
  shows "gen_suppliers L cfg g = Inl ValueError"
proof -
  obtain scores g1 where sc: "dominance_scores L (NUM_SUPPLIERS cfg) g = Inr (scores, g1)"
    using dominance_scores_returns[OF ok pos] by blast
  have "for_each (supplier_body L (map fst (COUNTRY_WEIGHTS cfg)) (map snd (COUNTRY_WEIGHTS cfg))
          scores) [0 ..< NUM_SUPPLIERS cfg] [] g1 = Inl ValueError"
    by (rule for_each_first_raises[OF upt_nonempty[OF pos]])
       (simp add: supplier_body_def random_choices_def bindE_def w z)
  then show ?thesis using sc by (simp add: gen_suppliers_def bindE_def Let_def)
qed

lemma gen_materials_bad_tiers:
  assumes pos: "0 < NUM_MATERIALS cfg" and bad: "\<not> valid_p 5 (TIER_DISTRIBUTION cfg)"
  shows "gen_materials L cfg g = Inl ValueError"
proof -
  have five: "length [0, 1, 2, 3, 4 :: nat] = 5" by simp
  have "np_random_choice_p L [0, 1, 2, 3, 4 :: nat] (TIER_DISTRIBUTION cfg) h = Inl ValueError" for h
    unfolding np_random_choice_p_def five using bad by simp
  then have "material_body L (TIER_DISTRIBUTION cfg) x acc h = Inl ValueError" for x acc h
    by (simp add: material_body_def bindE_def)
  then show ?thesis
    unfolding gen_materials_def by (rule for_each_first_raises[OF upt_nonempty[OF pos]])
qed

lemma gen_materials_none:
  "NUM_MATERIALS cfg = 0 \<Longrightarrow> gen_materials L cfg g = Inr ([], g)"
  by (simp add: gen_materials_def)

lemma pipeline_no_materials:
  assumes "gen_suppliers L cfg g = Inr (suppliers, g1)" "NUM_MATERIALS cfg = 0"
  shows "pipeline L cfg g = Inl KeyError"
  using assms
  by (simp add: pipeline_def bindE_def gen_materials_none gen_bom_def mats_by_tier_def raiseE_def)

lemma gen_orders_none:
  "TARGET_PO_COUNT cfg = 0 \<Longrightarrow> gen_orders L cfg ml msm g = Inr (([], []), g)"
  by (simp add: gen_orders_def po_loop.simps)

text \<open>
  C5 (amended). The script validates nothing before generation begins. A configuration
  error surfaces at the first draw or operation that uses the bad value; the run then
  ends with an exception and returns no record set. A supplier count of 0 raises when the
  scores are normalised; an empty country-weight table, or one whose weights do not have
  a positive total, raises at the first country draw; with a valid supplier
  configuration, a tier-probability vector that is not 5 non-negative entries whose sum
  is within \<open>2\<^sup>-\<^sup>2\<^sup>6\<close> of 1 (the tolerance of NumPy's check) raises at the
  first material draw, after the supplier set has been generated, and a material count of
  0 raises when the BOM builder groups the materials. A vector of 5 non-negative entries
  whose sum is within that tolerance is accepted, also when the sum is not exactly 1:
  material generation then returns the requested number of materials. A target order
  count of 0 is not an error: once the earlier stages have completed, the run returns
  their records and no orders.
\<close>

theorem configuration_errors_raise_at_first_use:
  assumes "lib_ok L"
  shows "(NUM_SUPPLIERS cfg = 0 \<longrightarrow> pipeline L cfg g = Inl ValueError) \<and>
         (0 < NUM_SUPPLIERS cfg \<and> COUNTRY_WEIGHTS cfg = [] \<longrightarrow>
            pipeline L cfg g = Inl IndexError) \<and>
         (0 < NUM_SUPPLIERS cfg \<and> COUNTRY_WEIGHTS cfg \<noteq> [] \<and>
            sum_list (map snd (COUNTRY_WEIGHTS cfg)) \<le> 0 \<longrightarrow>
            pipeline L cfg g = Inl ValueError) \<and>
         (0 < NUM_SUPPLIERS cfg \<and> COUNTRY_WEIGHTS cfg \<noteq> [] \<and>
            0 < sum_list (map snd (COUNTRY_WEIGHTS cfg)) \<and>
            0 < NUM_MATERIALS cfg \<and> \<not> valid_p 5 (TIER_DISTRIBUTION cfg) \<longrightarrow>
            (\<exists>suppliers g1. gen_suppliers L cfg g = Inr (suppliers, g1) \<and>
               length suppliers = NUM_SUPPLIERS cfg) \<and>
            pipeline L cfg g = Inl ValueError) \<and>
         (0 < NUM_SUPPLIERS cfg \<and> COUNTRY_WEIGHTS cfg \<noteq> [] \<and>
            0 < sum_list (map snd (COUNTRY_WEIGHTS cfg)) \<and> NUM_MATERIALS cfg = 0 \<longrightarrow>
            pipeline L cfg g = Inl KeyError) \<and>
         (TARGET_PO_COUNT cfg = 0 \<longrightarrow>
            (\<forall>suppliers g1 materials g2 bom g3 msm g4.
               gen_suppliers L cfg g = Inr (suppliers, g1) \<and>
               gen_materials L cfg g1 = Inr (materials, g2) \<and>
               gen_bom L materials g2 = Inr (bom, g3) \<and>
               gen_asl L suppliers materials g3 = Inr (msm, g4) \<longrightarrow>
               pipeline L cfg g =
                 Inr (\<lparr>df_suppliers = suppliers, df_materials = materials, df_bom = bom,
                       df_po = [], asl_map = msm, po_status_log = []\<rparr>, g4))) \<and>
         (valid_p 5 (TIER_DISTRIBUTION cfg) \<longrightarrow>
            (\<exists>materials g2. gen_materials L cfg g = Inr (materials, g2) \<and>
               length materials = NUM_MATERIALS cfg))"
proof (intro conjI impI allI)
  assume "NUM_SUPPLIERS cfg = 0"
  then show "pipeline L cfg g = Inl ValueError"
    using pipeline_suppliers_raise[OF gen_suppliers_none[OF assms]] by simp
next
  assume "0 < NUM_SUPPLIERS cfg \<and> COUNTRY_WEIGHTS cfg = []"
  then show "pipeline L cfg g = Inl IndexError"
    using pipeline_suppliers_raise[OF gen_suppliers_empty_weights[OF assms]] by simp
next
  assume "0 < NUM_SUPPLIERS cfg \<and> COUNTRY_WEIGHTS cfg \<noteq> [] \<and>
            sum_list (map snd (COUNTRY_WEIGHTS cfg)) \<le> 0"
  then show "pipeline L cfg g = Inl ValueError"
    using pipeline_suppliers_raise[OF gen_suppliers_zero_weights[OF assms]] by simp
next
  assume h: "0 < NUM_SUPPLIERS cfg \<and> COUNTRY_WEIGHTS cfg \<noteq> [] \<and>
            0 < sum_list (map snd (COUNTRY_WEIGHTS cfg)) \<and>
            0 < NUM_MATERIALS cfg \<and> \<not> valid_p 5 (TIER_DISTRIBUTION cfg)"
  then obtain suppliers g1 where s: "gen_suppliers L cfg g = Inr (suppliers, g1)"
    using gen_suppliers_returns[OF assms, of cfg g] by blast
  show "\<exists>suppliers g1. gen_suppliers L cfg g = Inr (suppliers, g1) \<and>
               length suppliers = NUM_SUPPLIERS cfg"
    using s gen_suppliers_length[OF assms s] by simp
  show "pipeline L cfg g = Inl ValueError"
    using pipeline_materials_raise[OF s gen_materials_bad_tiers] h by simp
next
  assume h: "0 < NUM_SUPPLIERS cfg \<and> COUNTRY_WEIGHTS cfg \<noteq> [] \<and>
            0 < sum_list (map snd (COUNTRY_WEIGHTS cfg)) \<and> NUM_MATERIALS cfg = 0"
  then obtain suppliers g1 where s: "gen_suppliers L cfg g = Inr (suppliers, g1)"
    using gen_suppliers_returns[OF assms, of cfg g] by blast
  show "pipeline L cfg g = Inl KeyError" using pipeline_no_materials[OF s] h by simp
next
  fix suppliers materials bom msm and g1 g2 g3 g4 :: "('a, 'b, 'c) gens"
  assume t: "TARGET_PO_COUNT cfg = 0"
    and st: "gen_suppliers L cfg g = Inr (suppliers, g1) \<and>
               gen_materials L cfg g1 = Inr (materials, g2) \<and>
               gen_bom L materials g2 = Inr (bom, g3) \<and>
               gen_asl L suppliers materials g3 = Inr (msm, g4)"
  show "pipeline L cfg g =
                 Inr (\<lparr>df_suppliers = suppliers, df_materials = materials, df_bom = bom,
                       df_po = [], asl_map = msm, po_status_log = []\<rparr>, g4)"
    using pipeline_from_stages[of L cfg g suppliers g1 materials g2 bom g3 msm g4 "[]" "[]" g4]
      st gen_orders_none[OF t, of L materials msm g4] by simp
next
  assume v: "valid_p 5 (TIER_DISTRIBUTION cfg)"
  obtain materials g2 where m: "gen_materials L cfg g = Inr (materials, g2)"
    using gen_materials_returns[OF assms v, of g] by blast
  then show "\<exists>materials g2. gen_materials L cfg g = Inr (materials, g2) \<and>
               length materials = NUM_MATERIALS cfg"
    using gen_materials_length[OF assms m] by simp
qed


theorem configuration_errors_raise_at_first_use_witness:
  "lib_ok replay \<and>
   NUM_SUPPLIERS (small_config\<lparr>NUM_SUPPLIERS := 0\<rparr>) = 0 \<and>
   pipeline replay (small_config\<lparr>NUM_SUPPLIERS := 0\<rparr>) (tapes [] [] []) = Inl ValueError \<and>
   (0 < NUM_SUPPLIERS (small_config\<lparr>COUNTRY_WEIGHTS := []\<rparr>) \<and>
    COUNTRY_WEIGHTS (small_config\<lparr>COUNTRY_WEIGHTS := []\<rparr>) = []) \<and>
   pipeline replay (small_config\<lparr>COUNTRY_WEIGHTS := []\<rparr>) (tapes [] [] []) = Inl IndexError \<and>
   (0 < NUM_SUPPLIERS (small_config\<lparr>COUNTRY_WEIGHTS := [(''CN'', 0)]\<rparr>) \<and>
    COUNTRY_WEIGHTS (small_config\<lparr>COUNTRY_WEIGHTS := [(''CN'', 0)]\<rparr>) \<noteq> [] \<and>
    sum_list (map snd (COUNTRY_WEIGHTS (small_config\<lparr>COUNTRY_WEIGHTS := [(''CN'', 0)]\<rparr>))) \<le> 0) \<and>
   pipeline replay (small_config\<lparr>COUNTRY_WEIGHTS := [(''CN'', 0)]\<rparr>) (tapes [] [] [])
     = Inl ValueError \<and>
   (0 < NUM_SUPPLIERS (small_config\<lparr>TIER_DISTRIBUTION := [1 / 2, 1 / 2]\<rparr>) \<and>
    COUNTRY_WEIGHTS (small_config\<lparr>TIER_DISTRIBUTION := [1 / 2, 1 / 2]\<rparr>) \<noteq> [] \<and>
    0 < sum_list (map snd (COUNTRY_WEIGHTS (small_config\<lparr>TIER_DISTRIBUTION := [1 / 2, 1 / 2]\<rparr>))) \<and>
    0 < NUM_MATERIALS (small_config\<lparr>TIER_DISTRIBUTION := [1 / 2, 1 / 2]\<rparr>) \<and>
    \<not> valid_p 5 (TIER_DISTRIBUTION (small_config\<lparr>TIER_DISTRIBUTION := [1 / 2, 1 / 2]\<rparr>))) \<and>
   pipeline replay (small_config\<lparr>TIER_DISTRIBUTION := [1 / 2, 1 / 2]\<rparr>) (tapes [0] [4] [])
     = Inl ValueError \<and>
   (0 < NUM_SUPPLIERS (small_config\<lparr>NUM_MATERIALS := 0\<rparr>) \<and>
    COUNTRY_WEIGHTS (small_config\<lparr>NUM_MATERIALS := 0\<rparr>) \<noteq> [] \<and>
    0 < sum_list (map snd (COUNTRY_WEIGHTS (small_config\<lparr>NUM_MATERIALS := 0\<rparr>))) \<and>
    NUM_MATERIALS (small_config\<lparr>NUM_MATERIALS := 0\<rparr>) = 0) \<and>
   pipeline replay (small_config\<lparr>NUM_MATERIALS := 0\<rparr>) (tapes [0] [4] []) = Inl KeyError \<and>
   TARGET_PO_COUNT (small_config\<lparr>TARGET_PO_COUNT := 0\<rparr>) = 0 \<and>
   pipeline replay (small_config\<lparr>TARGET_PO_COUNT := 0\<rparr>)
       (tapes [0, 0, 2, 4, 3, 7, 2, 1, 0, 1, 0] [4, 3, 4, 1, 0] [])
     = Inr (\<lparr>df_suppliers =
               [\<lparr>supplier_id = ''SUP_CN_00001'', name = ''Acme Ltd'', country = ''CN'',
                 capacity_score = 50\<rparr>],
             df_materials =
               [\<lparr>material_id = ''MAT_T3_00001'', description = ''Cell_Prismatic'',
                 tier_level = 3, base_unit = ''EA'', cost_estimate = 4\<rparr>,
                \<lparr>material_id = ''MAT_T4_00002'', description = ''Copper_Foil'',
                 tier_level = 4, base_unit = ''KG'', cost_estimate = 3\<rparr>],
             df_bom =
               [\<lparr>parent_material_id = ''MAT_T3_00001'', child_material_id = ''MAT_T4_00002'',
                 quantity = 2\<rparr>],
             df_po = [],
             asl_map = [''MAT_T3_00001'' \<mapsto> [''SUP_CN_00001''],
                        ''MAT_T4_00002'' \<mapsto> [''SUP_CN_00001'']],
             po_status_log = []\<rparr>, tapes [] [] []) \<and>
   valid_p 5 (TIER_DISTRIBUTION (small_config\<lparr>TIER_DISTRIBUTION :=
       [5 / 100, 10 / 100, 20 / 100, 30 / 100, 35 / 100 + 1 / 10 ^ 9]\<rparr>)) \<and>
   sum_list [5 / 100, 10 / 100, 20 / 100, 30 / 100, 35 / 100 + 1 / 10 ^ 9] \<noteq> (1 :: rat) \<and>
   (\<exists>materials g2.
      gen_materials replay (small_config\<lparr>TIER_DISTRIBUTION :=
          [5 / 100, 10 / 100, 20 / 100, 30 / 100, 35 / 100 + 1 / 10 ^ 9]\<rparr>) (tapes [] [] [])
        = Inr (materials, g2) \<and>
      length materials = NUM_MATERIALS (small_config\<lparr>TIER_DISTRIBUTION :=
          [5 / 100, 10 / 100, 20 / 100, 30 / 100, 35 / 100 + 1 / 10 ^ 9]\<rparr>))"
proof -
  have h6: "valid_p 5 (TIER_DISTRIBUTION (small_config\<lparr>TIER_DISTRIBUTION :=
       [5 / 100, 10 / 100, 20 / 100, 30 / 100, 35 / 100 + 1 / 10 ^ 9]\<rparr>))"
    by (simp add: valid_p_def p_atol_def)
  have h7: "sum_list [5 / 100, 10 / 100, 20 / 100, 30 / 100, 35 / 100 + 1 / 10 ^ 9] \<noteq> (1 :: rat)"
    by simp
  have h0: "NUM_SUPPLIERS (small_config\<lparr>NUM_SUPPLIERS := 0\<rparr>) = 0" by simp
  have h1: "0 < NUM_SUPPLIERS (small_config\<lparr>COUNTRY_WEIGHTS := []\<rparr>) \<and>
    COUNTRY_WEIGHTS (small_config\<lparr>COUNTRY_WEIGHTS := []\<rparr>) = []"
    by (simp add: small_config_def)
  have h2: "0 < NUM_SUPPLIERS (small_config\<lparr>COUNTRY_WEIGHTS := [(''CN'', 0)]\<rparr>) \<and>
    COUNTRY_WEIGHTS (small_config\<lparr>COUNTRY_WEIGHTS := [(''CN'', 0)]\<rparr>) \<noteq> [] \<and>
    sum_list (map snd (COUNTRY_WEIGHTS (small_config\<lparr>COUNTRY_WEIGHTS := [(''CN'', 0)]\<rparr>))) \<le> 0"
    by (simp add: small_config_def)
  have h3: "0 < NUM_SUPPLIERS (small_config\<lparr>TIER_DISTRIBUTION := [1 / 2, 1 / 2]\<rparr>) \<and>
    COUNTRY_WEIGHTS (small_config\<lparr>TIER_DISTRIBUTION := [1 / 2, 1 / 2]\<rparr>) \<noteq> [] \<and>
    0 < sum_list (map snd (COUNTRY_WEIGHTS (small_config\<lparr>TIER_DISTRIBUTION := [1 / 2, 1 / 2]\<rparr>))) \<and>
    0 < NUM_MATERIALS (small_config\<lparr>TIER_DISTRIBUTION := [1 / 2, 1 / 2]\<rparr>) \<and>
    \<not> valid_p 5 (TIER_DISTRIBUTION (small_config\<lparr>TIER_DISTRIBUTION := [1 / 2, 1 / 2]\<rparr>))"
    by (simp add: small_config_def script_config_def valid_p_def)
  have h4: "0 < NUM_SUPPLIERS (small_config\<lparr>NUM_MATERIALS := 0\<rparr>) \<and>
    COUNTRY_WEIGHTS (small_config\<lparr>NUM_MATERIALS := 0\<rparr>) \<noteq> [] \<and>
    0 < sum_list (map snd (COUNTRY_WEIGHTS (small_config\<lparr>NUM_MATERIALS := 0\<rparr>))) \<and>
    NUM_MATERIALS (small_config\<lparr>NUM_MATERIALS := 0\<rparr>) = 0"
    by (simp add: small_config_def script_config_def)
  have h5: "TARGET_PO_COUNT (small_config\<lparr>TARGET_PO_COUNT := 0\<rparr>) = 0" by simp
  have stages: "gen_suppliers replay (small_config\<lparr>TARGET_PO_COUNT := 0\<rparr>)
        (tapes [0, 0, 2, 4, 3, 7, 2, 1, 0, 1, 0] [4, 3, 4, 1, 0] [])
       = Inr ([\<lparr>supplier_id = ''SUP_CN_00001'', name = ''Acme Ltd'', country = ''CN'',
                capacity_score = 50\<rparr>],
              tapes [0, 2, 4, 3, 7, 2, 1, 0, 1, 0] [3, 4, 1, 0] []) \<and>
     gen_materials replay (small_config\<lparr>TARGET_PO_COUNT := 0\<rparr>)
        (tapes [0, 2, 4, 3, 7, 2, 1, 0, 1, 0] [3, 4, 1, 0] [])
       = Inr ([\<lparr>material_id = ''MAT_T3_00001'', description = ''Cell_Prismatic'', tier_level = 3,
                base_unit = ''EA'', cost_estimate = 4\<rparr>,
               \<lparr>material_id = ''MAT_T4_00002'', description = ''Copper_Foil'', tier_level = 4,
                base_unit = ''KG'', cost_estimate = 3\<rparr>],
              tapes [7, 2, 1, 0, 1, 0] [1, 0] []) \<and>
     gen_bom replay
        [\<lparr>material_id = ''MAT_T3_00001'', description = ''Cell_Prismatic'', tier_level = 3,
          base_unit = ''EA'', cost_estimate = 4\<rparr>,
         \<lparr>material_id = ''MAT_T4_00002'', description = ''Copper_Foil'', tier_level = 4,
          base_unit = ''KG'', cost_estimate = 3\<rparr>]
        (tapes [7, 2, 1, 0, 1, 0] [1, 0] [])
       = Inr ([\<lparr>parent_material_id = ''MAT_T3_00001'', child_material_id = ''MAT_T4_00002'',
                quantity = 2\<rparr>], tapes [1, 0, 1, 0] [] []) \<and>
     gen_asl replay
        [\<lparr>supplier_id = ''SUP_CN_00001'', name = ''Acme Ltd'', country = ''CN'',
          capacity_score = 50\<rparr>]
        [\<lparr>material_id = ''MAT_T3_00001'', description = ''Cell_Prismatic'', tier_level = 3,
          base_unit = ''EA'', cost_estimate = 4\<rparr>,
         \<lparr>material_id = ''MAT_T4_00002'', description = ''Copper_Foil'', tier_level = 4,
          base_unit = ''KG'', cost_estimate = 3\<rparr>]
        (tapes [1, 0, 1, 0] [] [])
       = Inr ([''MAT_T3_00001'' \<mapsto> [''SUP_CN_00001''], ''MAT_T4_00002'' \<mapsto> [''SUP_CN_00001'']],
              tapes [] [] [])"
  proof (intro conjI)
    show "gen_suppliers replay (small_config\<lparr>TARGET_PO_COUNT := 0\<rparr>)
        (tapes [0, 0, 2, 4, 3, 7, 2, 1, 0, 1, 0] [4, 3, 4, 1, 0] [])
       = Inr ([\<lparr>supplier_id = ''SUP_CN_00001'', name = ''Acme Ltd'', country = ''CN'',
                capacity_score = 50\<rparr>],
              tapes [0, 2, 4, 3, 7, 2, 1, 0, 1, 0] [3, 4, 1, 0] [])"
      by (rule one_supplier) (simp_all add: small_config_def)
    show "gen_materials replay (small_config\<lparr>TARGET_PO_COUNT := 0\<rparr>)
        (tapes [0, 2, 4, 3, 7, 2, 1, 0, 1, 0] [3, 4, 1, 0] [])
       = Inr ([\<lparr>material_id = ''MAT_T3_00001'', description = ''Cell_Prismatic'', tier_level = 3,
                base_unit = ''EA'', cost_estimate = 4\<rparr>,
               \<lparr>material_id = ''MAT_T4_00002'', description = ''Copper_Foil'', tier_level = 4,
                base_unit = ''KG'', cost_estimate = 3\<rparr>],
              tapes [7, 2, 1, 0, 1, 0] [1, 0] [])"
      by (rule two_materials) (simp_all add: small_config_def)
  qed (rule small_bom small_asl)+
  note inst = configuration_errors_raise_at_first_use[OF replay_ok]
  show ?thesis
    using replay_ok h0 h1 h2 h3 h4 h5 h6 h7
      inst[of "small_config\<lparr>NUM_SUPPLIERS := 0\<rparr>" "tapes [] [] []",
        THEN conjunct1, rule_format, OF h0]
      inst[of "small_config\<lparr>COUNTRY_WEIGHTS := []\<rparr>" "tapes [] [] []",
        THEN conjunct2, THEN conjunct1, rule_format, OF h1]
      inst[of "small_config\<lparr>COUNTRY_WEIGHTS := [(''CN'', 0)]\<rparr>" "tapes [] [] []",
        THEN conjunct2, THEN conjunct2, THEN conjunct1, rule_format, OF h2]
      inst[of "small_config\<lparr>TIER_DISTRIBUTION := [1 / 2, 1 / 2]\<rparr>" "tapes [0] [4] []",
        THEN conjunct2, THEN conjunct2, THEN conjunct2, THEN conjunct1, rule_format, OF h3,
        THEN conjunct2]
      inst[of "small_config\<lparr>NUM_MATERIALS := 0\<rparr>" "tapes [0] [4] []",
        THEN conjunct2, THEN conjunct2, THEN conjunct2, THEN conjunct2, THEN conjunct1,
        rule_format, OF h4]
      inst[of "small_config\<lparr>TARGET_PO_COUNT := 0\<rparr>"
        "tapes [0, 0, 2, 4, 3, 7, 2, 1, 0, 1, 0] [4, 3, 4, 1, 0] []",
        THEN conjunct2, THEN conjunct2, THEN conjunct2, THEN conjunct2, THEN conjunct2,
        THEN conjunct1, rule_format, OF h5 stages]
      inst[of "small_config\<lparr>TIER_DISTRIBUTION :=
          [5 / 100, 10 / 100, 20 / 100, 30 / 100, 35 / 100 + 1 / 10 ^ 9]\<rparr>" "tapes [] [] []",
        THEN conjunct2, THEN conjunct2, THEN conjunct2, THEN conjunct2, THEN conjunct2,
        THEN conjunct2, rule_format, OF h6]
    by (elim conjE) (intro conjI; assumption)
qed

theorem no_validation_before_generation:
  "pipeline replay (small_config\<lparr>TARGET_PO_COUNT := 0\<rparr>)
       (tapes [0, 0, 2, 4, 3, 7, 2, 1, 0, 1, 0] [4, 3, 4, 1, 0] [])
     = Inr (\<lparr>df_suppliers =
               [\<lparr>supplier_id = ''SUP_CN_00001'', name = ''Acme Ltd'', country = ''CN'',
                 capacity_score = 50\<rparr>],
             df_materials =
               [\<lparr>material_id = ''MAT_T3_00001'', description = ''Cell_Prismatic'',
                 tier_level = 3, base_unit = ''EA'', cost_estimate = 4\<rparr>,
                \<lparr>material_id = ''MAT_T4_00002'', description = ''Copper_Foil'',
                 tier_level = 4, base_unit = ''KG'', cost_estimate = 3\<rparr>],
             df_bom =
               [\<lparr>parent_material_id = ''MAT_T3_00001'', child_material_id = ''MAT_T4_00002'',
                 quantity = 2\<rparr>],
             df_po = [],
             asl_map = [''MAT_T3_00001'' \<mapsto> [''SUP_CN_00001''],
                        ''MAT_T4_00002'' \<mapsto> [''SUP_CN_00001'']],
             po_status_log = []\<rparr>, tapes [] [] []) \<and>
   gen_suppliers replay (small_config\<lparr>TIER_DISTRIBUTION := [1 / 2, 1 / 2]\<rparr>) (tapes [0] [4] [])
     = Inr ([\<lparr>supplier_id = ''SUP_CN_00001'', name = ''Acme Ltd'', country = ''CN'',
              capacity_score = 50\<rparr>], tapes [] [] []) \<and>
   pipeline replay (small_config\<lparr>TIER_DISTRIBUTION := [1 / 2, 1 / 2]\<rparr>) (tapes [0] [4] [])
     = Inl ValueError"
proof (intro conjI)
  have s: "gen_suppliers replay (small_config\<lparr>TARGET_PO_COUNT := 0\<rparr>)
        (tapes [0, 0, 2, 4, 3, 7, 2, 1, 0, 1, 0] [4, 3, 4, 1, 0] [])
       = Inr ([\<lparr>supplier_id = ''SUP_CN_00001'', name = ''Acme Ltd'', country = ''CN'',
                capacity_score = 50\<rparr>],
              tapes [0, 2, 4, 3, 7, 2, 1, 0, 1, 0] [3, 4, 1, 0] [])"
    by (rule one_supplier) (simp_all add: small_config_def)
  have m: "gen_materials replay (small_config\<lparr>TARGET_PO_COUNT := 0\<rparr>)
        (tapes [0, 2, 4, 3, 7, 2, 1, 0, 1, 0] [3, 4, 1, 0] [])
       = Inr ([\<lparr>material_id = ''MAT_T3_00001'', description = ''Cell_Prismatic'', tier_level = 3,
                base_unit = ''EA'', cost_estimate = 4\<rparr>,
               \<lparr>material_id = ''MAT_T4_00002'', description = ''Copper_Foil'', tier_level = 4,
                base_unit = ''KG'', cost_estimate = 3\<rparr>],
              tapes [7, 2, 1, 0, 1, 0] [1, 0] [])"
    by (rule two_materials) (simp_all add: small_config_def)
  have o: "gen_orders replay (small_config\<lparr>TARGET_PO_COUNT := 0\<rparr>)
        [\<lparr>material_id = ''MAT_T3_00001'', description = ''Cell_Prismatic'', tier_level = 3,
          base_unit = ''EA'', cost_estimate = 4\<rparr>,
         \<lparr>material_id = ''MAT_T4_00002'', description = ''Copper_Foil'', tier_level = 4,
          base_unit = ''KG'', cost_estimate = 3\<rparr>]
        [''MAT_T3_00001'' \<mapsto> [''SUP_CN_00001''], ''MAT_T4_00002'' \<mapsto> [''SUP_CN_00001'']]
        (tapes [] [] []) = Inr (([], []), tapes [] [] [])"
    by (rule gen_orders_none) simp
  show "pipeline replay (small_config\<lparr>TARGET_PO_COUNT := 0\<rparr>)
       (tapes [0, 0, 2, 4, 3, 7, 2, 1, 0, 1, 0] [4, 3, 4, 1, 0] [])
     = Inr (\<lparr>df_suppliers =
               [\<lparr>supplier_id = ''SUP_CN_00001'', name = ''Acme Ltd'', country = ''CN'',
                 capacity_score = 50\<rparr>],
             df_materials =
               [\<lparr>material_id = ''MAT_T3_00001'', description = ''Cell_Prismatic'',
                 tier_level = 3, base_unit = ''EA'', cost_estimate = 4\<rparr>,
                \<lparr>material_id = ''MAT_T4_00002'', description = ''Copper_Foil'',
                 tier_level = 4, base_unit = ''KG'', cost_estimate = 3\<rparr>],
             df_bom =
               [\<lparr>parent_material_id = ''MAT_T3_00001'', child_material_id = ''MAT_T4_00002'',
                 quantity = 2\<rparr>],
             df_po = [],
             asl_map = [''MAT_T3_00001'' \<mapsto> [''SUP_CN_00001''],
                        ''MAT_T4_00002'' \<mapsto> [''SUP_CN_00001'']],
             po_status_log = []\<rparr>, tapes [] [] [])"
    by (rule pipeline_from_stages[OF s m small_bom small_asl o])
  have s': "gen_suppliers replay (small_config\<lparr>TIER_DISTRIBUTION := [1 / 2, 1 / 2]\<rparr>)
      (tapes [0] [4] [])
     = Inr ([\<lparr>supplier_id = ''SUP_CN_00001'', name = ''Acme Ltd'', country = ''CN'',
              capacity_score = 50\<rparr>], tapes [] [] [])"
    by (rule one_supplier) (simp_all add: small_config_def)
  then show "gen_suppliers replay (small_config\<lparr>TIER_DISTRIBUTION := [1 / 2, 1 / 2]\<rparr>)
      (tapes [0] [4] [])
     = Inr ([\<lparr>supplier_id = ''SUP_CN_00001'', name = ''Acme Ltd'', country = ''CN'',
              capacity_score = 50\<rparr>], tapes [] [] [])" .
  show "pipeline replay (small_config\<lparr>TIER_DISTRIBUTION := [1 / 2, 1 / 2]\<rparr>) (tapes [0] [4] [])
     = Inl ValueError"
    by (rule pipeline_materials_raise[OF s' gen_materials_bad_tiers])
       (simp_all add: small_config_def valid_p_def)
qed

subsection \<open>Seeding\<close>

lemma seed_all_resets:
  assumes "seed_resets L"
  shows "seed_all L s g = seed_all L s g'"
proof -
  have r: "rnd_seed L s (py g) = rnd_seed L s (py g')"
    and n: "np_seed L s (np g) = np_seed L s (np g')"
    and f: "fk_seed L s (fk g) = fk_seed L s (fk g')"
    using assms unfolding seed_resets_def by blast+
  show ?thesis
    by (cases g; cases g') (use r n f in \<open>simp add: seed_all_def Let_def\<close>)
qed

lemmas stage_eval = pipeline_def gen_suppliers_def dominance_scores_def supplier_body_def
  gen_materials_def material_body_def tier_names_def gen_bom_def mats_by_tier_def
  get_or_empty_def tier_body_def parent_body_def select_children_def edge_body_def
  gen_asl_def asl_body_def small_config_def script_config_def

lemma unseeded_run:
  "pipeline replay small_config (tapes [] [] [])
     = Inr (\<lparr>df_suppliers =
               [\<lparr>supplier_id = ''SUP_CN_00001'', name = ''Acme Ltd'', country = ''CN'',
                 capacity_score = 50\<rparr>],
             df_materials =
               [\<lparr>material_id = ''MAT_T0_00001'', description = ''EV_Sedan'',
                 tier_level = 0, base_unit = ''EA'', cost_estimate = 5\<rparr>,
                \<lparr>material_id = ''MAT_T0_00002'', description = ''EV_Sedan'',
                 tier_level = 0, base_unit = ''EA'', cost_estimate = 5\<rparr>],
             df_bom = [],
             df_po =
               [\<lparr>po_id = ''PO-100000'', po_supplier_id = ''SUP_CN_00001'',
                 po_material_id = ''MAT_T0_00001'', order_date = 738886, due_date = 738900,
                 receipt_date = Some 738900, quantity_ordered = 1, quantity_received = 1,
                 unit_price = 19 / 4\<rparr>],
             asl_map = [''MAT_T0_00001'' \<mapsto> [''SUP_CN_00001''],
                        ''MAT_T0_00002'' \<mapsto> [''SUP_CN_00001'']],
             po_status_log = [Some ''Full'']\<rparr>, tapes [] [] [])"
  by (simp add: stage_eval order_eval draw_eval str_eval upt_eval pops_numeral_eval)

lemma unseeded_run_py:
  "pipeline replay small_config (tapes [1] [] [])
     = Inr (\<lparr>df_suppliers =
               [\<lparr>supplier_id = ''SUP_KR_00001'', name = ''Acme Ltd'', country = ''KR'',
                 capacity_score = 50\<rparr>],
             df_materials =
               [\<lparr>material_id = ''MAT_T0_00001'', description = ''EV_Sedan'',
                 tier_level = 0, base_unit = ''EA'', cost_estimate = 5\<rparr>,
                \<lparr>material_id = ''MAT_T0_00002'', description = ''EV_Sedan'',
                 tier_level = 0, base_unit = ''EA'', cost_estimate = 5\<rparr>],
             df_bom = [],
             df_po =
               [\<lparr>po_id = ''PO-100000'', po_supplier_id = ''SUP_KR_00001'',
                 po_material_id = ''MAT_T0_00001'', order_date = 738886, due_date = 738900,
                 receipt_date = Some 738900, quantity_ordered = 1, quantity_received = 1,
                 unit_price = 19 / 4\<rparr>],
             asl_map = [''MAT_T0_00001'' \<mapsto> [''SUP_KR_00001''],
                        ''MAT_T0_00002'' \<mapsto> [''SUP_KR_00001'']],
             po_status_log = [Some ''Full'']\<rparr>, tapes [] [] [])"
  by (simp add: stage_eval order_eval draw_eval str_eval upt_eval pops_numeral_eval)

lemma unseeded_run_np:
  "pipeline replay small_config (tapes [] [0, 3] [])
     = Inr (\<lparr>df_suppliers =
               [\<lparr>supplier_id = ''SUP_CN_00001'', name = ''Acme Ltd'', country = ''CN'',
                 capacity_score = 50\<rparr>],
             df_materials =
               [\<lparr>material_id = ''MAT_T3_00001'', description = ''Cell_Prismatic'',
                 tier_level = 3, base_unit = ''EA'', cost_estimate = 2\<rparr>,
                \<lparr>material_id = ''MAT_T0_00002'', description = ''EV_Sedan'',
                 tier_level = 0, base_unit = ''EA'', cost_estimate = 5\<rparr>],
             df_bom = [],
             df_po =
               [\<lparr>po_id = ''PO-100000'', po_supplier_id = ''SUP_CN_00001'',
                 po_material_id = ''MAT_T3_00001'', order_date = 738886, due_date = 738900,
                 receipt_date = Some 738900, quantity_ordered = 1, quantity_received = 1,
                 unit_price = 19 / 10\<rparr>],
             asl_map = [''MAT_T3_00001'' \<mapsto> [''SUP_CN_00001''],
                        ''MAT_T0_00002'' \<mapsto> [''SUP_CN_00001'']],
             po_status_log = [Some ''Full'']\<rparr>, tapes [] [] [])"
  by (simp add: stage_eval order_eval draw_eval str_eval upt_eval pops_numeral_eval)

lemma unseeded_run_fk:
  "pipeline replay small_config (tapes [] [] [5])
     = Inr (\<lparr>df_suppliers =
               [\<lparr>supplier_id = ''SUP_CN_00001'', name = ''Acme Ltd'', country = ''CN'',
                 capacity_score = 50\<rparr>],
             df_materials =
               [\<lparr>material_id = ''MAT_T0_00001'', description = ''EV_Sedan'',
                 tier_level = 0, base_unit = ''EA'', cost_estimate = 5\<rparr>,
                \<lparr>material_id = ''MAT_T0_00002'', description = ''EV_Sedan'',
                 tier_level = 0, base_unit = ''EA'', cost_estimate = 5\<rparr>],
             df_bom = [],
             df_po =
               [\<lparr>po_id = ''PO-100000'', po_supplier_id = ''SUP_CN_00001'',
                 po_material_id = ''MAT_T0_00001'', order_date = 738891, due_date = 738905,
                 receipt_date = Some 738905, quantity_ordered = 1, quantity_received = 1,
                 unit_price = 19 / 4\<rparr>],
             asl_map = [''MAT_T0_00001'' \<mapsto> [''SUP_CN_00001''],
                        ''MAT_T0_00002'' \<mapsto> [''SUP_CN_00001'']],
             po_status_log = [Some ''Full'']\<rparr>, tapes [] [] [])"
  by (simp add: stage_eval order_eval draw_eval str_eval upt_eval pops_numeral_eval)

text \<open>
  C9. The script seeds each of its three generators with the same seed before any draw,
  and every draw it makes comes from one of the three. So two runs with the same seed and
  the same configuration give the same result (the same four record sets, or the same
  exception), whatever states the generators of the two runs started in; what is assumed
  of the libraries is that seeding reinitialises a generator. The seeding is what makes
  this so: started without it, the same computation gives different record sets from
  different starting states of \<^verbatim>\<open>random\<close>, of NumPy's generator and of Faker's.
\<close>

theorem same_seed_same_records:
  "(seed_resets L \<longrightarrow> (\<forall>s cfg g g'. run_script L s cfg g = run_script L s cfg g')) \<and>
   map_sum id fst (pipeline replay small_config (tapes [1] [] []))
     \<noteq> map_sum id fst (pipeline replay small_config (tapes [] [] [])) \<and>
   map_sum id fst (pipeline replay small_config (tapes [] [0, 3] []))
     \<noteq> map_sum id fst (pipeline replay small_config (tapes [] [] [])) \<and>
   map_sum id fst (pipeline replay small_config (tapes [] [] [5]))
     \<noteq> map_sum id fst (pipeline replay small_config (tapes [] [] []))"
proof (intro conjI impI allI)
  fix s cfg and g g' :: "('a, 'b, 'c) gens"
  assume "seed_resets L"
  then have "seed_all L s g = seed_all L s g'" by (rule seed_all_resets)
  then show "run_script L s cfg g = run_script L s cfg g'" by (simp add: run_script_def)
next
  show "map_sum id fst (pipeline replay small_config (tapes [1] [] []))
     \<noteq> map_sum id fst (pipeline replay small_config (tapes [] [] []))"
    unfolding unseeded_run unseeded_run_py by simp
next
  show "map_sum id fst (pipeline replay small_config (tapes [] [0, 3] []))
     \<noteq> map_sum id fst (pipeline replay small_config (tapes [] [] []))"
    unfolding unseeded_run unseeded_run_np by simp
next
  show "map_sum id fst (pipeline replay small_config (tapes [] [] [5]))
     \<noteq> map_sum id fst (pipeline replay small_config (tapes [] [] []))"
    unfolding unseeded_run unseeded_run_fk by simp
qed

lemma replay_seed_resets: "seed_resets replay"
  by (simp add: seed_resets_def)

theorem same_seed_same_records_witness:
  "seed_resets replay \<and>
   run_script replay seed small_config (tapes [1] [0, 3] [5])
     = run_script replay seed small_config (tapes [] [] [])"
  using replay_seed_resets
    same_seed_same_records[where L = replay, THEN conjunct1, rule_format,
      OF replay_seed_resets, of seed small_config "tapes [1] [0, 3] [5]" "tapes [] [] []"]
  by simp

end
